theory Spec2Isabelle
  imports Main "HOL-Library.Word"
begin

unbundle bit_operations_syntax

section \<open>The Health Thermometer profile client (profiles/thermometer/thermometer.c)\<close>

text \<open>
  A shallow embedding of thermometer.c. Every C function that is modelled keeps its name.
  Mutation is explicit state passing: a function takes the object it works on and returns
  the new object together with the list of calls it made to its collaborators (the GATT
  transport, the D-Bus layer, the log), in the order it made them. A function that would
  read outside a buffer, or through a pointer of the wrong type, returns \<open>None\<close>.
\<close>

type_synonym u8 = "8 word"
type_synonym u16 = "16 word"
type_synonym u32 = "32 word"
type_synonym u64 = "64 word"

subsection \<open>Constants\<close>

definition TEMP_UNITS :: u8 where "TEMP_UNITS = 0x01"
definition TEMP_TIME_STAMP :: u8 where "TEMP_TIME_STAMP = 0x02"
definition TEMP_TYPE :: u8 where "TEMP_TYPE = 0x04"

definition FLOAT_MAX_MANTISSA :: u32 where "FLOAT_MAX_MANTISSA = 16777216"

text \<open>
  The UUID strings, the two descriptor UUIDs and the two configuration bits are macros of
  the Bluetooth library headers (uuid.h, att.h), which are not part of thermometer.c. They
  are the values the Bluetooth assigned numbers give.
\<close>

definition TEMPERATURE_MEASUREMENT_UUID :: string where
  "TEMPERATURE_MEASUREMENT_UUID = ''00002a1c-0000-1000-8000-00805f9b34fb''"
definition TEMPERATURE_TYPE_UUID :: string where
  "TEMPERATURE_TYPE_UUID = ''00002a1d-0000-1000-8000-00805f9b34fb''"
definition INTERMEDIATE_TEMPERATURE_UUID :: string where
  "INTERMEDIATE_TEMPERATURE_UUID = ''00002a1e-0000-1000-8000-00805f9b34fb''"
definition MEASUREMENT_INTERVAL_UUID :: string where
  "MEASUREMENT_INTERVAL_UUID = ''00002a21-0000-1000-8000-00805f9b34fb''"

definition GATT_CLIENT_CHARAC_CFG_UUID :: u16 where "GATT_CLIENT_CHARAC_CFG_UUID = 0x2902"
definition GATT_CHARAC_VALID_RANGE_UUID :: u16 where "GATT_CHARAC_VALID_RANGE_UUID = 0x2906"
definition GATT_CLIENT_CHARAC_CFG_NOTIF_BIT :: u16 where "GATT_CLIENT_CHARAC_CFG_NOTIF_BIT = 0x0001"
definition GATT_CLIENT_CHARAC_CFG_IND_BIT :: u16 where "GATT_CLIENT_CHARAC_CFG_IND_BIT = 0x0002"

subsection \<open>Data\<close>

text \<open>
  \<open>bt_uuid_t\<close> is kept in its 128-bit form, the form in which \<open>bt_uuid_cmp\<close> compares two
  UUIDs; \<open>bt_uuid16_create\<close> places a 16-bit UUID in the Bluetooth base UUID.
\<close>

type_synonym bt_uuid = "128 word"

definition bt_uuid16_create :: "u16 \<Rightarrow> bt_uuid" where
  "bt_uuid16_create v = push_bit 96 (ucast v) OR 0x00001000800000805F9B34FB"

text \<open>\<open>struct gatt_char\<close> (gatt.h): the fields thermometer.c uses.\<close>

record gatt_char =
  gc_uuid :: string
  gc_handle :: u16
  gc_properties :: u8
  gc_value_handle :: u16

record descriptor =
  d_handle :: u16
  d_uuid :: bt_uuid

record characteristic =
  attr :: gatt_char
  desc :: "descriptor list"

record att_range =
  r_start :: u16
  r_end :: u16

text \<open>
  \<open>struct thermometer\<close>. \<open>dev\<close> stands for the device reference, \<open>attrib\<close> for the GATT
  connection (\<open>None\<close> is the NULL pointer). The back-pointer \<open>tadapter\<close> is not stored: a
  function that follows it takes the adapter's watcher lists as arguments.
\<close>

record thermometer =
  dev :: nat
  attrib :: "nat option"
  svc_range :: att_range
  attioid :: nat
  attindid :: nat
  attnotid :: nat
  chars :: "characteristic list"
  intermediate :: bool
  t_type :: u8
  interval :: u16
  t_max :: u16
  t_min :: u16
  has_type :: bool
  has_interval :: bool

text \<open>
  \<open>struct watcher\<close>, without the back-pointer to the adapter. The lists of an adapter
  hold pointers to watchers; here they hold the watchers. \<open>register_watcher\<close> refuses a
  second watcher with the endpoint and path of one in the list, so two watchers of a list
  differ as records exactly when they are different objects.
\<close>

record watcher =
  w_id :: nat
  w_srv :: string
  w_path :: string

record thermometer_adapter =
  adapter :: nat
  devices :: "thermometer list"
  fwatchers :: "watcher list"
  iwatchers :: "watcher list"

record measurement =
  m_exp :: u16
  m_mant :: u32
  m_time :: u64
  m_suptime :: bool
  m_unit :: string
  m_type :: "string option"
  m_value :: string

text \<open>The object a \<open>gpointer value\<close> of \<open>change_property\<close> points to.\<close>

datatype pvalue = PBool bool | PU16 u16

datatype log_arg = LStr string | LNum int

text \<open>The user data of a pending GATT request: the callback and what it was given.\<close>

datatype callback =
    Write_ccc_cb string "log_arg list"
  | Write_interval_cb u16
  | Read_temp_type_cb nat
  | Read_interval_cb nat
  | Valid_range_desc_cb nat nat
  | Discover_desc_cb nat
  | Configure_thermometer_cb

text \<open>
  The calls to the collaborators. A GATT call carries the \<open>GAttrib\<close> pointer it was given,
  a log call its format string and arguments.
\<close>

datatype effect =
    DBG string "log_arg list"
  | Error_log string "log_arg list"
  | Emit_property_changed nat string pvalue
  | Gatt_write_char "nat option" u16 "u8 list" callback
  | Gatt_read_char "nat option" u16 callback
  | Gatt_find_info "nat option" u16 u16 callback
  | Gatt_discover_char "nat option" u16 u16 callback
  | G_attrib_send "nat option" "u8 list"
  | G_attrib_register "nat option" u8
  | G_attrib_unregister "nat option" nat
  | G_dbus_add_disconnect_watch string nat
  | G_dbus_remove_watch nat
  | Measurement_received string string nat measurement

subsection \<open>Lists (GSList)\<close>

text \<open>
  \<open>g_slist_find_custom\<close> returns the first element on which the comparison gives 0,
  \<open>g_slist_remove\<close> removes the first occurrence, \<open>g_slist_prepend\<close> is \<open>#\<close> and
  \<open>g_slist_append\<close> adds at the end.
\<close>

definition g_slist_find_custom :: "'a list \<Rightarrow> ('a \<Rightarrow> bool) \<Rightarrow> 'a option" where
  "g_slist_find_custom l cmp0 = find cmp0 l"

definition g_slist_remove :: "'a list \<Rightarrow> 'a \<Rightarrow> 'a list" where
  "g_slist_remove l x = remove1 x l"

definition g_slist_append :: "'a list \<Rightarrow> 'a \<Rightarrow> 'a list" where
  "g_slist_append l x = l @ [x]"

definition cmp_watcher :: "string \<Rightarrow> string \<Rightarrow> watcher \<Rightarrow> bool" where
  "cmp_watcher sender path w = (w_srv w = sender \<and> w_path w = path)"

definition cmp_char_uuid :: "string \<Rightarrow> characteristic \<Rightarrow> bool" where
  "cmp_char_uuid uuid ch = (gc_uuid (attr ch) = uuid)"

definition cmp_char_val_handle :: "u16 \<Rightarrow> characteristic \<Rightarrow> bool" where
  "cmp_char_val_handle handle ch = (int (unat (gc_value_handle (attr ch))) - int (unat handle) = 0)"

definition cmp_descriptor :: "bt_uuid \<Rightarrow> descriptor \<Rightarrow> bool" where
  "cmp_descriptor uuid d = (d_uuid d = uuid)"

definition get_characteristic :: "thermometer \<Rightarrow> string \<Rightarrow> characteristic option" where
  "get_characteristic t uuid = g_slist_find_custom (chars t) (cmp_char_uuid uuid)"

definition get_descriptor :: "characteristic \<Rightarrow> bt_uuid \<Rightarrow> descriptor option" where
  "get_descriptor ch uuid = g_slist_find_custom (desc ch) (cmp_descriptor uuid)"

subsection \<open>Byte order (att.h)\<close>

text \<open>
  Modelled from the spec: \<open>att_get_u16\<close>, \<open>att_get_u32\<close> and \<open>att_put_u16\<close> are inline
  functions of att.h, which is not part of thermometer.c. The specification reads every
  attribute value as little-endian. The argument is the buffer from the pointer on; a read
  past its end is \<open>None\<close>. \<open>le32\<close> is the 32-bit value of four bytes, the least
  significant first.
\<close>

definition att_get_u16 :: "u8 list \<Rightarrow> u16 option" where
  "att_get_u16 p =
     (case p of b0 # b1 # _ \<Rightarrow> Some (ucast b0 OR push_bit 8 (ucast b1)) | _ \<Rightarrow> None)"

definition le32 :: "u8 \<Rightarrow> u8 \<Rightarrow> u8 \<Rightarrow> u8 \<Rightarrow> u32" where
  "le32 b0 b1 b2 b3 =
     ucast b0 OR push_bit 8 (ucast b1) OR push_bit 16 (ucast b2) OR push_bit 24 (ucast b3)"

definition att_get_u32 :: "u8 list \<Rightarrow> u32 option" where
  "att_get_u32 p =
     (case p of b0 # b1 # b2 # b3 # _ \<Rightarrow> Some (le32 b0 b1 b2 b3) | _ \<Rightarrow> None)"

definition att_put_u16 :: "u16 \<Rightarrow> u8 list" where
  "att_put_u16 v = [ucast v, ucast (drop_bit 8 v)]"

text \<open>\<open>*pdu\<close> and \<open>*(pdu + i)\<close>.\<close>

definition deref :: "u8 list \<Rightarrow> nat \<Rightarrow> u8 option" where
  "deref p i = (if i < length p then Some (p ! i) else None)"

subsection \<open>change_property\<close>

text \<open>
  The property name selects the type \<open>value\<close> is read at: \<open>gboolean\<close> for Intermediate,
  \<open>uint16_t\<close> for Interval, Maximum and Minimum. A value of the other type is \<open>None\<close>.
\<close>

definition change_property ::
  "thermometer \<Rightarrow> string \<Rightarrow> pvalue \<Rightarrow> (thermometer \<times> effect list) option" where
  "change_property t name v =
     (if name = ''Intermediate'' then
        (case v of
           PBool b \<Rightarrow>
             if intermediate t = b then Some (t, [])
             else Some (t\<lparr>intermediate := b\<rparr>,
                        [Emit_property_changed (dev t) name (PBool b)])
         | PU16 _ \<Rightarrow> None)
      else if name = ''Interval'' then
        (case v of
           PU16 i \<Rightarrow>
             if has_interval t \<and> interval t = i then Some (t, [])
             else Some (t\<lparr>has_interval := True, interval := i\<rparr>,
                        [Emit_property_changed (dev t) name (PU16 i)])
         | PBool _ \<Rightarrow> None)
      else if name = ''Maximum'' then
        (case v of
           PU16 m \<Rightarrow>
             if t_max t = m then Some (t, [])
             else Some (t\<lparr>t_max := m\<rparr>, [Emit_property_changed (dev t) name (PU16 m)])
         | PBool _ \<Rightarrow> None)
      else if name = ''Minimum'' then
        (case v of
           PU16 m \<Rightarrow>
             if t_min t = m then Some (t, [])
             else Some (t\<lparr>t_min := m\<rparr>, [Emit_property_changed (dev t) name (PU16 m)])
         | PBool _ \<Rightarrow> None)
      else Some (t, [DBG ''%s is not a thermometer property'' [LStr name]]))"

text \<open>The property-changed signals among the calls made.\<close>

fun is_signal :: "effect \<Rightarrow> bool" where
  "is_signal (Emit_property_changed _ _ _) = True"
| "is_signal _ = False"

definition signals :: "effect list \<Rightarrow> effect list" where
  "signals es = filter is_signal es"

subsection \<open>Descriptor and characteristic discovery\<close>

text \<open>
  The outcome of \<open>dec_read_resp (pdu, len, value, sizeof (value))\<close> (att.h): a negative
  return, or the \<open>vlen\<close> bytes it copied into \<open>value\<close>.
\<close>

datatype read_resp = Protocol_error | Read_value "u8 list"

definition valid_range_desc_cb ::
  "thermometer \<Rightarrow> u8 \<Rightarrow> read_resp \<Rightarrow> (thermometer \<times> effect list) option" where
  "valid_range_desc_cb t status resp =
     (if status \<noteq> 0 then
        Some (t, [DBG ''Valid Range descriptor read failed: %s'' [LNum (uint status)]])
      else
        (case resp of
           Protocol_error \<Rightarrow> Some (t, [DBG ''Protocol error\<newline>'' []])
         | Read_value val \<Rightarrow>
            if int (length val) < 4 then Some (t, [DBG ''Invalid range received'' []])
            else
              (case (att_get_u16 val, att_get_u16 (drop 2 val)) of
                 (Some mn, Some mx) \<Rightarrow>
                   if mn = 0 \<or> mn > mx then Some (t, [DBG ''Invalid range'' []])
                   else
                     (case change_property t ''Maximum'' (PU16 mx) of
                        None \<Rightarrow> None
                      | Some (t1, es1) \<Rightarrow>
                          (case change_property t1 ''Minimum'' (PU16 mn) of
                             None \<Rightarrow> None
                           | Some (t2, es2) \<Rightarrow> Some (t2, es1 @ es2)))
               | _ \<Rightarrow> None)))"

definition write_ccc_cb :: "u8 \<Rightarrow> string \<Rightarrow> log_arg list \<Rightarrow> effect list" where
  "write_ccc_cb status msg args =
     (if status \<noteq> 0 then [Error_log (msg @ '' failed'') args] else [])"

text \<open>
  \<open>process_thermometer_desc\<close> for the descriptor \<open>d\<close> at position \<open>di\<close> of the
  characteristic \<open>ch\<close> at position \<open>ci\<close> of \<open>t\<close>; \<open>fw\<close> and \<open>iw\<close> are the watcher lists of
  the thermometer's adapter. It changes nothing in the thermometer.
\<close>

definition process_thermometer_desc ::
  "thermometer \<Rightarrow> watcher list \<Rightarrow> watcher list \<Rightarrow> nat \<Rightarrow> characteristic \<Rightarrow> nat \<Rightarrow>
   descriptor \<Rightarrow> effect list" where
  "process_thermometer_desc t fw iw ci ch di d =
     (let ignored = [DBG ''Ignored descriptor %s in characteristic %s''
                       [LNum (uint (d_uuid d)), LStr (gc_uuid (attr ch))]] in
      if d_uuid d = bt_uuid16_create GATT_CLIENT_CHARAC_CFG_UUID then
        if gc_uuid (attr ch) = TEMPERATURE_MEASUREMENT_UUID then
          if length fw = 0 then []
          else [Gatt_write_char (attrib t) (d_handle d)
                  (att_put_u16 GATT_CLIENT_CHARAC_CFG_IND_BIT)
                  (Write_ccc_cb ''Enable Temperature Measurement indication'' [])]
        else if gc_uuid (attr ch) = INTERMEDIATE_TEMPERATURE_UUID then
          if length iw = 0 then []
          else [Gatt_write_char (attrib t) (d_handle d)
                  (att_put_u16 GATT_CLIENT_CHARAC_CFG_NOTIF_BIT)
                  (Write_ccc_cb ''Enable Intermediate Temperature notification'' [])]
        else if gc_uuid (attr ch) = MEASUREMENT_INTERVAL_UUID then
          [Gatt_write_char (attrib t) (d_handle d)
             (att_put_u16 GATT_CLIENT_CHARAC_CFG_IND_BIT)
             (Write_ccc_cb ''Enable Measurement Interval indication'' [])]
        else ignored
      else if d_uuid d = bt_uuid16_create GATT_CHARAC_VALID_RANGE_UUID
              \<and> gc_uuid (attr ch) = MEASUREMENT_INTERVAL_UUID then
        [Gatt_read_char (attrib t) (d_handle d) (Valid_range_desc_cb ci di)]
      else ignored)"

text \<open>
  The loop of \<open>discover_desc_cb\<close> over the entries of the response: each descriptor is
  appended to the characteristic and then processed.
\<close>

fun discover_desc_loop ::
  "thermometer \<Rightarrow> watcher list \<Rightarrow> watcher list \<Rightarrow> nat \<Rightarrow> characteristic \<Rightarrow>
   (u16 \<times> bt_uuid) list \<Rightarrow> characteristic \<times> effect list" where
  "discover_desc_loop t fw iw ci ch [] = (ch, [])"
| "discover_desc_loop t fw iw ci ch ((h, u) # rest) =
     (let d = \<lparr>d_handle = h, d_uuid = u\<rparr>;
          ch1 = ch\<lparr>desc := g_slist_append (desc ch) d\<rparr>;
          es1 = process_thermometer_desc t fw iw ci ch1 (length (desc ch)) d;
          (ch2, es2) = discover_desc_loop t fw iw ci ch1 rest
      in (ch2, es1 @ es2))"

text \<open>
  \<open>discover_desc_cb\<close> for the characteristic at position \<open>ci\<close>. \<open>resp\<close> is the outcome of
  \<open>dec_find_info_resp\<close> (att.h): NULL, or the handle and the UUID of every entry.
\<close>

definition discover_desc_cb ::
  "thermometer \<Rightarrow> watcher list \<Rightarrow> watcher list \<Rightarrow> nat \<Rightarrow> u8 \<Rightarrow>
   (u16 \<times> bt_uuid) list option \<Rightarrow> (thermometer \<times> effect list) option" where
  "discover_desc_cb t fw iw ci status resp =
     (if \<not> ci < length (chars t) then None
      else if status \<noteq> 0 then
        Some (t, [Error_log ''Discover all characteristic descriptors failed [%s]: %s''
                    [LStr (gc_uuid (attr (chars t ! ci))), LNum (uint status)]])
      else
        case resp of
          None \<Rightarrow> Some (t, [])
        | Some entries \<Rightarrow>
            (let (ch', es) = discover_desc_loop t fw iw ci (chars t ! ci) entries
             in Some (t\<lparr>chars := (chars t)[ci := ch']\<rparr>, es)))"

definition read_temp_type_cb ::
  "thermometer \<Rightarrow> u8 \<Rightarrow> read_resp \<Rightarrow> (thermometer \<times> effect list) option" where
  "read_temp_type_cb t status resp =
     (if status \<noteq> 0 then
        Some (t, [DBG ''Temperature Type value read failed: %s'' [LNum (uint status)]])
      else
        case resp of
          Protocol_error \<Rightarrow> Some (t, [DBG ''Protocol error.'' []])
        | Read_value val \<Rightarrow>
            if int (length val) \<noteq> 1 then
              Some (t, [DBG ''Invalid length for Temperature type'' []])
            else
              (case deref val 0 of
                 None \<Rightarrow> None
               | Some b \<Rightarrow> Some (t\<lparr>has_type := True, t_type := b\<rparr>, [])))"

definition read_interval_cb ::
  "thermometer \<Rightarrow> u8 \<Rightarrow> read_resp \<Rightarrow> (thermometer \<times> effect list) option" where
  "read_interval_cb t status resp =
     (if status \<noteq> 0 then
        Some (t, [DBG ''Measurement Interval value read failed: %s'' [LNum (uint status)]])
      else
        case resp of
          Protocol_error \<Rightarrow> Some (t, [DBG ''Protocol error\<newline>'' []])
        | Read_value val \<Rightarrow>
            if int (length val) < 2 then Some (t, [DBG ''Invalid Interval received'' []])
            else
              (case att_get_u16 val of
                 None \<Rightarrow> None
               | Some i \<Rightarrow> change_property t ''Interval'' (PU16 i)))"

text \<open>\<open>process_thermometer_char\<close> for the characteristic \<open>ch\<close>, at position \<open>ci\<close> of \<open>t\<close>.\<close>

definition process_thermometer_char ::
  "thermometer \<Rightarrow> nat \<Rightarrow> characteristic \<Rightarrow> (thermometer \<times> effect list) option" where
  "process_thermometer_char t ci ch =
     (if gc_uuid (attr ch) = INTERMEDIATE_TEMPERATURE_UUID then
        change_property t ''Intermediate'' (PBool True)
      else if gc_uuid (attr ch) = TEMPERATURE_TYPE_UUID then
        Some (t, [Gatt_read_char (attrib t) (gc_value_handle (attr ch)) (Read_temp_type_cb ci)])
      else if gc_uuid (attr ch) = MEASUREMENT_INTERVAL_UUID then
        Some (t, [Gatt_read_char (attrib t) (gc_value_handle (attr ch)) (Read_interval_cb ci)])
      else Some (t, []))"

text \<open>The loop of \<open>configure_thermometer_cb\<close> over the discovered characteristics.\<close>

fun configure_thermometer_loop ::
  "thermometer \<Rightarrow> gatt_char list \<Rightarrow> (thermometer \<times> effect list) option" where
  "configure_thermometer_loop t [] = Some (t, [])"
| "configure_thermometer_loop t (c # rest) =
     (let ch = \<lparr>attr = \<lparr>gc_uuid = gc_uuid c, gc_handle = gc_handle c,
                         gc_properties = gc_properties c,
                         gc_value_handle = gc_value_handle c\<rparr>,
                 desc = []\<rparr>;
          ci = length (chars t);
          t1 = t\<lparr>chars := g_slist_append (chars t) ch\<rparr>
      in case process_thermometer_char t1 ci ch of None \<Rightarrow> None
         | Some (t2, es1) \<Rightarrow>
           (let start = gc_value_handle c + 1;
                es2 =
                  (case rest of
                     c' # _ \<Rightarrow>
                       if start = gc_handle c' then []
                       else [Gatt_find_info (attrib t2) start (gc_handle c' - 1)
                               (Discover_desc_cb ci)]
                   | [] \<Rightarrow>
                       if gc_value_handle c \<noteq> r_end (svc_range t2) then
                         [Gatt_find_info (attrib t2) start (r_end (svc_range t2))
                            (Discover_desc_cb ci)]
                       else [])
            in case configure_thermometer_loop t2 rest of None \<Rightarrow> None
               | Some (t3, es3) \<Rightarrow> Some (t3, es1 @ es2 @ es3)))"

definition configure_thermometer_cb ::
  "thermometer \<Rightarrow> gatt_char list \<Rightarrow> u8 \<Rightarrow> (thermometer \<times> effect list) option" where
  "configure_thermometer_cb t characteristics status =
     (if status \<noteq> 0 then
        Some (t, [Error_log ''Discover thermometer characteristics: %s'' [LNum (uint status)]])
      else configure_thermometer_loop t characteristics)"

subsection \<open>The Interval property\<close>

datatype reply =
    Method_return
  | Btd_error_invalid_args
  | Btd_error_already_exists
  | Btd_error_does_not_exist
  | Btd_error_not_connected
  | Btd_error_not_available

text \<open>A D-Bus message: its sender and its arguments, of the types that occur here.\<close>

datatype dbus_arg =
    Arg_string string
  | Arg_object_path string
  | Arg_uint16 u16
  | Arg_boolean bool
  | Arg_variant dbus_arg

record dbus_message =
  sender :: string
  args :: "dbus_arg list"

text \<open>\<open>write_interval_cb\<close>; \<open>resp_ok\<close> is the result of \<open>dec_write_resp\<close> (att.h).\<close>

definition write_interval_cb ::
  "thermometer \<Rightarrow> u8 \<Rightarrow> bool \<Rightarrow> u16 \<Rightarrow> (thermometer \<times> effect list) option" where
  "write_interval_cb t status resp_ok data_interval =
     (if status \<noteq> 0 then
        Some (t, [Error_log ''Interval Write Request failed %s'' [LNum (uint status)]])
      else if \<not> resp_ok then
        Some (t, [Error_log ''Interval Write Request: protocol error'' []])
      else change_property t ''Interval'' (PU16 data_interval))"

definition write_attr_interval :: "thermometer \<Rightarrow> u16 \<Rightarrow> reply \<times> effect list" where
  "write_attr_interval t val =
     (if attrib t = None then (Btd_error_not_connected, [])
      else
        (case get_characteristic t MEASUREMENT_INTERVAL_UUID of
           None \<Rightarrow> (Btd_error_not_available, [])
         | Some ch \<Rightarrow>
             if val < t_min t \<or> val > t_max t then (Btd_error_invalid_args, [])
             else
               (Method_return,
                [Gatt_write_char (attrib t) (gc_value_handle (attr ch)) (att_put_u16 val)
                   (Write_interval_cb val)])))"

definition set_property :: "thermometer \<Rightarrow> dbus_message \<Rightarrow> reply \<times> effect list" where
  "set_property t msg =
     (case args msg of
        Arg_string property # rest \<Rightarrow>
          if property \<noteq> ''Interval'' then (Btd_error_invalid_args, [])
          else if \<not> has_interval t then (Btd_error_not_available, [])
          else
            (case rest of
               Arg_variant (Arg_uint16 val) # _ \<Rightarrow> write_attr_interval t val
             | _ \<Rightarrow> (Btd_error_invalid_args, []))
      | _ \<Rightarrow> (Btd_error_invalid_args, []))"

subsection \<open>Client characteristic configuration\<close>

definition write_ccc :: "thermometer \<Rightarrow> string \<Rightarrow> u16 \<Rightarrow> effect list" where
  "write_ccc t uuid val =
     (if attrib t = None then []
      else
        (case get_characteristic t uuid of
           None \<Rightarrow> [DBG ''Characteristic %s not found'' [LStr uuid]]
         | Some ch \<Rightarrow>
             (case get_descriptor ch (bt_uuid16_create GATT_CLIENT_CHARAC_CFG_UUID) of
                None \<Rightarrow> [DBG ''CCC descriptor for %s not found'' [LStr uuid]]
              | Some d \<Rightarrow>
                  [Gatt_write_char (attrib t) (d_handle d) (att_put_u16 val)
                     (Write_ccc_cb ''Write CCC: %04x for %s'' [LNum (uint val), LStr uuid])])))"

definition enable_final_measurement :: "thermometer \<Rightarrow> effect list" where
  "enable_final_measurement t =
     write_ccc t TEMPERATURE_MEASUREMENT_UUID GATT_CLIENT_CHARAC_CFG_IND_BIT"

definition enable_intermediate_measurement :: "thermometer \<Rightarrow> effect list" where
  "enable_intermediate_measurement t =
     write_ccc t INTERMEDIATE_TEMPERATURE_UUID GATT_CLIENT_CHARAC_CFG_NOTIF_BIT"

definition disable_final_measurement :: "thermometer \<Rightarrow> effect list" where
  "disable_final_measurement t = write_ccc t TEMPERATURE_MEASUREMENT_UUID 0x0000"

definition disable_intermediate_measurement :: "thermometer \<Rightarrow> effect list" where
  "disable_intermediate_measurement t = write_ccc t INTERMEDIATE_TEMPERATURE_UUID 0x0000"

text \<open>\<open>g_slist_foreach\<close> with a function that only makes calls: one after the other.\<close>

definition g_slist_foreach :: "'a list \<Rightarrow> ('a \<Rightarrow> effect list) \<Rightarrow> effect list" where
  "g_slist_foreach l f = concat (map f l)"

subsection \<open>The watcher registry\<close>

definition remove_int_watcher ::
  "thermometer_adapter \<Rightarrow> watcher \<Rightarrow> thermometer_adapter \<times> effect list" where
  "remove_int_watcher tadapter w =
     (if w \<notin> set (iwatchers tadapter) then (tadapter, [])
      else
        (let ta' = tadapter\<lparr>iwatchers := g_slist_remove (iwatchers tadapter) w\<rparr>
         in (ta',
             if length (iwatchers ta') = 0 then
               g_slist_foreach (devices ta') disable_intermediate_measurement
             else [])))"

definition watcher_exit ::
  "thermometer_adapter \<Rightarrow> watcher \<Rightarrow> thermometer_adapter \<times> effect list" where
  "watcher_exit tadapter w =
     (let (ta1, es1) = remove_int_watcher tadapter w;
          ta2 = ta1\<lparr>fwatchers := g_slist_remove (fwatchers ta1) w\<rparr>
      in (ta2,
          [DBG ''Thermometer watcher %s disconnected'' [LStr (w_path w)]] @ es1
          @ [G_dbus_remove_watch (w_id w)]
          @ (if length (fwatchers ta2) = 0 then
               g_slist_foreach (devices ta2) disable_final_measurement
             else [])))"

definition find_watcher :: "watcher list \<Rightarrow> string \<Rightarrow> string \<Rightarrow> watcher option" where
  "find_watcher l sndr path = g_slist_find_custom l (cmp_watcher sndr path)"

text \<open>
  \<open>dbus_message_get_args (msg, NULL, DBUS_TYPE_OBJECT_PATH, &path, DBUS_TYPE_INVALID)\<close>:
  the first argument, when it is an object path.
\<close>

definition get_args_object_path :: "dbus_message \<Rightarrow> string option" where
  "get_args_object_path msg =
     (case args msg of Arg_object_path path # _ \<Rightarrow> Some path | _ \<Rightarrow> None)"

text \<open>
  \<open>register_watcher\<close>; \<open>wid\<close> is the identifier \<open>g_dbus_add_disconnect_watch\<close> returns.
\<close>

definition register_watcher ::
  "thermometer_adapter \<Rightarrow> dbus_message \<Rightarrow> nat \<Rightarrow> reply \<times> thermometer_adapter \<times> effect list"
  where
  "register_watcher tadapter msg wid =
     (case get_args_object_path msg of
        None \<Rightarrow> (Btd_error_invalid_args, tadapter, [])
      | Some path \<Rightarrow>
          (case find_watcher (fwatchers tadapter) (sender msg) path of
             Some _ \<Rightarrow> (Btd_error_already_exists, tadapter, [])
           | None \<Rightarrow>
               (let w = \<lparr>w_id = wid, w_srv = sender msg, w_path = path\<rparr>
                in (Method_return,
                    tadapter\<lparr>fwatchers := w # fwatchers tadapter\<rparr>,
                    [DBG ''Thermometer watcher %s registered'' [LStr path],
                     G_dbus_add_disconnect_watch (sender msg) wid]
                    @ (if length (fwatchers tadapter) = 0 then
                         g_slist_foreach (devices tadapter) enable_final_measurement
                       else [])))))"

definition unregister_watcher ::
  "thermometer_adapter \<Rightarrow> dbus_message \<Rightarrow> reply \<times> thermometer_adapter \<times> effect list" where
  "unregister_watcher tadapter msg =
     (case get_args_object_path msg of
        None \<Rightarrow> (Btd_error_invalid_args, tadapter, [])
      | Some path \<Rightarrow>
          (case find_watcher (fwatchers tadapter) (sender msg) path of
             None \<Rightarrow> (Btd_error_does_not_exist, tadapter, [])
           | Some w \<Rightarrow>
               (let (ta1, es1) = remove_int_watcher tadapter w;
                    ta2 = ta1\<lparr>fwatchers := g_slist_remove (fwatchers ta1) w\<rparr>
                in (Method_return, ta2,
                    [DBG ''Thermometer watcher %s unregistered'' [LStr path]] @ es1
                    @ [G_dbus_remove_watch (w_id w)]
                    @ (if length (fwatchers ta2) = 0 then
                         g_slist_foreach (devices ta2) disable_final_measurement
                       else [])))))"

definition enable_intermediate ::
  "thermometer_adapter \<Rightarrow> dbus_message \<Rightarrow> reply \<times> thermometer_adapter \<times> effect list" where
  "enable_intermediate ta msg =
     (case get_args_object_path msg of
        None \<Rightarrow> (Btd_error_invalid_args, ta, [])
      | Some path \<Rightarrow>
          (case find_watcher (fwatchers ta) (sender msg) path of
             None \<Rightarrow> (Btd_error_does_not_exist, ta, [])
           | Some w \<Rightarrow>
               if find_watcher (iwatchers ta) (sender msg) path \<noteq> None then
                 (Btd_error_already_exists, ta, [])
               else
                 (Method_return,
                  ta\<lparr>iwatchers := w # iwatchers ta\<rparr>,
                  [DBG ''Intermediate measurement watcher %s registered'' [LStr path]]
                  @ (if length (iwatchers ta) = 0 then
                       g_slist_foreach (devices ta) enable_intermediate_measurement
                     else []))))"

definition disable_intermediate ::
  "thermometer_adapter \<Rightarrow> dbus_message \<Rightarrow> reply \<times> thermometer_adapter \<times> effect list" where
  "disable_intermediate ta msg =
     (case get_args_object_path msg of
        None \<Rightarrow> (Btd_error_invalid_args, ta, [])
      | Some path \<Rightarrow>
          (case find_watcher (iwatchers ta) (sender msg) path of
             None \<Rightarrow> (Btd_error_does_not_exist, ta, [])
           | Some w \<Rightarrow>
               (let (ta1, es1) = remove_int_watcher ta w
                in (Method_return, ta1,
                    [DBG ''Intermediate measurement %s unregistered'' [LStr path]] @ es1))))"

subsection \<open>Measurements\<close>

definition temp_type :: "string list" where
  "temp_type = [''<reserved>'', ''armpit'', ''body'', ''ear'', ''finger'', ''intestines'',
                ''mouth'', ''rectum'', ''toe'', ''tympanum'']"

definition temptype2str :: "u8 \<Rightarrow> string option \<times> effect list" where
  "temptype2str v =
     (if v > 0 \<and> unat v < length temp_type then (Some (temp_type ! unat v), [])
      else (None, [Error_log ''Temperature type %d reserved for future use'' [LNum (uint v)]]))"

text \<open>
  \<open>update_watcher\<close> sends the method call MeasurementReceived to the watcher, with the path
  of the thermometer's device and the fields of the measurement. (It returns without
  sending when the message cannot be allocated; memory never runs out here.)
\<close>

definition update_watcher :: "thermometer \<Rightarrow> measurement \<Rightarrow> watcher \<Rightarrow> effect list" where
  "update_watcher t m w = [Measurement_received (w_srv w) (w_path w) (dev t) m]"

definition recv_measurement ::
  "thermometer \<Rightarrow> watcher list \<Rightarrow> watcher list \<Rightarrow> measurement \<Rightarrow> effect list" where
  "recv_measurement t fw iw m =
     (let wlist = (if m_value m = ''intermediate'' then iw else fw)
      in g_slist_foreach wlist (update_watcher t m))"

record tm =
  tm_sec :: int
  tm_min :: int
  tm_hour :: int
  tm_mday :: int
  tm_mon :: int
  tm_year :: int
  tm_isdst :: int

text \<open>
  Lines 1070 to 1093 of \<open>proc_measurement\<close>: the time stamp, when the flags announce one.
  The result is the debug message when the payload is too short, else the measurement, the
  rest of the buffer and its length. \<open>mktime\<close> is the C library's, an argument here.
\<close>

definition proc_measurement_time ::
  "(tm \<Rightarrow> int) \<Rightarrow> u8 \<Rightarrow> measurement \<Rightarrow> u8 list \<Rightarrow> u16 \<Rightarrow>
   (effect list + measurement \<times> u8 list \<times> u16) option" where
  "proc_measurement_time mktime flags m pdu len =
     (if flags AND TEMP_TIME_STAMP \<noteq> 0 then
        if len < 7 then Some (Inl [DBG ''Time stamp is not provided'' []])
        else
          Option.bind (att_get_u16 pdu) (\<lambda>year.
          Option.bind (deref pdu 2) (\<lambda>mon.
          Option.bind (deref pdu 3) (\<lambda>mday.
          Option.bind (deref pdu 4) (\<lambda>hour.
          Option.bind (deref pdu 5) (\<lambda>mn.
          Option.bind (deref pdu 6) (\<lambda>sec.
            (let ts = \<lparr>tm_sec = uint sec, tm_min = uint mn, tm_hour = uint hour,
                       tm_mday = uint mday, tm_mon = uint mon - 1,
                       tm_year = uint year - 1900, tm_isdst = - 1\<rparr>
             in Some (Inr (m\<lparr>m_time := word_of_int (mktime ts), m_suptime := True\<rparr>,
                           drop 7 pdu, len - 7)))))))))
      else Some (Inr (m, pdu, len)))"

text \<open>Lines 1095 to 1104: the type, from the payload or from the thermometer.\<close>

definition proc_measurement_type ::
  "thermometer \<Rightarrow> u8 \<Rightarrow> u8 list \<Rightarrow> u16 \<Rightarrow> (effect list + string option \<times> effect list) option"
  where
  "proc_measurement_type t flags pdu len =
     (if flags AND TEMP_TYPE \<noteq> 0 then
        if len < 1 then Some (Inl [DBG ''Temperature type is not provided'' []])
        else Option.bind (deref pdu 0) (\<lambda>b. Some (Inr (temptype2str b)))
      else if has_type t then Some (Inr (temptype2str (t_type t)))
      else Some (Inr (None, [])))"

text \<open>
  Lines 1032 to 1107 of \<open>proc_measurement\<close>: the decoding. The result is the debug message
  of the check that stopped it, or the measurement and what was logged on the way.
\<close>

definition proc_measurement_decode ::
  "thermometer \<Rightarrow> (tm \<Rightarrow> int) \<Rightarrow> u8 list \<Rightarrow> u16 \<Rightarrow> bool \<Rightarrow>
   (effect list + measurement \<times> effect list) option" where
  "proc_measurement_decode t mktime pdu0 len0 final =
     (let pdu1 = drop 3 pdu0; len1 = len0 - 3 in
      if len1 < 1 then Some (Inl [DBG ''Mandatory flags are not provided'' []])
      else
        Option.bind (deref pdu1 0) (\<lambda>flags.
          (let m0 = \<lparr>m_exp = 0, m_mant = 0, m_time = 0, m_suptime = False,
                     m_unit = (if flags AND TEMP_UNITS \<noteq> 0 then ''fahrenheit''
                               else ''celsius''),
                     m_type = None, m_value = []\<rparr>;
               pdu2 = drop 1 pdu1; len2 = len1 - 1 in
           if len2 < 4 then
             Some (Inl [DBG ''Mandatory temperature measurement value is not provided'' []])
           else
             Option.bind (att_get_u32 pdu2) (\<lambda>raw.
               (let m1 = m0\<lparr>m_mant := raw AND 0x00FFFFFF,
                             m_exp := scast (signed_drop_bit 24 raw)\<rparr>;
                    m2 = (if m_mant m1 AND 0x00800000 \<noteq> 0
                          then m1\<lparr>m_mant := m_mant m1 - FLOAT_MAX_MANTISSA\<rparr> else m1);
                    pdu3 = drop 4 pdu2; len3 = len2 - 4 in
                Option.bind (proc_measurement_time mktime flags m2 pdu3 len3) (\<lambda>r.
                  (case r of
                     Inl es \<Rightarrow> Some (Inl es)
                   | Inr (m3, pdu4, len4) \<Rightarrow>
                       Option.bind (proc_measurement_type t flags pdu4 len4) (\<lambda>r'.
                         (case r' of
                            Inl es \<Rightarrow> Some (Inl es)
                          | Inr (type, es) \<Rightarrow>
                              Some (Inr (m3\<lparr>m_type := type,
                                            m_value := (if final then ''final''
                                                        else ''intermediate'')\<rparr>,
                                         es)))))))))))"

definition proc_measurement ::
  "thermometer \<Rightarrow> watcher list \<Rightarrow> watcher list \<Rightarrow> (tm \<Rightarrow> int) \<Rightarrow> u8 list \<Rightarrow> u16 \<Rightarrow> bool \<Rightarrow>
   effect list option" where
  "proc_measurement t fw iw mktime pdu len final =
     (case proc_measurement_decode t mktime pdu len final of
        None \<Rightarrow> None
      | Some (Inl es) \<Rightarrow> Some es
      | Some (Inr (m, es)) \<Rightarrow> Some (es @ recv_measurement t fw iw m))"

definition proc_measurement_interval ::
  "thermometer \<Rightarrow> u8 list \<Rightarrow> u16 \<Rightarrow> (thermometer \<times> effect list) option" where
  "proc_measurement_interval t pdu len =
     (if len < 5 then Some (t, [DBG ''Measurement interval value is not provided'' []])
      else
        Option.bind (att_get_u16 (drop 3 pdu)) (\<lambda>i.
          change_property t ''Interval'' (PU16 i)))"

text \<open>
  \<open>ind_handler\<close>; \<open>cnf\<close> is what \<open>enc_confirmation\<close> (att.h) wrote into the buffer of the
  connection, \<open>olen\<close> bytes.
\<close>

definition ind_handler ::
  "thermometer \<Rightarrow> watcher list \<Rightarrow> watcher list \<Rightarrow> (tm \<Rightarrow> int) \<Rightarrow> u8 list \<Rightarrow> u8 list \<Rightarrow> u16 \<Rightarrow>
   (thermometer \<times> effect list) option" where
  "ind_handler t fw iw mktime cnf pdu len =
     (if len < 3 then Some (t, [DBG ''Bad pdu received'' []])
      else
        Option.bind (att_get_u16 (drop 1 pdu)) (\<lambda>handle.
          (case g_slist_find_custom (chars t) (cmp_char_val_handle handle) of
             None \<Rightarrow> Some (t, [DBG ''Unexpected handle: 0x%04x'' [LNum (uint handle)]])
           | Some ch \<Rightarrow>
               Option.bind
                 (if gc_uuid (attr ch) = TEMPERATURE_MEASUREMENT_UUID then
                    map_option (Pair t) (proc_measurement t fw iw mktime pdu len True)
                  else if gc_uuid (attr ch) = MEASUREMENT_INTERVAL_UUID then
                    proc_measurement_interval t pdu len
                  else Some (t, []))
                 (\<lambda>(t', es).
                    Some (t', es @ (if length cnf > 0 then [G_attrib_send (attrib t') cnf]
                                    else []))))))"

definition notif_handler ::
  "thermometer \<Rightarrow> watcher list \<Rightarrow> watcher list \<Rightarrow> (tm \<Rightarrow> int) \<Rightarrow> u8 list \<Rightarrow> u16 \<Rightarrow>
   (thermometer \<times> effect list) option" where
  "notif_handler t fw iw mktime pdu len =
     (if len < 3 then Some (t, [DBG ''Bad pdu received'' []])
      else
        Option.bind (att_get_u16 (drop 1 pdu)) (\<lambda>handle.
          (case g_slist_find_custom (chars t) (cmp_char_val_handle handle) of
             None \<Rightarrow> Some (t, [DBG ''Unexpected handle: 0x%04x'' [LNum (uint handle)]])
           | Some ch \<Rightarrow>
               if gc_uuid (attr ch) = INTERMEDIATE_TEMPERATURE_UUID then
                 map_option (Pair t) (proc_measurement t fw iw mktime pdu len False)
               else Some (t, []))))"

subsection \<open>Connection and registration\<close>

definition ATT_OP_HANDLE_NOTIFY :: u8 where "ATT_OP_HANDLE_NOTIFY = 0x1B"
definition ATT_OP_HANDLE_IND :: u8 where "ATT_OP_HANDLE_IND = 0x1D"

text \<open>
  \<open>attio_connected_cb\<close>; \<open>indid\<close> and \<open>notid\<close> are the identifiers \<open>g_attrib_register\<close>
  returns.
\<close>

definition attio_connected_cb ::
  "thermometer \<Rightarrow> nat \<Rightarrow> nat \<Rightarrow> nat \<Rightarrow> thermometer \<times> effect list" where
  "attio_connected_cb t a indid notid =
     (t\<lparr>attrib := Some a, attindid := indid, attnotid := notid\<rparr>,
      [G_attrib_register (Some a) ATT_OP_HANDLE_IND,
       G_attrib_register (Some a) ATT_OP_HANDLE_NOTIFY,
       Gatt_discover_char (Some a) (r_start (svc_range t)) (r_end (svc_range t))
         Configure_thermometer_cb])"

definition attio_disconnected_cb :: "thermometer \<Rightarrow> thermometer \<times> effect list" where
  "attio_disconnected_cb t =
     (let es1 = (if attindid t > 0 then [G_attrib_unregister (attrib t) (attindid t)] else []);
          t1 = (if attindid t > 0 then t\<lparr>attindid := 0\<rparr> else t);
          es2 = (if attnotid t1 > 0 then [G_attrib_unregister (attrib t1) (attnotid t1)]
                 else []);
          t2 = (if attnotid t1 > 0 then t1\<lparr>attnotid := 0\<rparr> else t1)
      in (t2\<lparr>attrib := None\<rparr>, [DBG ''GATT Disconnected'' []] @ es1 @ es2))"

text \<open>\<open>g_new0 (struct thermometer, 1)\<close>: every field is zero.\<close>

definition g_new0_thermometer :: thermometer where
  "g_new0_thermometer =
     \<lparr>dev = 0, attrib = None, svc_range = \<lparr>r_start = 0, r_end = 0\<rparr>, attioid = 0,
      attindid = 0, attnotid = 0, chars = [], intermediate = False, t_type = 0,
      interval = 0, t_max = 0, t_min = 0, has_type = False, has_interval = False\<rparr>"

text \<open>
  \<open>thermometer_register\<close> on the adapter found for the device, when the D-Bus interface is
  registered: the new thermometer, and the adapter with it. \<open>ioid\<close> is the identifier
  \<open>btd_device_add_attio_callback\<close> returns.
\<close>

definition thermometer_register ::
  "thermometer_adapter \<Rightarrow> nat \<Rightarrow> att_range \<Rightarrow> nat \<Rightarrow> thermometer \<times> thermometer_adapter" where
  "thermometer_register tadapter device tattr_range ioid =
     (let t = g_new0_thermometer\<lparr>dev := device,
                svc_range := \<lparr>r_start = r_start tattr_range, r_end = r_end tattr_range\<rparr>,
                attioid := ioid\<rparr>
      in (t, tadapter\<lparr>devices := t # devices tadapter\<rparr>))"

text \<open>\<open>thermometer_adapter_register\<close>: the adapter as \<open>g_new0\<close> and line 1308 leave it.\<close>

definition thermometer_adapter_register :: "nat \<Rightarrow> thermometer_adapter" where
  "thermometer_adapter_register a =
     \<lparr>adapter = a, devices = [], fwatchers = [], iwatchers = []\<rparr>"

subsection \<open>Sequences of events\<close>

text \<open>
  What can happen to one thermometer: the connection callbacks, the responses to its GATT
  requests, and the indications and notifications. Each event comes with the watcher lists
  of the adapter at that moment.
\<close>

datatype thermometer_event =
    Attio_connected nat nat nat
  | Attio_disconnected
  | Characteristics_discovered "gatt_char list" u8
  | Descriptors_discovered nat u8 "(u16 \<times> bt_uuid) list option"
  | Temp_type_read u8 read_resp
  | Interval_read u8 read_resp
  | Valid_range_read u8 read_resp
  | Interval_written u8 bool u16
  | Indication "u8 list" "u8 list" u16
  | Notification "u8 list" u16

fun thermometer_step ::
  "(tm \<Rightarrow> int) \<Rightarrow> watcher list \<Rightarrow> watcher list \<Rightarrow> thermometer \<Rightarrow> thermometer_event \<Rightarrow>
   (thermometer \<times> effect list) option" where
  "thermometer_step mktime fw iw t (Attio_connected a indid notid) =
     Some (attio_connected_cb t a indid notid)"
| "thermometer_step mktime fw iw t Attio_disconnected = Some (attio_disconnected_cb t)"
| "thermometer_step mktime fw iw t (Characteristics_discovered cs status) =
     configure_thermometer_cb t cs status"
| "thermometer_step mktime fw iw t (Descriptors_discovered ci status resp) =
     discover_desc_cb t fw iw ci status resp"
| "thermometer_step mktime fw iw t (Temp_type_read status resp) =
     read_temp_type_cb t status resp"
| "thermometer_step mktime fw iw t (Interval_read status resp) =
     read_interval_cb t status resp"
| "thermometer_step mktime fw iw t (Valid_range_read status resp) =
     valid_range_desc_cb t status resp"
| "thermometer_step mktime fw iw t (Interval_written status resp_ok i) =
     write_interval_cb t status resp_ok i"
| "thermometer_step mktime fw iw t (Indication cnf pdu len) =
     ind_handler t fw iw mktime cnf pdu len"
| "thermometer_step mktime fw iw t (Notification pdu len) =
     notif_handler t fw iw mktime pdu len"

fun thermometer_run ::
  "(tm \<Rightarrow> int) \<Rightarrow> thermometer \<Rightarrow> (watcher list \<times> watcher list \<times> thermometer_event) list \<Rightarrow>
   thermometer option" where
  "thermometer_run mktime t [] = Some t"
| "thermometer_run mktime t ((fw, iw, ev) # rest) =
     (case thermometer_step mktime fw iw t ev of
        None \<Rightarrow> None
      | Some (t', es) \<Rightarrow> thermometer_run mktime t' rest)"

text \<open>A Valid-Range read that succeeds with a range the callback accepts.\<close>

fun valid_range_applied :: "thermometer_event \<Rightarrow> bool" where
  "valid_range_applied (Valid_range_read status (Read_value val)) =
     (status = 0 \<and> 4 \<le> length val \<and>
      (case (att_get_u16 val, att_get_u16 (drop 2 val)) of
         (Some mn, Some mx) \<Rightarrow> mn \<noteq> 0 \<and> mn \<le> mx
       | _ \<Rightarrow> False))"
| "valid_range_applied _ = False"

text \<open>
  What can happen to the watcher lists of one adapter: the four methods of the manager
  interface, the disconnection of a watcher's endpoint, and any change to the adapter's
  thermometers.
\<close>

datatype manager_op =
    Register_watcher dbus_message nat
  | Unregister_watcher dbus_message
  | Enable_intermediate dbus_message
  | Disable_intermediate dbus_message
  | Watcher_exit watcher
  | Thermometers_changed "thermometer list"

fun manager_step :: "thermometer_adapter \<Rightarrow> manager_op \<Rightarrow> thermometer_adapter" where
  "manager_step ta (Register_watcher msg wid) = fst (snd (register_watcher ta msg wid))"
| "manager_step ta (Unregister_watcher msg) = fst (snd (unregister_watcher ta msg))"
| "manager_step ta (Enable_intermediate msg) = fst (snd (enable_intermediate ta msg))"
| "manager_step ta (Disable_intermediate msg) = fst (snd (disable_intermediate ta msg))"
| "manager_step ta (Watcher_exit w) = fst (watcher_exit ta w)"
| "manager_step ta (Thermometers_changed ds) = ta\<lparr>devices := ds\<rparr>"

definition manager_run :: "thermometer_adapter \<Rightarrow> manager_op list \<Rightarrow> thermometer_adapter" where
  "manager_run ta ops = foldl manager_step ta ops"

subsection \<open>Notions the properties are stated with\<close>

text \<open>The GATT writes among the calls made: connection, handle and value.\<close>

fun gatt_writes :: "effect list \<Rightarrow> (nat option \<times> u16 \<times> u8 list) list" where
  "gatt_writes [] = []"
| "gatt_writes (Gatt_write_char a h v cb # es) = (a, h, v) # gatt_writes es"
| "gatt_writes (e # es) = gatt_writes es"

text \<open>The measurements sent to watchers among the calls made.\<close>

fun is_measurement :: "effect \<Rightarrow> bool" where
  "is_measurement (Measurement_received _ _ _ _) = True"
| "is_measurement _ = False"

text \<open>The confirmations sent among the calls made.\<close>

fun is_confirmation :: "effect \<Rightarrow> bool" where
  "is_confirmation (G_attrib_send _ _) = True"
| "is_confirmation _ = False"

text \<open>
  A thermometer that is connected and has discovered the characteristic \<open>uuid\<close> and a
  client characteristic configuration descriptor of it: \<open>chars\<close> holds a record of the
  characteristic whose descriptors include one.
\<close>

definition ccc_discovered :: "thermometer \<Rightarrow> string \<Rightarrow> bool" where
  "ccc_discovered t uuid =
     (attrib t \<noteq> None
      \<and> (\<exists>ch \<in> set (chars t). gc_uuid (attr ch) = uuid
            \<and> (\<exists>d \<in> set (desc ch). d_uuid d = bt_uuid16_create GATT_CLIENT_CHARAC_CFG_UUID)))"

text \<open>
  The handles of the configuration descriptors that a thermometer holds for the
  characteristic \<open>uuid\<close>: those of every record of the characteristic in \<open>chars\<close>, in the
  order of the lists.
\<close>

definition ccc_handles :: "thermometer \<Rightarrow> string \<Rightarrow> u16 list" where
  "ccc_handles t uuid =
     map d_handle
       (concat
          (map (\<lambda>ch. filter (\<lambda>d. d_uuid d = bt_uuid16_create GATT_CLIENT_CHARAC_CFG_UUID)
                       (desc ch))
             (filter (\<lambda>ch. gc_uuid (attr ch) = uuid) (chars t))))"

text \<open>
  One write of \<open>val\<close> for each thermometer of the list that is connected and has discovered
  the characteristic and a configuration descriptor of it, on the first of these
  descriptors, in the order of the list.
\<close>

definition ccc_writes ::
  "thermometer list \<Rightarrow> string \<Rightarrow> u8 list \<Rightarrow> (nat option \<times> u16 \<times> u8 list) list" where
  "ccc_writes ds uuid val =
     map (\<lambda>t. (attrib t, hd (ccc_handles t uuid), val))
       (filter (\<lambda>t. ccc_discovered t uuid) ds)"

text \<open>
  A thermometer that holds at most one record of the characteristic \<open>uuid\<close>, as one
  discovery of a service that has the characteristic once leaves it.
\<close>

definition recorded_once :: "thermometer \<Rightarrow> string \<Rightarrow> bool" where
  "recorded_once t uuid =
     (length (filter (\<lambda>ch. gc_uuid (attr ch) = uuid) (chars t)) \<le> 1)"

text \<open>
  The UUIDs of the records in \<open>chars\<close>, in the order of the list, and the UUIDs of the
  characteristics that an event makes \<open>configure_thermometer_cb\<close> record: those of a
  characteristic discovery that succeeded.
\<close>

definition char_uuids :: "thermometer \<Rightarrow> string list" where
  "char_uuids t = map (\<lambda>ch. gc_uuid (attr ch)) (chars t)"

fun discovered_uuids :: "thermometer_event \<Rightarrow> string list" where
  "discovered_uuids (Characteristics_discovered cs status) =
     (if status = 0 then map gc_uuid cs else [])"
| "discovered_uuids _ = []"

text \<open>
  A payload that ends before a field the flags announce: before the flags after the three
  bytes of the header, before the four bytes of the value, before the seven bytes of a
  time stamp or before the byte of a type.
\<close>

definition payload_truncated :: "u8 list \<Rightarrow> bool" where
  "payload_truncated pdu =
     (length pdu < 3 + 1 \<or> length pdu < 3 + 1 + 4
      \<or> (pdu ! 3 AND TEMP_TIME_STAMP \<noteq> 0 \<and> length pdu < 3 + 1 + 4 + 7)
      \<or> (pdu ! 3 AND TEMP_TYPE \<noteq> 0
          \<and> length pdu < 3 + 1 + 4 + (if pdu ! 3 AND TEMP_TIME_STAMP \<noteq> 0 then 7 else 0) + 1))"

text \<open>
  The re-encoding of a mantissa and an exponent that the specification pairs with the
  decoding (thermometer.c has no encoder): the low 24 bits of the mantissa, then the low
  byte of the exponent as the fourth byte.
\<close>

definition spec_encode_float :: "u32 \<Rightarrow> u16 \<Rightarrow> u8 list" where
  "spec_encode_float mant ex =
     [ucast mant, ucast (drop_bit 8 mant), ucast (drop_bit 16 mant), ucast ex]"

text \<open>
  The invariant of the watcher lists of an adapter: no watcher is twice in the list of
  the intermediate watchers, and each of them is in the list of the final watchers.
\<close>

definition watchers_inv :: "thermometer_adapter \<Rightarrow> bool" where
  "watchers_inv ta = (distinct (iwatchers ta) \<and> set (iwatchers ta) \<subseteq> set (fwatchers ta))"

text \<open>A sequence of events in which no Valid-Range read applies a range.\<close>

definition no_valid_range ::
  "(watcher list \<times> watcher list \<times> thermometer_event) list \<Rightarrow> bool" where
  "no_valid_range evs = list_all (\<lambda>(fw, iw, ev). \<not> valid_range_applied ev) evs"

subsection \<open>Example objects\<close>

text \<open>
  A Temperature Measurement characteristic and a Measurement Interval characteristic, each
  with its configuration descriptor, and a connected thermometer that has discovered both.
\<close>

definition measurement_char :: characteristic where
  "measurement_char =
     \<lparr>attr = \<lparr>gc_uuid = TEMPERATURE_MEASUREMENT_UUID, gc_handle = 0x0010,
              gc_properties = 0x20, gc_value_handle = 0x0011\<rparr>,
      desc = [\<lparr>d_handle = 0x0012, d_uuid = bt_uuid16_create GATT_CLIENT_CHARAC_CFG_UUID\<rparr>]\<rparr>"

definition interval_char :: characteristic where
  "interval_char =
     \<lparr>attr = \<lparr>gc_uuid = MEASUREMENT_INTERVAL_UUID, gc_handle = 0x0013,
              gc_properties = 0x2A, gc_value_handle = 0x0014\<rparr>,
      desc = [\<lparr>d_handle = 0x0015, d_uuid = bt_uuid16_create GATT_CLIENT_CHARAC_CFG_UUID\<rparr>,
              \<lparr>d_handle = 0x0016, d_uuid = bt_uuid16_create GATT_CHARAC_VALID_RANGE_UUID\<rparr>]\<rparr>"

definition example_thermometer :: thermometer where
  "example_thermometer =
     \<lparr>dev = 1, attrib = Some 1, svc_range = \<lparr>r_start = 0x0010, r_end = 0x0016\<rparr>,
      attioid = 1, attindid = 1, attnotid = 2, chars = [measurement_char, interval_char],
      intermediate = False, t_type = 2, interval = 60, t_max = 10, t_min = 5,
      has_type = True, has_interval = True\<rparr>"

text \<open>A second connected thermometer, a request and the watcher it registers.\<close>

definition second_thermometer :: thermometer where
  "second_thermometer = example_thermometer\<lparr>dev := 2, attrib := Some 2\<rparr>"

definition example_msg :: dbus_message where
  "example_msg = \<lparr>sender = '':1.42'', args = [Arg_object_path ''/test/watcher'']\<rparr>"

definition example_watcher :: watcher where
  "example_watcher = \<lparr>w_id = 7, w_srv = '':1.42'', w_path = ''/test/watcher''\<rparr>"

text \<open>
  Indication payloads: 36.4 degrees Celsius (mantissa 364, exponent -1) on the value handle
  of the Temperature Measurement characteristic; a negative mantissa (-2); the first
  payload on a handle that belongs to no characteristic; a payload whose flags announce a
  time stamp that is not there. A stand-in for \<open>mktime\<close> and the confirmation that
  \<open>enc_confirmation\<close> encodes.
\<close>

definition example_pdu :: "u8 list" where
  "example_pdu = [0x1D, 0x11, 0x00, 0x00, 0x6C, 0x01, 0x00, 0xFF]"

definition negative_pdu :: "u8 list" where
  "negative_pdu = [0x1D, 0x11, 0x00, 0x00, 0xFE, 0xFF, 0xFF, 0x00]"

definition unknown_pdu :: "u8 list" where
  "unknown_pdu = [0x1D, 0x99, 0x00, 0x00, 0x6C, 0x01, 0x00, 0xFF]"

definition short_pdu :: "u8 list" where
  "short_pdu = [0x1D, 0x11, 0x00, 0x02, 0x6C, 0x01, 0x00, 0xFF]"

definition example_mktime :: "tm \<Rightarrow> int" where
  "example_mktime ts = 0"

definition example_cnf :: "u8 list" where
  "example_cnf = [0x1E]"

text \<open>
  A thermometer is registered, connects, discovers its Measurement Interval characteristic,
  reads the interval and disconnects; the thermometer this leaves, and a request to set
  the interval to 5.
\<close>

definition example_events :: "(watcher list \<times> watcher list \<times> thermometer_event) list" where
  "example_events =
     [([], [], Attio_connected 1 1 2),
      ([], [], Characteristics_discovered [attr interval_char] 0),
      ([], [], Interval_read 0 (Read_value [60, 0])),
      ([], [], Attio_disconnected)]"

definition disconnected_thermometer :: thermometer where
  "disconnected_thermometer =
     \<lparr>dev = 1, attrib = None, svc_range = \<lparr>r_start = 0x0010, r_end = 0x0016\<rparr>,
      attioid = 1, attindid = 0, attnotid = 0,
      chars = [\<lparr>attr = attr interval_char, desc = []\<rparr>],
      intermediate = False, t_type = 0, interval = 60, t_max = 0, t_min = 0,
      has_type = False, has_interval = True\<rparr>"

definition interval_msg :: dbus_message where
  "interval_msg =
     \<lparr>sender = '':1.42'', args = [Arg_string ''Interval'', Arg_variant (Arg_uint16 5)]\<rparr>"

text \<open>
  A thermometer is registered, connects and discovers its Temperature Measurement
  characteristic, loses the connection before the descriptors are discovered, connects
  again and discovers the characteristic and its configuration descriptor; the
  thermometer this leaves.
\<close>

definition reconnect_events :: "(watcher list \<times> watcher list \<times> thermometer_event) list" where
  "reconnect_events =
     [([], [], Attio_connected 1 1 2),
      ([], [], Characteristics_discovered [attr measurement_char] 0),
      ([], [], Attio_disconnected),
      ([], [], Attio_connected 2 3 4),
      ([], [], Characteristics_discovered [attr measurement_char] 0),
      ([], [], Descriptors_discovered 1 0
                 (Some [(0x0012, bt_uuid16_create GATT_CLIENT_CHARAC_CFG_UUID)]))]"

definition reconnected_thermometer :: thermometer where
  "reconnected_thermometer =
     \<lparr>dev = 1, attrib = Some 2, svc_range = \<lparr>r_start = 0x0010, r_end = 0x0016\<rparr>,
      attioid = 1, attindid = 3, attnotid = 4,
      chars = [\<lparr>attr = attr measurement_char, desc = []\<rparr>, measurement_char],
      intermediate = False, t_type = 0, interval = 0, t_max = 0, t_min = 0,
      has_type = False, has_interval = False\<rparr>"

section \<open>Properties\<close>

subsection \<open>Properties of change_property\<close>

lemma change_property_Intermediate:
  "change_property t ''Intermediate'' (PBool b) =
     (if intermediate t = b then Some (t, [])
      else Some (t\<lparr>intermediate := b\<rparr>, [Emit_property_changed (dev t) ''Intermediate'' (PBool b)]))"
  "change_property t ''Intermediate'' (PU16 i) = None"
  by (simp_all add: change_property_def)

lemma change_property_Interval:
  "change_property t ''Interval'' (PU16 i) =
     (if has_interval t \<and> interval t = i then Some (t, [])
      else Some (t\<lparr>has_interval := True, interval := i\<rparr>,
                 [Emit_property_changed (dev t) ''Interval'' (PU16 i)]))"
  "change_property t ''Interval'' (PBool b) = None"
  by (simp_all add: change_property_def)

lemma change_property_Maximum:
  "change_property t ''Maximum'' (PU16 i) =
     (if t_max t = i then Some (t, [])
      else Some (t\<lparr>t_max := i\<rparr>, [Emit_property_changed (dev t) ''Maximum'' (PU16 i)]))"
  "change_property t ''Maximum'' (PBool b) = None"
  by (simp_all add: change_property_def)

lemma change_property_Minimum:
  "change_property t ''Minimum'' (PU16 i) =
     (if t_min t = i then Some (t, [])
      else Some (t\<lparr>t_min := i\<rparr>, [Emit_property_changed (dev t) ''Minimum'' (PU16 i)]))"
  "change_property t ''Minimum'' (PBool b) = None"
  by (simp_all add: change_property_def)

lemma change_property_unknown:
  "name \<notin> {''Intermediate'', ''Interval'', ''Maximum'', ''Minimum''} \<Longrightarrow>
   change_property t name v = Some (t, [DBG ''%s is not a thermometer property'' [LStr name]])"
  by (simp add: change_property_def)


lemma thermometer_update_neq:
  "intermediate t \<noteq> b \<Longrightarrow> t\<lparr>intermediate := b\<rparr> \<noteq> t"
  "\<not> (has_interval t \<and> interval t = i) \<Longrightarrow> t\<lparr>has_interval := True, interval := i\<rparr> \<noteq> t"
  "t_max t \<noteq> i \<Longrightarrow> t\<lparr>t_max := i\<rparr> \<noteq> t"
  "t_min t \<noteq> i \<Longrightarrow> t\<lparr>t_min := i\<rparr> \<noteq> t"
proof -
  show "intermediate t \<noteq> b \<Longrightarrow> t\<lparr>intermediate := b\<rparr> \<noteq> t"
  proof
    assume a: "intermediate t \<noteq> b" and e: "t\<lparr>intermediate := b\<rparr> = t"
    from e have "intermediate (t\<lparr>intermediate := b\<rparr>) = intermediate t" by simp
    with a show False by simp
  qed
  show "\<not> (has_interval t \<and> interval t = i) \<Longrightarrow> t\<lparr>has_interval := True, interval := i\<rparr> \<noteq> t"
  proof
    assume a: "\<not> (has_interval t \<and> interval t = i)"
      and e: "t\<lparr>has_interval := True, interval := i\<rparr> = t"
    from e have "has_interval (t\<lparr>has_interval := True, interval := i\<rparr>) = has_interval t"
      and "interval (t\<lparr>has_interval := True, interval := i\<rparr>) = interval t" by simp_all
    with a show False by simp
  qed
  show "t_max t \<noteq> i \<Longrightarrow> t\<lparr>t_max := i\<rparr> \<noteq> t"
  proof
    assume a: "t_max t \<noteq> i" and e: "t\<lparr>t_max := i\<rparr> = t"
    from e have "t_max (t\<lparr>t_max := i\<rparr>) = t_max t" by simp
    with a show False by simp
  qed
  show "t_min t \<noteq> i \<Longrightarrow> t\<lparr>t_min := i\<rparr> \<noteq> t"
  proof
    assume a: "t_min t \<noteq> i" and e: "t\<lparr>t_min := i\<rparr> = t"
    from e have "t_min (t\<lparr>t_min := i\<rparr>) = t_min t" by simp
    with a show False by simp
  qed
qed

lemma change_property_again_core:
  assumes "f t' = Some (t', [])"
    and "(t' = t \<and> es = []) \<or> (t' \<noteq> t \<and> (\<exists>d n x. es = [Emit_property_changed d n x]))"
  shows "(\<exists>es'. f t' = Some (t', es') \<and> signals es' = [])
     \<and> length (signals es) = (if t' = t then 0 else 1)"
proof -
  have "signals ([] :: effect list) = []" by (simp add: signals_def)
  with assms(1) have 1: "\<exists>es'. f t' = Some (t', es') \<and> signals es' = []" by blast
  from assms(2) have 2: "length (signals es) = (if t' = t then 0 else 1)"
  proof
    assume "t' = t \<and> es = []"
    then show ?thesis by (simp add: signals_def)
  next
    assume a: "t' \<noteq> t \<and> (\<exists>d n x. es = [Emit_property_changed d n x])"
    then obtain d n x where "es = [Emit_property_changed d n x]" by blast
    then have "length (signals es) = 1" by (simp add: signals_def)
    with a show ?thesis by simp
  qed
  from 1 2 show ?thesis by (rule conjI)
qed

lemma change_property_again:
  assumes "change_property t name v = Some (t', es)"
  shows "(\<exists>es'. change_property t' name v = Some (t', es') \<and> signals es' = [])
     \<and> length (signals es) = (if t' = t then 0 else 1)"
proof -
  consider (a) "name = ''Intermediate''" | (b) "name = ''Interval''"
    | (c) "name = ''Maximum''" | (d) "name = ''Minimum''"
    | (e) "name \<notin> {''Intermediate'', ''Interval'', ''Maximum'', ''Minimum''}" by blast
  then show ?thesis
  proof cases
    case a
    show ?thesis
    proof (cases v)
      case (PBool b)
      have r: "change_property t ''Intermediate'' (PBool b) = Some (t', es)"
        using assms a PBool by simp
      have "change_property t' ''Intermediate'' (PBool b) = Some (t', [])
          \<and> ((t' = t \<and> es = []) \<or> (t' \<noteq> t \<and> (\<exists>d n x. es = [Emit_property_changed d n x])))"
      proof (cases "intermediate t = b")
        case True
        with r show ?thesis by (simp add: change_property_Intermediate)
      next
        case False
        from r False have t': "t' = t\<lparr>intermediate := b\<rparr>"
          and es: "es = [Emit_property_changed (dev t) ''Intermediate'' (PBool b)]"
          by (simp_all add: change_property_Intermediate)
        have "change_property t' ''Intermediate'' (PBool b) = Some (t', [])"
          unfolding t' by (simp add: change_property_Intermediate)
        moreover have "t' \<noteq> t" using thermometer_update_neq(1)[OF False] t' by simp
        ultimately show ?thesis using es by blast
      qed
      then show ?thesis unfolding a PBool
        using change_property_again_core[of "\<lambda>t. change_property t ''Intermediate'' (PBool b)"]
        by blast
    next
      case (PU16 i)
      with assms a show ?thesis by (simp add: change_property_Intermediate)
    qed
  next
    case b
    show ?thesis
    proof (cases v)
      case (PU16 i)
      have r: "change_property t ''Interval'' (PU16 i) = Some (t', es)"
        using assms b PU16 by simp
      have "change_property t' ''Interval'' (PU16 i) = Some (t', [])
          \<and> ((t' = t \<and> es = []) \<or> (t' \<noteq> t \<and> (\<exists>d n x. es = [Emit_property_changed d n x])))"
      proof (cases "has_interval t \<and> interval t = i")
        case True
        with r show ?thesis by (simp add: change_property_Interval)
      next
        case False
        from r False have t': "t' = t\<lparr>has_interval := True, interval := i\<rparr>"
          and es: "es = [Emit_property_changed (dev t) ''Interval'' (PU16 i)]"
          by (simp_all add: change_property_Interval)
        have "change_property t' ''Interval'' (PU16 i) = Some (t', [])"
          unfolding t' by (simp add: change_property_Interval)
        moreover have "t' \<noteq> t" using thermometer_update_neq(2)[OF False] t' by simp
        ultimately show ?thesis using es by blast
      qed
      then show ?thesis unfolding b PU16
        using change_property_again_core[of "\<lambda>t. change_property t ''Interval'' (PU16 i)"]
        by blast
    next
      case (PBool x)
      with assms b show ?thesis by (simp add: change_property_Interval)
    qed
  next
    case c
    show ?thesis
    proof (cases v)
      case (PU16 i)
      have r: "change_property t ''Maximum'' (PU16 i) = Some (t', es)"
        using assms c PU16 by simp
      have "change_property t' ''Maximum'' (PU16 i) = Some (t', [])
          \<and> ((t' = t \<and> es = []) \<or> (t' \<noteq> t \<and> (\<exists>d n x. es = [Emit_property_changed d n x])))"
      proof (cases "t_max t = i")
        case True
        with r show ?thesis by (simp add: change_property_Maximum)
      next
        case False
        from r False have t': "t' = t\<lparr>t_max := i\<rparr>"
          and es: "es = [Emit_property_changed (dev t) ''Maximum'' (PU16 i)]"
          by (simp_all add: change_property_Maximum)
        have "change_property t' ''Maximum'' (PU16 i) = Some (t', [])"
          unfolding t' by (simp add: change_property_Maximum)
        moreover have "t' \<noteq> t" using thermometer_update_neq(3)[OF False] t' by simp
        ultimately show ?thesis using es by blast
      qed
      then show ?thesis unfolding c PU16
        using change_property_again_core[of "\<lambda>t. change_property t ''Maximum'' (PU16 i)"]
        by blast
    next
      case (PBool x)
      with assms c show ?thesis by (simp add: change_property_Maximum)
    qed
  next
    case d
    show ?thesis
    proof (cases v)
      case (PU16 i)
      have r: "change_property t ''Minimum'' (PU16 i) = Some (t', es)"
        using assms d PU16 by simp
      have "change_property t' ''Minimum'' (PU16 i) = Some (t', [])
          \<and> ((t' = t \<and> es = []) \<or> (t' \<noteq> t \<and> (\<exists>d n x. es = [Emit_property_changed d n x])))"
      proof (cases "t_min t = i")
        case True
        with r show ?thesis by (simp add: change_property_Minimum)
      next
        case False
        from r False have t': "t' = t\<lparr>t_min := i\<rparr>"
          and es: "es = [Emit_property_changed (dev t) ''Minimum'' (PU16 i)]"
          by (simp_all add: change_property_Minimum)
        have "change_property t' ''Minimum'' (PU16 i) = Some (t', [])"
          unfolding t' by (simp add: change_property_Minimum)
        moreover have "t' \<noteq> t" using thermometer_update_neq(4)[OF False] t' by simp
        ultimately show ?thesis using es by blast
      qed
      then show ?thesis unfolding d PU16
        using change_property_again_core[of "\<lambda>t. change_property t ''Minimum'' (PU16 i)"]
        by blast
    next
      case (PBool x)
      with assms d show ?thesis by (simp add: change_property_Minimum)
    qed
  next
    case e
    from assms have "t' = t" and "es = [DBG ''%s is not a thermometer property'' [LStr name]]"
      unfolding change_property_unknown[OF e] by simp_all
    then show ?thesis
      using change_property_unknown[OF e, of t v] by (simp add: signals_def)
  qed
qed

lemma change_property_twice_Interval:
  "\<exists>t1 es1 es2. change_property t ''Interval'' (PU16 i) = Some (t1, es1)
      \<and> change_property t1 ''Interval'' (PU16 i) = Some (t1, es2)
      \<and> length (signals (es1 @ es2)) = (if has_interval t \<and> interval t = i then 0 else 1)"
  by (simp add: change_property_Interval signals_def)

text \<open>
  C9. \<open>change_property\<close> is idempotent. Called with the value that is cached (for Interval
  with \<open>has_interval\<close> set as well) it changes nothing and makes no call at all. Called
  with another value it stores the value and emits exactly one property-changed signal,
  with the name and the new value. Whatever a first call did, the same call again leaves
  the thermometer as it is and emits no signal, and the first call emitted one signal when
  it changed the thermometer and none when it did not; so two calls in a row with the same
  Interval emit one signal when the first is a change. A name that is no property is
  logged and leaves the thermometer unchanged.
\<close>

theorem change_property_idempotent:
  "(intermediate t = b \<longrightarrow> change_property t ''Intermediate'' (PBool b) = Some (t, []))
   \<and> (has_interval t \<and> interval t = i \<longrightarrow>
        change_property t ''Interval'' (PU16 i) = Some (t, []))
   \<and> (t_max t = i \<longrightarrow> change_property t ''Maximum'' (PU16 i) = Some (t, []))
   \<and> (t_min t = i \<longrightarrow> change_property t ''Minimum'' (PU16 i) = Some (t, []))
   \<and> (intermediate t \<noteq> b \<longrightarrow>
        change_property t ''Intermediate'' (PBool b)
        = Some (t\<lparr>intermediate := b\<rparr>,
                [Emit_property_changed (dev t) ''Intermediate'' (PBool b)]))
   \<and> (\<not> (has_interval t \<and> interval t = i) \<longrightarrow>
        change_property t ''Interval'' (PU16 i)
        = Some (t\<lparr>has_interval := True, interval := i\<rparr>,
                [Emit_property_changed (dev t) ''Interval'' (PU16 i)]))
   \<and> (t_max t \<noteq> i \<longrightarrow>
        change_property t ''Maximum'' (PU16 i)
        = Some (t\<lparr>t_max := i\<rparr>, [Emit_property_changed (dev t) ''Maximum'' (PU16 i)]))
   \<and> (t_min t \<noteq> i \<longrightarrow>
        change_property t ''Minimum'' (PU16 i)
        = Some (t\<lparr>t_min := i\<rparr>, [Emit_property_changed (dev t) ''Minimum'' (PU16 i)]))
   \<and> (\<forall>t' es. change_property t name v = Some (t', es) \<longrightarrow>
          (\<exists>es'. change_property t' name v = Some (t', es') \<and> signals es' = [])
          \<and> length (signals es) = (if t' = t then 0 else 1))
   \<and> (\<exists>t1 es1 es2.
          change_property t ''Interval'' (PU16 i) = Some (t1, es1)
          \<and> change_property t1 ''Interval'' (PU16 i) = Some (t1, es2)
          \<and> length (signals (es1 @ es2))
            = (if has_interval t \<and> interval t = i then 0 else 1))
   \<and> (name \<notin> {''Intermediate'', ''Interval'', ''Maximum'', ''Minimum''} \<longrightarrow>
        change_property t name v
        = Some (t, [DBG ''%s is not a thermometer property'' [LStr name]]))"
proof -
  have noop1: "intermediate t = b \<longrightarrow>
        change_property t ''Intermediate'' (PBool b) = Some (t, [])"
    by (simp add: change_property_Intermediate)
  have noop2: "has_interval t \<and> interval t = i \<longrightarrow>
        change_property t ''Interval'' (PU16 i) = Some (t, [])"
    by (simp add: change_property_Interval)
  have noop3: "t_max t = i \<longrightarrow> change_property t ''Maximum'' (PU16 i) = Some (t, [])"
    by (simp add: change_property_Maximum)
  have noop4: "t_min t = i \<longrightarrow> change_property t ''Minimum'' (PU16 i) = Some (t, [])"
    by (simp add: change_property_Minimum)
  have chg1: "intermediate t \<noteq> b \<longrightarrow>
        change_property t ''Intermediate'' (PBool b)
        = Some (t\<lparr>intermediate := b\<rparr>,
                [Emit_property_changed (dev t) ''Intermediate'' (PBool b)])"
    by (simp add: change_property_Intermediate)
  have chg2: "\<not> (has_interval t \<and> interval t = i) \<longrightarrow>
        change_property t ''Interval'' (PU16 i)
        = Some (t\<lparr>has_interval := True, interval := i\<rparr>,
                [Emit_property_changed (dev t) ''Interval'' (PU16 i)])"
    by (simp add: change_property_Interval)
  have chg3: "t_max t \<noteq> i \<longrightarrow>
        change_property t ''Maximum'' (PU16 i)
        = Some (t\<lparr>t_max := i\<rparr>, [Emit_property_changed (dev t) ''Maximum'' (PU16 i)])"
    by (simp add: change_property_Maximum)
  have chg4: "t_min t \<noteq> i \<longrightarrow>
        change_property t ''Minimum'' (PU16 i)
        = Some (t\<lparr>t_min := i\<rparr>, [Emit_property_changed (dev t) ''Minimum'' (PU16 i)])"
    by (simp add: change_property_Minimum)
  have again: "\<forall>t' es. change_property t name v = Some (t', es) \<longrightarrow>
          (\<exists>es'. change_property t' name v = Some (t', es') \<and> signals es' = [])
          \<and> length (signals es) = (if t' = t then 0 else 1)"
    by (intro allI impI) (rule change_property_again)
  have unk: "name \<notin> {''Intermediate'', ''Interval'', ''Maximum'', ''Minimum''} \<longrightarrow>
        change_property t name v
        = Some (t, [DBG ''%s is not a thermometer property'' [LStr name]])"
    by (rule impI) (rule change_property_unknown)
  note twice = change_property_twice_Interval[of t i]
  show ?thesis
    by (intro conjI) (rule noop1 noop2 noop3 noop4 chg1 chg2 chg3 chg4 again twice unk)+
qed

theorem change_property_idempotent_witness:
  "change_property g_new0_thermometer ''Interval'' (PU16 5)
     = Some (g_new0_thermometer\<lparr>has_interval := True, interval := 5\<rparr>,
             [Emit_property_changed 0 ''Interval'' (PU16 5)])
   \<and> change_property (g_new0_thermometer\<lparr>has_interval := True, interval := 5\<rparr>)
        ''Interval'' (PU16 5)
     = Some (g_new0_thermometer\<lparr>has_interval := True, interval := 5\<rparr>, [])
   \<and> change_property g_new0_thermometer ''Colour'' (PU16 5)
     = Some (g_new0_thermometer, [DBG ''%s is not a thermometer property'' [LStr ''Colour'']])"
proof -
  have a: "\<not> (has_interval g_new0_thermometer \<and> interval g_new0_thermometer = 5)"
    by (simp add: g_new0_thermometer_def)
  have b: "has_interval (g_new0_thermometer\<lparr>has_interval := True, interval := 5\<rparr>)
      \<and> interval (g_new0_thermometer\<lparr>has_interval := True, interval := 5\<rparr>) = 5"
    by simp
  have c: "''Colour'' \<notin> {''Intermediate'', ''Interval'', ''Maximum'', ''Minimum''}" by simp
  have d: "dev g_new0_thermometer = 0" by (simp add: g_new0_thermometer_def)
  from a d change_property_idempotent[of g_new0_thermometer True 5 "''Colour''" "PU16 5"]
  have 1: "change_property g_new0_thermometer ''Interval'' (PU16 5)
     = Some (g_new0_thermometer\<lparr>has_interval := True, interval := 5\<rparr>,
             [Emit_property_changed 0 ''Interval'' (PU16 5)])" by simp
  from c change_property_idempotent[of g_new0_thermometer True 5 "''Colour''" "PU16 5"]
  have 3: "change_property g_new0_thermometer ''Colour'' (PU16 5)
     = Some (g_new0_thermometer, [DBG ''%s is not a thermometer property'' [LStr ''Colour'']])"
    by simp
  from b change_property_idempotent[of "g_new0_thermometer\<lparr>has_interval := True, interval := 5\<rparr>"
      True 5 "''Colour''" "PU16 5"]
  have 2: "change_property (g_new0_thermometer\<lparr>has_interval := True, interval := 5\<rparr>)
        ''Interval'' (PU16 5)
     = Some (g_new0_thermometer\<lparr>has_interval := True, interval := 5\<rparr>, [])" by simp
  from 1 2 3 show ?thesis by simp
qed

subsection \<open>Properties of the Interval property and its range\<close>

lemma get_characteristic_None:
  "get_characteristic t uuid = None \<longleftrightarrow> (\<forall>ch \<in> set (chars t). gc_uuid (attr ch) \<noteq> uuid)"
  by (auto simp add: get_characteristic_def g_slist_find_custom_def find_None_iff cmp_char_uuid_def)

lemma write_attr_interval_not_connected:
  "attrib t = None \<Longrightarrow> write_attr_interval t v = (Btd_error_not_connected, [])"
  by (simp add: write_attr_interval_def)

lemma write_attr_interval_not_available:
  "attrib t \<noteq> None \<Longrightarrow> get_characteristic t MEASUREMENT_INTERVAL_UUID = None \<Longrightarrow>
   write_attr_interval t v = (Btd_error_not_available, [])"
  by (simp add: write_attr_interval_def)

lemma write_attr_interval_invalid:
  "attrib t \<noteq> None \<Longrightarrow> get_characteristic t MEASUREMENT_INTERVAL_UUID = Some ch \<Longrightarrow>
   v < t_min t \<or> v > t_max t \<Longrightarrow>
   write_attr_interval t v = (Btd_error_invalid_args, [])"
  by (simp add: write_attr_interval_def)

lemma write_attr_interval_ok:
  "attrib t \<noteq> None \<Longrightarrow> get_characteristic t MEASUREMENT_INTERVAL_UUID = Some ch \<Longrightarrow>
   \<not> (v < t_min t \<or> v > t_max t) \<Longrightarrow>
   write_attr_interval t v =
     (Method_return, [Gatt_write_char (attrib t) (gc_value_handle (attr ch)) (att_put_u16 v)
                   (Write_interval_cb v)])"
  by (simp add: write_attr_interval_def)

lemma att_get_u16_Some:
  "2 \<le> length p \<Longrightarrow> att_get_u16 p = Some (ucast (p ! 0) OR push_bit 8 (ucast (p ! 1)))"
  by (cases p; cases "tl p") (auto simp add: att_get_u16_def)

lemma valid_range_short:
  "length val < 4 \<Longrightarrow> valid_range_desc_cb t 0 (Read_value val) = Some (t, [DBG ''Invalid range received'' []])"
  by (simp add: valid_range_desc_cb_def)

lemma valid_range_decoded:
  assumes "4 \<le> length val"
  shows "\<exists>mn mx. att_get_u16 val = Some mn \<and> att_get_u16 (drop 2 val) = Some mx
     \<and> valid_range_desc_cb t 0 (Read_value val) =
       (if mn = 0 \<or> mn > mx then Some (t, [DBG ''Invalid range'' []])
        else Some (t\<lparr>t_max := mx, t_min := mn\<rparr>,
               (if t_max t = mx then [] else [Emit_property_changed (dev t) ''Maximum'' (PU16 mx)])
               @ (if t_min t = mn then [] else [Emit_property_changed (dev t) ''Minimum'' (PU16 mn)])))"
proof -
  from assms have 1: "att_get_u16 val = Some (ucast (val ! 0) OR push_bit 8 (ucast (val ! 1)))"
    by (simp add: att_get_u16_Some)
  from assms have 2: "att_get_u16 (drop 2 val) = Some (ucast (drop 2 val ! 0) OR push_bit 8 (ucast (drop 2 val ! 1)))"
    by (simp add: att_get_u16_Some)
  show ?thesis
    unfolding 1 2 using assms
    by (simp add: valid_range_desc_cb_def 1 2 change_property_Maximum change_property_Minimum)
qed


lemma valid_range_failed:
  "status \<noteq> 0 \<Longrightarrow> valid_range_desc_cb t status resp =
     Some (t, [DBG ''Valid Range descriptor read failed: %s'' [LNum (uint status)]])"
  "valid_range_desc_cb t 0 Protocol_error = Some (t, [DBG ''Protocol error\<newline>'' []])"
  by (simp_all add: valid_range_desc_cb_def)

text \<open>
  C7. \<open>write_attr_interval\<close> answers NotConnected when the thermometer has no connection;
  connected, it answers NotAvailable when no discovered characteristic is the Measurement
  Interval; with the characteristic, it answers InvalidArgs when the value is below the
  cached minimum or above the cached maximum. An answer other than the method return comes
  with no call at all: no write is issued, and the function never assigns to the
  thermometer.
\<close>

theorem write_attr_interval_errors:
  "(attrib t = None \<longrightarrow> write_attr_interval t v = (Btd_error_not_connected, []))
   \<and> (attrib t \<noteq> None \<and> (\<forall>ch \<in> set (chars t). gc_uuid (attr ch) \<noteq> MEASUREMENT_INTERVAL_UUID)
        \<longrightarrow> write_attr_interval t v = (Btd_error_not_available, []))
   \<and> (attrib t \<noteq> None \<and> (\<exists>ch \<in> set (chars t). gc_uuid (attr ch) = MEASUREMENT_INTERVAL_UUID)
        \<and> (v < t_min t \<or> v > t_max t)
        \<longrightarrow> write_attr_interval t v = (Btd_error_invalid_args, []))
   \<and> (fst (write_attr_interval t v) \<noteq> Method_return \<longrightarrow> snd (write_attr_interval t v) = [])"
proof (intro conjI impI)
  assume "attrib t = None"
  then show "write_attr_interval t v = (Btd_error_not_connected, [])"
    by (rule write_attr_interval_not_connected)
next
  assume a: "attrib t \<noteq> None \<and> (\<forall>ch \<in> set (chars t). gc_uuid (attr ch) \<noteq> MEASUREMENT_INTERVAL_UUID)"
  then have "get_characteristic t MEASUREMENT_INTERVAL_UUID = None"
    by (simp add: get_characteristic_None)
  with a show "write_attr_interval t v = (Btd_error_not_available, [])"
    by (simp add: write_attr_interval_not_available)
next
  assume a: "attrib t \<noteq> None \<and> (\<exists>ch \<in> set (chars t). gc_uuid (attr ch) = MEASUREMENT_INTERVAL_UUID)
        \<and> (v < t_min t \<or> v > t_max t)"
  then have "get_characteristic t MEASUREMENT_INTERVAL_UUID \<noteq> None"
    by (simp add: get_characteristic_None)
  then obtain ch where "get_characteristic t MEASUREMENT_INTERVAL_UUID = Some ch" by blast
  with a show "write_attr_interval t v = (Btd_error_invalid_args, [])"
    by (simp add: write_attr_interval_invalid)
next
  assume "fst (write_attr_interval t v) \<noteq> Method_return"
  then show "snd (write_attr_interval t v) = []"
    by (simp add: write_attr_interval_def split: if_splits option.splits)
qed

theorem write_attr_interval_errors_witness:
  "write_attr_interval example_thermometer 3 = (Btd_error_invalid_args, [])
   \<and> write_attr_interval example_thermometer 11 = (Btd_error_invalid_args, [])
   \<and> write_attr_interval (example_thermometer\<lparr>attrib := None\<rparr>) 7
       = (Btd_error_not_connected, [])
   \<and> write_attr_interval (example_thermometer\<lparr>chars := [measurement_char]\<rparr>) 7
       = (Btd_error_not_available, [])"
proof -
  have c: "attrib example_thermometer \<noteq> None
      \<and> (\<exists>ch \<in> set (chars example_thermometer). gc_uuid (attr ch) = MEASUREMENT_INTERVAL_UUID)"
    by (simp add: example_thermometer_def interval_char_def)
  have r: "t_min example_thermometer = 5 \<and> t_max example_thermometer = 10"
    by (simp add: example_thermometer_def)
  from r have "(3 :: u16) < t_min example_thermometer \<or> 3 > t_max example_thermometer" by simp
  with c write_attr_interval_errors[of example_thermometer 3]
  have 1: "write_attr_interval example_thermometer 3 = (Btd_error_invalid_args, [])" by blast
  from r have "(11 :: u16) < t_min example_thermometer \<or> 11 > t_max example_thermometer" by simp
  with c write_attr_interval_errors[of example_thermometer 11]
  have 2: "write_attr_interval example_thermometer 11 = (Btd_error_invalid_args, [])" by blast
  have "attrib (example_thermometer\<lparr>attrib := None\<rparr>) = None" by simp
  with write_attr_interval_errors[of "example_thermometer\<lparr>attrib := None\<rparr>" 7]
  have 3: "write_attr_interval (example_thermometer\<lparr>attrib := None\<rparr>) 7
       = (Btd_error_not_connected, [])" by blast
  have "attrib (example_thermometer\<lparr>chars := [measurement_char]\<rparr>) \<noteq> None
     \<and> (\<forall>ch \<in> set (chars (example_thermometer\<lparr>chars := [measurement_char]\<rparr>)).
           gc_uuid (attr ch) \<noteq> MEASUREMENT_INTERVAL_UUID)"
    by (simp add: example_thermometer_def measurement_char_def
        MEASUREMENT_INTERVAL_UUID_def TEMPERATURE_MEASUREMENT_UUID_def)
  with write_attr_interval_errors[of "example_thermometer\<lparr>chars := [measurement_char]\<rparr>" 7]
  have 4: "write_attr_interval (example_thermometer\<lparr>chars := [measurement_char]\<rparr>) 7
       = (Btd_error_not_available, [])" by blast
  from 1 2 3 4 show ?thesis by simp
qed

text \<open>
  C8. \<open>valid_range_desc_cb\<close> needs four bytes of value: with fewer it logs and changes
  nothing. With four it reads the minimum and the maximum; when the minimum is 0 or above
  the maximum it logs and changes nothing; otherwise the thermometer has that maximum and
  that minimum afterwards, and a property-changed signal is emitted for each of the two
  that differs from the cached value. A failed read and a protocol error change nothing.
\<close>

theorem valid_range_desc_cb_range:
  "(length val < 4 \<longrightarrow>
      valid_range_desc_cb t 0 (Read_value val) = Some (t, [DBG ''Invalid range received'' []]))
   \<and> (4 \<le> length val \<longrightarrow>
        (\<exists>mn mx. att_get_u16 val = Some mn \<and> att_get_u16 (drop 2 val) = Some mx
           \<and> valid_range_desc_cb t 0 (Read_value val) =
             (if mn = 0 \<or> mn > mx then Some (t, [DBG ''Invalid range'' []])
              else Some (t\<lparr>t_max := mx, t_min := mn\<rparr>,
                     (if t_max t = mx then []
                      else [Emit_property_changed (dev t) ''Maximum'' (PU16 mx)])
                     @ (if t_min t = mn then []
                        else [Emit_property_changed (dev t) ''Minimum'' (PU16 mn)])))))
   \<and> (status \<noteq> 0 \<longrightarrow>
        valid_range_desc_cb t status resp =
          Some (t, [DBG ''Valid Range descriptor read failed: %s'' [LNum (uint status)]]))
   \<and> valid_range_desc_cb t 0 Protocol_error = Some (t, [DBG ''Protocol error\<newline>'' []])"
proof (intro conjI impI)
  assume "length val < 4"
  then show "valid_range_desc_cb t 0 (Read_value val)
      = Some (t, [DBG ''Invalid range received'' []])"
    by (rule valid_range_short)
next
  assume "4 \<le> length val"
  then show "\<exists>mn mx. att_get_u16 val = Some mn \<and> att_get_u16 (drop 2 val) = Some mx
           \<and> valid_range_desc_cb t 0 (Read_value val) =
             (if mn = 0 \<or> mn > mx then Some (t, [DBG ''Invalid range'' []])
              else Some (t\<lparr>t_max := mx, t_min := mn\<rparr>,
                     (if t_max t = mx then []
                      else [Emit_property_changed (dev t) ''Maximum'' (PU16 mx)])
                     @ (if t_min t = mn then []
                        else [Emit_property_changed (dev t) ''Minimum'' (PU16 mn)])))"
    by (rule valid_range_decoded)
next
  assume "status \<noteq> 0"
  then show "valid_range_desc_cb t status resp =
          Some (t, [DBG ''Valid Range descriptor read failed: %s'' [LNum (uint status)]])"
    by (rule valid_range_failed(1))
next
  show "valid_range_desc_cb t 0 Protocol_error = Some (t, [DBG ''Protocol error\<newline>'' []])"
    by (rule valid_range_failed(2))
qed

theorem valid_range_desc_cb_range_witness:
  "valid_range_desc_cb g_new0_thermometer 0 (Read_value [5, 0, 10, 0])
     = Some (g_new0_thermometer\<lparr>t_max := 10, t_min := 5\<rparr>,
             [Emit_property_changed 0 ''Maximum'' (PU16 10),
              Emit_property_changed 0 ''Minimum'' (PU16 5)])
   \<and> valid_range_desc_cb g_new0_thermometer 0 (Read_value [0, 0, 10, 0])
     = Some (g_new0_thermometer, [DBG ''Invalid range'' []])
   \<and> valid_range_desc_cb g_new0_thermometer 0 (Read_value [5, 0, 1, 0])
     = Some (g_new0_thermometer, [DBG ''Invalid range'' []])
   \<and> valid_range_desc_cb g_new0_thermometer 0 (Read_value [5, 0, 10])
     = Some (g_new0_thermometer, [DBG ''Invalid range received'' []])"
proof -
  have g: "t_max g_new0_thermometer = 0 \<and> t_min g_new0_thermometer = 0
      \<and> dev g_new0_thermometer = 0"
    by (simp add: g_new0_thermometer_def)
  have l: "4 \<le> length [5, 0, 10, 0 :: u8]" "4 \<le> length [0, 0, 10, 0 :: u8]"
    "4 \<le> length [5, 0, 1, 0 :: u8]" "length [5, 0, 10 :: u8] < 4" by simp_all
  from g l(1) valid_range_desc_cb_range[of "[5, 0, 10, 0]" g_new0_thermometer]
  have 1: "valid_range_desc_cb g_new0_thermometer 0 (Read_value [5, 0, 10, 0])
     = Some (g_new0_thermometer\<lparr>t_max := 10, t_min := 5\<rparr>,
             [Emit_property_changed 0 ''Maximum'' (PU16 10),
              Emit_property_changed 0 ''Minimum'' (PU16 5)])"
    by (simp add: att_get_u16_def)
  from g l(2) valid_range_desc_cb_range[of "[0, 0, 10, 0]" g_new0_thermometer]
  have 2: "valid_range_desc_cb g_new0_thermometer 0 (Read_value [0, 0, 10, 0])
     = Some (g_new0_thermometer, [DBG ''Invalid range'' []])"
    by (simp add: att_get_u16_def)
  from g l(3) valid_range_desc_cb_range[of "[5, 0, 1, 0]" g_new0_thermometer]
  have 3: "valid_range_desc_cb g_new0_thermometer 0 (Read_value [5, 0, 1, 0])
     = Some (g_new0_thermometer, [DBG ''Invalid range'' []])"
    by (simp add: att_get_u16_def)
  from l(4) valid_range_desc_cb_range[of "[5, 0, 10]" g_new0_thermometer]
  have 4: "valid_range_desc_cb g_new0_thermometer 0 (Read_value [5, 0, 10])
     = Some (g_new0_thermometer, [DBG ''Invalid range received'' []])"
    by simp
  from 1 2 3 4 show ?thesis by simp
qed

subsection \<open>Properties of the watcher registry\<close>

lemma find_watcher_Some:
  "find_watcher l s p = Some w \<Longrightarrow> w \<in> set l \<and> w_srv w = s \<and> w_path w = p"
  by (auto simp add: find_watcher_def g_slist_find_custom_def cmp_watcher_def find_Some_iff)

lemma find_watcher_None:
  "find_watcher l s p = None \<longleftrightarrow> (\<forall>w \<in> set l. \<not> (w_srv w = s \<and> w_path w = p))"
  by (auto simp add: find_watcher_def g_slist_find_custom_def cmp_watcher_def find_None_iff)

lemma remove_int_watcher_state:
  "fst (remove_int_watcher ta w) = ta\<lparr>iwatchers := remove1 w (iwatchers ta)\<rparr>"
  by (simp add: remove_int_watcher_def Let_def g_slist_remove_def remove1_idem)

lemma watchers_inv_remove:
  assumes "watchers_inv ta"
  shows "watchers_inv (ta\<lparr>iwatchers := remove1 w (iwatchers ta), fwatchers := remove1 w (fwatchers ta)\<rparr>)"
proof -
  from assms have d: "distinct (iwatchers ta)" and s: "set (iwatchers ta) \<subseteq> set (fwatchers ta)"
    by (simp_all add: watchers_inv_def)
  have "set (remove1 w (iwatchers ta)) = set (iwatchers ta) - {w}" using d by simp
  moreover have "set (fwatchers ta) - {w} \<subseteq> set (remove1 w (fwatchers ta))"
    by (metis Diff_iff in_set_remove1 insertI1 subsetI)
  ultimately have "set (remove1 w (iwatchers ta)) \<subseteq> set (remove1 w (fwatchers ta))"
    using s by blast
  moreover have "distinct (remove1 w (iwatchers ta))" using d by simp
  ultimately show ?thesis by (simp add: watchers_inv_def)
qed

lemma watchers_inv_remove_int:
  assumes "watchers_inv ta"
  shows "watchers_inv (ta\<lparr>iwatchers := remove1 w (iwatchers ta)\<rparr>)"
proof -
  from assms have d: "distinct (iwatchers ta)" and s: "set (iwatchers ta) \<subseteq> set (fwatchers ta)"
    by (simp_all add: watchers_inv_def)
  have "set (remove1 w (iwatchers ta)) \<subseteq> set (iwatchers ta)" by (rule set_remove1_subset)
  with s d show ?thesis by (simp add: watchers_inv_def) blast
qed

lemma watcher_exit_state:
  "fst (watcher_exit ta w)
     = ta\<lparr>iwatchers := remove1 w (iwatchers ta), fwatchers := remove1 w (fwatchers ta)\<rparr>"
  by (simp add: watcher_exit_def Let_def split_def remove_int_watcher_state g_slist_remove_def)

lemma unregister_watcher_state:
  "fst (snd (unregister_watcher ta msg)) =
     (case get_args_object_path msg of None \<Rightarrow> ta
      | Some path \<Rightarrow>
        (case find_watcher (fwatchers ta) (sender msg) path of None \<Rightarrow> ta
         | Some w \<Rightarrow> ta\<lparr>iwatchers := remove1 w (iwatchers ta), fwatchers := remove1 w (fwatchers ta)\<rparr>))"
  by (simp add: unregister_watcher_def Let_def split_def remove_int_watcher_state g_slist_remove_def
      split: option.splits)

lemma disable_intermediate_state:
  "fst (snd (disable_intermediate ta msg)) =
     (case get_args_object_path msg of None \<Rightarrow> ta
      | Some path \<Rightarrow>
        (case find_watcher (iwatchers ta) (sender msg) path of None \<Rightarrow> ta
         | Some w \<Rightarrow> ta\<lparr>iwatchers := remove1 w (iwatchers ta)\<rparr>))"
  by (simp add: disable_intermediate_def Let_def split_def remove_int_watcher_state
      split: option.splits)

lemma register_watcher_state:
  "fst (snd (register_watcher ta msg wid)) =
     (case get_args_object_path msg of None \<Rightarrow> ta
      | Some path \<Rightarrow>
        (case find_watcher (fwatchers ta) (sender msg) path of Some w \<Rightarrow> ta
         | None \<Rightarrow> ta\<lparr>fwatchers := \<lparr>w_id = wid, w_srv = sender msg, w_path = path\<rparr> # fwatchers ta\<rparr>))"
  by (simp add: register_watcher_def Let_def split: option.splits)

lemma enable_intermediate_state:
  "fst (snd (enable_intermediate ta msg)) =
     (case get_args_object_path msg of None \<Rightarrow> ta
      | Some path \<Rightarrow>
        (case find_watcher (fwatchers ta) (sender msg) path of None \<Rightarrow> ta
         | Some w \<Rightarrow> if find_watcher (iwatchers ta) (sender msg) path \<noteq> None then ta
                     else ta\<lparr>iwatchers := w # iwatchers ta\<rparr>))"
  by (simp add: enable_intermediate_def Let_def split: option.splits)

lemma watchers_inv_step: "watchers_inv ta \<Longrightarrow> watchers_inv (manager_step ta op)"
proof (cases op)
  case (Register_watcher msg wid)
  assume "watchers_inv ta"
  then show ?thesis unfolding Register_watcher
    by (auto simp add: register_watcher_state watchers_inv_def split: option.splits)
next
  case (Unregister_watcher msg)
  assume "watchers_inv ta"
  then show ?thesis unfolding Unregister_watcher
    by (simp add: unregister_watcher_state watchers_inv_remove split: option.splits)
next
  case (Enable_intermediate msg)
  assume w: "watchers_inv ta"
  show ?thesis
  proof (cases "get_args_object_path msg")
    case None
    with w show ?thesis unfolding Enable_intermediate by (simp add: enable_intermediate_state)
  next
    case (Some path)
    show ?thesis
    proof (cases "find_watcher (fwatchers ta) (sender msg) path")
      case None
      with w Some show ?thesis unfolding Enable_intermediate
        by (simp add: enable_intermediate_state)
    next
      case (Some x)
      note fx = Some
      show ?thesis
      proof (cases "find_watcher (iwatchers ta) (sender msg) path")
        case None
        from find_watcher_Some[OF fx] have x: "x \<in> set (fwatchers ta)" "w_srv x = sender msg" "w_path x = path"
          by simp_all
        from None x have "x \<notin> set (iwatchers ta)" by (auto simp add: find_watcher_None)
        with w x(1) have "watchers_inv (ta\<lparr>iwatchers := x # iwatchers ta\<rparr>)" by (simp add: watchers_inv_def)
        with None fx \<open>get_args_object_path msg = Some path\<close> show ?thesis
          unfolding Enable_intermediate by (simp add: enable_intermediate_state)
      next
        case (Some y)
        with w fx \<open>get_args_object_path msg = Some path\<close> show ?thesis
          unfolding Enable_intermediate by (simp add: enable_intermediate_state)
      qed
    qed
  qed
next
  case (Disable_intermediate msg)
  assume "watchers_inv ta"
  then show ?thesis unfolding Disable_intermediate
    by (simp add: disable_intermediate_state watchers_inv_remove_int split: option.splits)
next
  case (Watcher_exit w)
  assume "watchers_inv ta"
  then show ?thesis unfolding Watcher_exit
    by (simp add: watcher_exit_state watchers_inv_remove)
next
  case (Thermometers_changed ds)
  assume "watchers_inv ta"
  then show ?thesis unfolding Thermometers_changed by (simp add: watchers_inv_def)
qed

lemma watchers_inv_run: "watchers_inv ta \<Longrightarrow> watchers_inv (manager_run ta ops)"
  unfolding manager_run_def
  by (induction ops arbitrary: ta) (simp_all add: watchers_inv_step)

lemma watchers_inv_init: "watchers_inv (thermometer_adapter_register a)"
  by (simp add: watchers_inv_def thermometer_adapter_register_def)


lemma watchers_inv_keys:
  assumes "watchers_inv ta" "find_watcher (iwatchers ta) s p \<noteq> None"
  shows "find_watcher (fwatchers ta) s p \<noteq> None"
proof -
  from assms(2) obtain w where "w \<in> set (iwatchers ta)" "w_srv w = s \<and> w_path w = p"
    by (auto simp add: find_watcher_None)
  moreover from assms(1) have "set (iwatchers ta) \<subseteq> set (fwatchers ta)" by (simp add: watchers_inv_def)
  ultimately have "\<exists>w \<in> set (fwatchers ta). w_srv w = s \<and> w_path w = p" by blast
  then show ?thesis by (simp add: find_watcher_None)
qed

lemma register_watcher_exists:
  "get_args_object_path msg = Some path \<Longrightarrow>
   find_watcher (fwatchers ta) (sender msg) path \<noteq> None \<Longrightarrow>
   register_watcher ta msg wid = (Btd_error_already_exists, ta, [])"
  by (auto simp add: register_watcher_def)

lemma unregister_watcher_unknown:
  "get_args_object_path msg = Some path \<Longrightarrow>
   find_watcher (fwatchers ta) (sender msg) path = None \<Longrightarrow>
   unregister_watcher ta msg = (Btd_error_does_not_exist, ta, [])"
  by (simp add: unregister_watcher_def)

lemma enable_intermediate_unknown:
  "get_args_object_path msg = Some path \<Longrightarrow>
   find_watcher (fwatchers ta) (sender msg) path = None \<Longrightarrow>
   enable_intermediate ta msg = (Btd_error_does_not_exist, ta, [])"
  by (simp add: enable_intermediate_def)

lemma enable_intermediate_exists:
  "get_args_object_path msg = Some path \<Longrightarrow>
   find_watcher (fwatchers ta) (sender msg) path \<noteq> None \<Longrightarrow>
   find_watcher (iwatchers ta) (sender msg) path \<noteq> None \<Longrightarrow>
   enable_intermediate ta msg = (Btd_error_already_exists, ta, [])"
  by (auto simp add: enable_intermediate_def)

lemma manager_errors_change_nothing:
  "fst (register_watcher ta msg wid) \<noteq> Method_return \<Longrightarrow>
     snd (register_watcher ta msg wid) = (ta, [])"
  "fst (unregister_watcher ta msg) \<noteq> Method_return \<Longrightarrow>
     snd (unregister_watcher ta msg) = (ta, [])"
  "fst (enable_intermediate ta msg) \<noteq> Method_return \<Longrightarrow>
     snd (enable_intermediate ta msg) = (ta, [])"
  "fst (disable_intermediate ta msg) \<noteq> Method_return \<Longrightarrow>
     snd (disable_intermediate ta msg) = (ta, [])"
proof -
  show "fst (register_watcher ta msg wid) \<noteq> Method_return \<Longrightarrow>
     snd (register_watcher ta msg wid) = (ta, [])"
  proof (cases "get_args_object_path msg")
    case None
    then show ?thesis by (simp add: register_watcher_def)
  next
    case (Some path)
    assume e: "fst (register_watcher ta msg wid) \<noteq> Method_return"
    show ?thesis
    proof (cases "find_watcher (fwatchers ta) (sender msg) path")
      case None
      with \<open>get_args_object_path msg = Some path\<close>
      have "fst (register_watcher ta msg wid) = Method_return"
        by (simp add: register_watcher_def Let_def)
      with e show ?thesis by simp
    next
      case (Some w)
      with \<open>get_args_object_path msg = Some path\<close> show ?thesis
        by (simp add: register_watcher_def)
    qed
  qed
  show "fst (unregister_watcher ta msg) \<noteq> Method_return \<Longrightarrow>
     snd (unregister_watcher ta msg) = (ta, [])"
  proof (cases "get_args_object_path msg")
    case None
    then show ?thesis by (simp add: unregister_watcher_def)
  next
    case (Some path)
    assume e: "fst (unregister_watcher ta msg) \<noteq> Method_return"
    show ?thesis
    proof (cases "find_watcher (fwatchers ta) (sender msg) path")
      case None
      with Some show ?thesis by (simp add: unregister_watcher_def)
    next
      case (Some w)
      with \<open>get_args_object_path msg = Some path\<close>
      have "fst (unregister_watcher ta msg) = Method_return"
        by (simp add: unregister_watcher_def Let_def split_def)
      with e show ?thesis by simp
    qed
  qed
  show "fst (enable_intermediate ta msg) \<noteq> Method_return \<Longrightarrow>
     snd (enable_intermediate ta msg) = (ta, [])"
  proof (cases "get_args_object_path msg")
    case None
    then show ?thesis by (simp add: enable_intermediate_def)
  next
    case (Some path)
    assume e: "fst (enable_intermediate ta msg) \<noteq> Method_return"
    show ?thesis
    proof (cases "find_watcher (fwatchers ta) (sender msg) path")
      case None
      with Some show ?thesis by (simp add: enable_intermediate_def)
    next
      case (Some w)
      show ?thesis
      proof (cases "find_watcher (iwatchers ta) (sender msg) path")
        case None
        with Some \<open>get_args_object_path msg = Some path\<close>
        have "fst (enable_intermediate ta msg) = Method_return"
          by (simp add: enable_intermediate_def)
        with e show ?thesis by simp
      next
        case (Some w')
        with \<open>find_watcher (fwatchers ta) (sender msg) path = Some w\<close>
          \<open>get_args_object_path msg = Some path\<close>
        show ?thesis by (simp add: enable_intermediate_def)
      qed
    qed
  qed
  show "fst (disable_intermediate ta msg) \<noteq> Method_return \<Longrightarrow>
     snd (disable_intermediate ta msg) = (ta, [])"
  proof (cases "get_args_object_path msg")
    case None
    then show ?thesis by (simp add: disable_intermediate_def)
  next
    case (Some path)
    assume e: "fst (disable_intermediate ta msg) \<noteq> Method_return"
    show ?thesis
    proof (cases "find_watcher (iwatchers ta) (sender msg) path")
      case None
      with Some show ?thesis by (simp add: disable_intermediate_def)
    next
      case (Some w)
      with \<open>get_args_object_path msg = Some path\<close>
      have "fst (disable_intermediate ta msg) = Method_return"
        by (simp add: disable_intermediate_def Let_def split_def)
      with e show ?thesis by simp
    qed
  qed
qed

lemma gatt_writes_append: "gatt_writes (xs @ ys) = gatt_writes xs @ gatt_writes ys"
  by (induction xs rule: gatt_writes.induct) simp_all

lemma filter_once:
  "length (filter P xs) \<le> 1 \<Longrightarrow>
   filter P xs = (case find P xs of None \<Rightarrow> [] | Some x \<Rightarrow> [x])"
  by (induction xs) (auto split: option.splits simp add: find_None_iff filter_empty_conv)

lemma find_filter: "find P xs = (case filter P xs of [] \<Rightarrow> None | x # ys \<Rightarrow> Some x)"
  by (induction xs) simp_all

lemma gatt_writes_write_ccc:
  assumes "recorded_once t uuid"
  shows "gatt_writes (write_ccc t uuid v) =
     (if ccc_discovered t uuid then [(attrib t, hd (ccc_handles t uuid), att_put_u16 v)]
      else [])"
proof (cases "attrib t")
  case None
  then show ?thesis by (simp add: write_ccc_def ccc_discovered_def)
next
  case (Some a)
  let ?P = "\<lambda>ch. gc_uuid (attr ch) = uuid"
  let ?Q = "\<lambda>d. d_uuid d = bt_uuid16_create GATT_CLIENT_CHARAC_CFG_UUID"
  have "cmp_char_uuid uuid = ?P" by (rule ext) (simp add: cmp_char_uuid_def)
  then have g: "get_characteristic t uuid = find ?P (chars t)"
    by (simp add: get_characteristic_def g_slist_find_custom_def)
  from assms have f: "filter ?P (chars t) = (case find ?P (chars t) of None \<Rightarrow> [] | Some x \<Rightarrow> [x])"
    unfolding recorded_once_def by (rule filter_once)
  show ?thesis
  proof (cases "find ?P (chars t)")
    case None
    with f have "filter ?P (chars t) = []" by simp
    then have "\<not> ccc_discovered t uuid"
      by (auto simp add: ccc_discovered_def filter_empty_conv)
    with Some None g show ?thesis by (simp add: write_ccc_def)
  next
    case (Some ch)
    with f have fc: "filter ?P (chars t) = [ch]" by simp
    then have h: "ccc_handles t uuid = map d_handle (filter ?Q (desc ch))"
      by (simp add: ccc_handles_def)
    from fc have sf: "set (filter ?P (chars t)) = {ch}" by simp
    then have m1: "c = ch" if "c \<in> set (chars t)" "gc_uuid (attr c) = uuid" for c
      using that by auto
    from sf have m2: "ch \<in> set (chars t)" "gc_uuid (attr ch) = uuid" by auto
    have d: "ccc_discovered t uuid \<longleftrightarrow> (\<exists>d \<in> set (desc ch). ?Q d)"
    proof
      assume "ccc_discovered t uuid"
      then obtain c where c: "c \<in> set (chars t)" "gc_uuid (attr c) = uuid"
          "\<exists>d \<in> set (desc c). ?Q d"
        unfolding ccc_discovered_def by blast
      from c(1,2) have "c = ch" by (rule m1)
      with c(3) show "\<exists>d \<in> set (desc ch). ?Q d" by simp
    next
      assume "\<exists>d \<in> set (desc ch). ?Q d"
      with m2 \<open>attrib t = Some a\<close> show "ccc_discovered t uuid"
        unfolding ccc_discovered_def by blast
    qed
    have "cmp_descriptor (bt_uuid16_create GATT_CLIENT_CHARAC_CFG_UUID) = ?Q"
      by (rule ext) (simp add: cmp_descriptor_def)
    then have gd: "get_descriptor ch (bt_uuid16_create GATT_CLIENT_CHARAC_CFG_UUID)
        = find ?Q (desc ch)"
      by (simp add: get_descriptor_def g_slist_find_custom_def)
    show ?thesis
    proof (cases "filter ?Q (desc ch)")
      case Nil
      then have "\<not> (\<exists>d \<in> set (desc ch). ?Q d)" by (simp add: filter_empty_conv)
      with d have n: "\<not> ccc_discovered t uuid" by simp
      from Nil have "find ?Q (desc ch) = None" by (simp add: find_filter[of ?Q])
      with n g gd Some \<open>attrib t = Some a\<close> show ?thesis by (simp add: write_ccc_def)
    next
      case (Cons x xs)
      then have "x \<in> set (filter ?Q (desc ch))" by simp
      then have "\<exists>d \<in> set (desc ch). ?Q d" by auto
      with d have y: "ccc_discovered t uuid" by simp
      from Cons have "find ?Q (desc ch) = Some x" by (simp add: find_filter[of ?Q])
      with y g gd Some h Cons \<open>attrib t = Some a\<close> show ?thesis by (simp add: write_ccc_def)
    qed
  qed
qed

lemma gatt_writes_foreach:
  assumes "\<forall>t \<in> set ds. recorded_once t uuid"
  shows "gatt_writes (g_slist_foreach ds (\<lambda>t. write_ccc t uuid v))
     = ccc_writes ds uuid (att_put_u16 v)"
  using assms
proof (induction ds)
  case Nil
  show ?case by (simp add: g_slist_foreach_def ccc_writes_def)
next
  case (Cons t ds)
  then have r: "recorded_once t uuid" and rs: "\<forall>t \<in> set ds. recorded_once t uuid"
    by simp_all
  have "g_slist_foreach (t # ds) (\<lambda>t. write_ccc t uuid v)
      = write_ccc t uuid v @ g_slist_foreach ds (\<lambda>t. write_ccc t uuid v)"
    by (simp add: g_slist_foreach_def)
  then have "gatt_writes (g_slist_foreach (t # ds) (\<lambda>t. write_ccc t uuid v))
      = gatt_writes (write_ccc t uuid v) @ ccc_writes ds uuid (att_put_u16 v)"
    using Cons.IH[OF rs] by (simp add: gatt_writes_append)
  also have "\<dots> = ccc_writes (t # ds) uuid (att_put_u16 v)"
    by (simp add: gatt_writes_write_ccc[OF r] ccc_writes_def)
  finally show ?case .
qed

lemma att_put_u16_bits:
  "att_put_u16 GATT_CLIENT_CHARAC_CFG_IND_BIT = [0x02, 0x00]"
  "att_put_u16 GATT_CLIENT_CHARAC_CFG_NOTIF_BIT = [0x01, 0x00]"
  "att_put_u16 0x0000 = [0x00, 0x00]"
  by (simp_all add: att_put_u16_def GATT_CLIENT_CHARAC_CFG_IND_BIT_def
      GATT_CLIENT_CHARAC_CFG_NOTIF_BIT_def)

lemma toggle_write_ccc:
  "enable_final_measurement
     = (\<lambda>t. write_ccc t TEMPERATURE_MEASUREMENT_UUID GATT_CLIENT_CHARAC_CFG_IND_BIT)"
  "disable_final_measurement = (\<lambda>t. write_ccc t TEMPERATURE_MEASUREMENT_UUID 0x0000)"
  "enable_intermediate_measurement
     = (\<lambda>t. write_ccc t INTERMEDIATE_TEMPERATURE_UUID GATT_CLIENT_CHARAC_CFG_NOTIF_BIT)"
  "disable_intermediate_measurement = (\<lambda>t. write_ccc t INTERMEDIATE_TEMPERATURE_UUID 0x0000)"
  by (rule ext, simp add: enable_final_measurement_def disable_final_measurement_def
      enable_intermediate_measurement_def disable_intermediate_measurement_def)+

lemma gatt_writes_final_toggle:
  assumes "\<forall>t \<in> set ds. recorded_once t TEMPERATURE_MEASUREMENT_UUID"
  shows "gatt_writes (g_slist_foreach ds enable_final_measurement)
     = ccc_writes ds TEMPERATURE_MEASUREMENT_UUID [0x02, 0x00]"
    and "gatt_writes (g_slist_foreach ds disable_final_measurement)
     = ccc_writes ds TEMPERATURE_MEASUREMENT_UUID [0x00, 0x00]"
  unfolding toggle_write_ccc gatt_writes_foreach[OF assms] att_put_u16_bits by (rule refl)+

lemma gatt_writes_intermediate_toggle:
  assumes "\<forall>t \<in> set ds. recorded_once t INTERMEDIATE_TEMPERATURE_UUID"
  shows "gatt_writes (g_slist_foreach ds enable_intermediate_measurement)
     = ccc_writes ds INTERMEDIATE_TEMPERATURE_UUID [0x01, 0x00]"
    and "gatt_writes (g_slist_foreach ds disable_intermediate_measurement)
     = ccc_writes ds INTERMEDIATE_TEMPERATURE_UUID [0x00, 0x00]"
  unfolding toggle_write_ccc gatt_writes_foreach[OF assms] att_put_u16_bits by (rule refl)+

lemma length_remove1_crossing:
  "(x \<in> set xs \<and> remove1 x xs = []) \<longleftrightarrow> (length xs = 1 \<and> length (remove1 x xs) = 0)"
proof (cases "x \<in> set xs")
  case True
  then have l: "length (remove1 x xs) = length xs - 1" by (simp add: length_remove1)
  from True have "1 \<le> length xs" by (cases xs) simp_all
  with l have "length (remove1 x xs) = 0 \<longleftrightarrow> length xs = 1" by arith
  with True show ?thesis by simp
next
  case False
  then have "remove1 x xs = xs" by (rule remove1_idem)
  with False show ?thesis by auto
qed

lemma gatt_writes_remove_int_watcher:
  "gatt_writes (snd (remove_int_watcher ta w)) =
     (if length (iwatchers ta) = 1 \<and> length (remove1 w (iwatchers ta)) = 0
      then gatt_writes (g_slist_foreach (devices ta) disable_intermediate_measurement) else [])"
proof (cases "w \<in> set (iwatchers ta)")
  case True
  then show ?thesis
    using length_remove1_crossing[of w "iwatchers ta"]
    by (simp add: remove_int_watcher_def Let_def g_slist_remove_def)
next
  case False
  then have "remove1 w (iwatchers ta) = iwatchers ta" by (rule remove1_idem)
  then have n: "\<not> (length (iwatchers ta) = 1 \<and> length (remove1 w (iwatchers ta)) = 0)"
    by auto
  from False have "snd (remove_int_watcher ta w) = []" by (simp add: remove_int_watcher_def)
  then have "gatt_writes (snd (remove_int_watcher ta w)) = []" by simp
  with n show ?thesis by (simp only: if_False)
qed

lemma gatt_writes_register_watcher:
  "gatt_writes (snd (snd (register_watcher ta msg wid))) =
     (if fst (register_watcher ta msg wid) = Method_return \<and> length (fwatchers ta) = 0
      then gatt_writes (g_slist_foreach (devices ta) enable_final_measurement) else [])"
proof (cases "get_args_object_path msg")
  case None
  then show ?thesis by (simp add: register_watcher_def)
next
  case (Some path)
  show ?thesis
  proof (cases "find_watcher (fwatchers ta) (sender msg) path")
    case None
    with Some show ?thesis
      by (simp add: register_watcher_def Let_def)
  next
    case (Some w)
    with \<open>get_args_object_path msg = Some path\<close> show ?thesis
      by (simp add: register_watcher_def)
  qed
qed

lemma gatt_writes_enable_intermediate:
  "gatt_writes (snd (snd (enable_intermediate ta msg))) =
     (if fst (enable_intermediate ta msg) = Method_return \<and> length (iwatchers ta) = 0
      then gatt_writes (g_slist_foreach (devices ta) enable_intermediate_measurement) else [])"
proof (cases "get_args_object_path msg")
  case None
  then show ?thesis by (simp add: enable_intermediate_def)
next
  case (Some path)
  show ?thesis
  proof (cases "find_watcher (fwatchers ta) (sender msg) path")
    case None
    with Some show ?thesis by (simp add: enable_intermediate_def)
  next
    case (Some w)
    show ?thesis
    proof (cases "find_watcher (iwatchers ta) (sender msg) path")
      case None
      with Some \<open>get_args_object_path msg = Some path\<close> show ?thesis
        by (simp add: enable_intermediate_def)
    next
      case (Some w')
      with \<open>find_watcher (fwatchers ta) (sender msg) path = Some w\<close>
        \<open>get_args_object_path msg = Some path\<close>
      show ?thesis by (simp add: enable_intermediate_def)
    qed
  qed
qed

lemma gatt_writes_disable_intermediate:
  "gatt_writes (snd (snd (disable_intermediate ta msg))) =
     (if fst (disable_intermediate ta msg) = Method_return \<and> length (iwatchers ta) = 1
         \<and> length (iwatchers (fst (snd (disable_intermediate ta msg)))) = 0
      then gatt_writes (g_slist_foreach (devices ta) disable_intermediate_measurement) else [])"
proof (cases "get_args_object_path msg")
  case None
  then show ?thesis by (simp add: disable_intermediate_def)
next
  case (Some path)
  show ?thesis
  proof (cases "find_watcher (iwatchers ta) (sender msg) path")
    case None
    with Some show ?thesis by (simp add: disable_intermediate_def)
  next
    case (Some w)
    with \<open>get_args_object_path msg = Some path\<close>
    have "disable_intermediate ta msg =
        (Method_return, fst (remove_int_watcher ta w),
         [DBG ''Intermediate measurement %s unregistered'' [LStr path]]
         @ snd (remove_int_watcher ta w))"
      by (simp add: disable_intermediate_def split_def Let_def)
    then show ?thesis
      by (simp add: gatt_writes_remove_int_watcher remove_int_watcher_state)
  qed
qed

lemma gatt_writes_watcher_exit:
  assumes "w \<in> set (fwatchers ta)"
  shows "gatt_writes (snd (watcher_exit ta w)) =
     (if length (iwatchers ta) = 1 \<and> length (iwatchers (fst (watcher_exit ta w))) = 0
      then gatt_writes (g_slist_foreach (devices ta) disable_intermediate_measurement) else [])
     @ (if length (fwatchers ta) = 1 \<and> length (fwatchers (fst (watcher_exit ta w))) = 0
        then gatt_writes (g_slist_foreach (devices ta) disable_final_measurement) else [])"
proof -
  have "snd (watcher_exit ta w) =
      [DBG ''Thermometer watcher %s disconnected'' [LStr (w_path w)]]
      @ snd (remove_int_watcher ta w) @ [G_dbus_remove_watch (w_id w)]
      @ (if length (remove1 w (fwatchers ta)) = 0
         then g_slist_foreach (devices ta) disable_final_measurement else [])"
    by (simp add: watcher_exit_def Let_def split_def remove_int_watcher_state g_slist_remove_def)
  moreover have "length (remove1 w (fwatchers ta)) = 0
       \<longleftrightarrow> length (fwatchers ta) = 1 \<and> length (remove1 w (fwatchers ta)) = 0"
    using assms length_remove1_crossing[of w "fwatchers ta"] by simp
  ultimately show ?thesis
    by (simp add: gatt_writes_append gatt_writes_remove_int_watcher
        watcher_exit_state)
qed

lemma gatt_writes_unregister_watcher:
  "gatt_writes (snd (snd (unregister_watcher ta msg))) =
     (if fst (unregister_watcher ta msg) = Method_return \<and> length (iwatchers ta) = 1
         \<and> length (iwatchers (fst (snd (unregister_watcher ta msg)))) = 0
      then gatt_writes (g_slist_foreach (devices ta) disable_intermediate_measurement) else [])
     @ (if fst (unregister_watcher ta msg) = Method_return \<and> length (fwatchers ta) = 1
           \<and> length (fwatchers (fst (snd (unregister_watcher ta msg)))) = 0
        then gatt_writes (g_slist_foreach (devices ta) disable_final_measurement) else [])"
proof (cases "get_args_object_path msg")
  case None
  then show ?thesis by (simp add: unregister_watcher_def)
next
  case (Some path)
  show ?thesis
  proof (cases "find_watcher (fwatchers ta) (sender msg) path")
    case None
    with Some show ?thesis by (simp add: unregister_watcher_def)
  next
    case (Some w)
    then have m: "w \<in> set (fwatchers ta)" using find_watcher_Some by blast
    from Some \<open>get_args_object_path msg = Some path\<close>
    have u: "unregister_watcher ta msg =
        (Method_return,
         ta\<lparr>iwatchers := remove1 w (iwatchers ta), fwatchers := remove1 w (fwatchers ta)\<rparr>,
         [DBG ''Thermometer watcher %s unregistered'' [LStr path]]
         @ snd (remove_int_watcher ta w) @ [G_dbus_remove_watch (w_id w)]
         @ (if length (remove1 w (fwatchers ta)) = 0
            then g_slist_foreach (devices ta) disable_final_measurement else []))"
      by (simp add: unregister_watcher_def Let_def split_def remove_int_watcher_state
          g_slist_remove_def)
    have "length (remove1 w (fwatchers ta)) = 0
       \<longleftrightarrow> length (fwatchers ta) = 1 \<and> length (remove1 w (fwatchers ta)) = 0"
      using m length_remove1_crossing[of w "fwatchers ta"] by simp
    then show ?thesis unfolding u
      by (simp add: gatt_writes_append gatt_writes_remove_int_watcher)
  qed
qed

text \<open>
  C3. After any sequence of RegisterWatcher, UnregisterWatcher,
  EnableIntermediateMeasurement and DisableIntermediateMeasurement requests, of
  disconnections of watchers and of changes to the thermometers, on an adapter as
  \<open>thermometer_adapter_register\<close> creates it, every watcher in the list of the
  intermediate watchers is in the list of the final watchers; and every pair of an
  endpoint and a path found among the intermediate watchers is found among the final ones.
\<close>

theorem intermediate_watchers_are_final:
  "set (iwatchers (manager_run (thermometer_adapter_register a) ops))
     \<subseteq> set (fwatchers (manager_run (thermometer_adapter_register a) ops))
   \<and> (\<forall>s p. find_watcher (iwatchers (manager_run (thermometer_adapter_register a) ops)) s p \<noteq> None
        \<longrightarrow> find_watcher (fwatchers (manager_run (thermometer_adapter_register a) ops)) s p
            \<noteq> None)"
proof -
  have w: "watchers_inv (manager_run (thermometer_adapter_register a) ops)"
    by (rule watchers_inv_run) (rule watchers_inv_init)
  then have "set (iwatchers (manager_run (thermometer_adapter_register a) ops))
     \<subseteq> set (fwatchers (manager_run (thermometer_adapter_register a) ops))"
    by (simp add: watchers_inv_def)
  moreover have "\<forall>s p. find_watcher (iwatchers (manager_run (thermometer_adapter_register a) ops)) s p \<noteq> None
        \<longrightarrow> find_watcher (fwatchers (manager_run (thermometer_adapter_register a) ops)) s p
            \<noteq> None"
    using watchers_inv_keys[OF w] by blast
  ultimately show ?thesis by (rule conjI)
qed

text \<open>
  C6. \<open>register_watcher\<close> for a pair of endpoint and path that is among the final
  watchers answers AlreadyExists; \<open>unregister_watcher\<close> and \<open>enable_intermediate\<close> for a
  pair that is not among them answer DoesNotExist; \<open>enable_intermediate\<close> for a pair
  that is among the intermediate watchers, on an adapter reached from its creation,
  answers AlreadyExists. Each of the four methods, whenever it answers with an error,
  leaves the adapter as it was and makes no call.
\<close>

theorem watcher_errors:
  "(get_args_object_path msg = Some path \<and> find_watcher (fwatchers ta) (sender msg) path \<noteq> None
      \<longrightarrow> register_watcher ta msg wid = (Btd_error_already_exists, ta, []))
   \<and> (get_args_object_path msg = Some path \<and> find_watcher (fwatchers ta) (sender msg) path = None
      \<longrightarrow> unregister_watcher ta msg = (Btd_error_does_not_exist, ta, []))
   \<and> (get_args_object_path msg = Some path \<and> find_watcher (fwatchers ta) (sender msg) path = None
      \<longrightarrow> enable_intermediate ta msg = (Btd_error_does_not_exist, ta, []))
   \<and> (get_args_object_path msg = Some path \<and> ta = manager_run (thermometer_adapter_register a) ops
        \<and> find_watcher (iwatchers ta) (sender msg) path \<noteq> None
      \<longrightarrow> enable_intermediate ta msg = (Btd_error_already_exists, ta, []))
   \<and> (fst (register_watcher ta msg wid) \<noteq> Method_return
      \<longrightarrow> snd (register_watcher ta msg wid) = (ta, []))
   \<and> (fst (unregister_watcher ta msg) \<noteq> Method_return
      \<longrightarrow> snd (unregister_watcher ta msg) = (ta, []))
   \<and> (fst (enable_intermediate ta msg) \<noteq> Method_return
      \<longrightarrow> snd (enable_intermediate ta msg) = (ta, []))
   \<and> (fst (disable_intermediate ta msg) \<noteq> Method_return
      \<longrightarrow> snd (disable_intermediate ta msg) = (ta, []))"
proof (intro conjI impI)
  assume "get_args_object_path msg = Some path
      \<and> find_watcher (fwatchers ta) (sender msg) path \<noteq> None"
  then show "register_watcher ta msg wid = (Btd_error_already_exists, ta, [])"
    by (simp add: register_watcher_exists)
next
  assume "get_args_object_path msg = Some path
      \<and> find_watcher (fwatchers ta) (sender msg) path = None"
  then show "unregister_watcher ta msg = (Btd_error_does_not_exist, ta, [])"
    by (simp add: unregister_watcher_unknown)
next
  assume "get_args_object_path msg = Some path
      \<and> find_watcher (fwatchers ta) (sender msg) path = None"
  then show "enable_intermediate ta msg = (Btd_error_does_not_exist, ta, [])"
    by (simp add: enable_intermediate_unknown)
next
  assume a: "get_args_object_path msg = Some path
      \<and> ta = manager_run (thermometer_adapter_register a) ops
      \<and> find_watcher (iwatchers ta) (sender msg) path \<noteq> None"
  then have "watchers_inv ta" using watchers_inv_run[OF watchers_inv_init] by simp
  with a have "find_watcher (fwatchers ta) (sender msg) path \<noteq> None"
    using watchers_inv_keys by blast
  with a show "enable_intermediate ta msg = (Btd_error_already_exists, ta, [])"
    using enable_intermediate_exists by blast
next
  assume "fst (register_watcher ta msg wid) \<noteq> Method_return"
  then show "snd (register_watcher ta msg wid) = (ta, [])"
    by (rule manager_errors_change_nothing)
next
  assume "fst (unregister_watcher ta msg) \<noteq> Method_return"
  then show "snd (unregister_watcher ta msg) = (ta, [])"
    by (rule manager_errors_change_nothing)
next
  assume "fst (enable_intermediate ta msg) \<noteq> Method_return"
  then show "snd (enable_intermediate ta msg) = (ta, [])"
    by (rule manager_errors_change_nothing)
next
  assume "fst (disable_intermediate ta msg) \<noteq> Method_return"
  then show "snd (disable_intermediate ta msg) = (ta, [])"
    by (rule manager_errors_change_nothing)
qed



lemma example_run:
  "manager_run (thermometer_adapter_register 0)
     [Register_watcher example_msg 7, Enable_intermediate example_msg]
   = \<lparr>adapter = 0, devices = [], fwatchers = [example_watcher],
      iwatchers = [example_watcher]\<rparr>"
  by (simp add: manager_run_def thermometer_adapter_register_def register_watcher_def
      enable_intermediate_def get_args_object_path_def example_msg_def find_watcher_def
      g_slist_find_custom_def cmp_watcher_def g_slist_foreach_def example_watcher_def)

lemma example_get_args:
  "get_args_object_path example_msg = Some ''/test/watcher''"
  "sender example_msg = '':1.42''"
  by (simp_all add: get_args_object_path_def example_msg_def)

lemma example_find:
  "find_watcher [example_watcher] '':1.42'' ''/test/watcher'' = Some example_watcher"
  "find_watcher [] s p = None"
  by (simp_all add: find_watcher_def g_slist_find_custom_def cmp_watcher_def example_watcher_def)

theorem intermediate_watchers_are_final_witness:
  "iwatchers (manager_run (thermometer_adapter_register 0)
       [Register_watcher example_msg 7, Enable_intermediate example_msg]) = [example_watcher]
   \<and> set [example_watcher]
       \<subseteq> set (fwatchers (manager_run (thermometer_adapter_register 0)
             [Register_watcher example_msg 7, Enable_intermediate example_msg]))"
  using intermediate_watchers_are_final[of 0
      "[Register_watcher example_msg 7, Enable_intermediate example_msg]"]
  by (simp add: example_run)

theorem watcher_errors_witness:
  "register_watcher
     (manager_run (thermometer_adapter_register 0)
        [Register_watcher example_msg 7, Enable_intermediate example_msg]) example_msg 2
   = (Btd_error_already_exists,
      manager_run (thermometer_adapter_register 0)
        [Register_watcher example_msg 7, Enable_intermediate example_msg], [])
   \<and> enable_intermediate
     (manager_run (thermometer_adapter_register 0)
        [Register_watcher example_msg 7, Enable_intermediate example_msg]) example_msg
   = (Btd_error_already_exists,
      manager_run (thermometer_adapter_register 0)
        [Register_watcher example_msg 7, Enable_intermediate example_msg], [])
   \<and> unregister_watcher (thermometer_adapter_register 0) example_msg
   = (Btd_error_does_not_exist, thermometer_adapter_register 0, [])
   \<and> enable_intermediate (thermometer_adapter_register 0) example_msg
   = (Btd_error_does_not_exist, thermometer_adapter_register 0, [])"
proof -
  let ?ops = "[Register_watcher example_msg 7, Enable_intermediate example_msg]"
  let ?ta = "manager_run (thermometer_adapter_register 0) ?ops"
  have f: "find_watcher (fwatchers ?ta) (sender example_msg) ''/test/watcher'' \<noteq> None"
    "find_watcher (iwatchers ?ta) (sender example_msg) ''/test/watcher'' \<noteq> None"
    by (simp_all add: example_run example_get_args example_find)
  have n: "find_watcher (fwatchers (thermometer_adapter_register 0)) (sender example_msg)
      ''/test/watcher'' = None"
    by (simp add: thermometer_adapter_register_def example_find)
  note w1 = watcher_errors[of example_msg "''/test/watcher''" ?ta 2 0 ?ops]
  note w2 = watcher_errors[of example_msg "''/test/watcher''" "thermometer_adapter_register 0" 2 0 "[]"]
  from w1 f example_get_args(1)
  have 1: "register_watcher ?ta example_msg 2 = (Btd_error_already_exists, ?ta, [])" by blast
  from w1 f example_get_args(1)
  have 2: "enable_intermediate ?ta example_msg = (Btd_error_already_exists, ?ta, [])" by blast
  from w2 n example_get_args(1)
  have 3: "unregister_watcher (thermometer_adapter_register 0) example_msg
   = (Btd_error_does_not_exist, thermometer_adapter_register 0, [])" by blast
  from w2 n example_get_args(1)
  have 4: "enable_intermediate (thermometer_adapter_register 0) example_msg
   = (Btd_error_does_not_exist, thermometer_adapter_register 0, [])" by blast
  from 1 2 3 4 show ?thesis by blast
qed



lemma register_watcher_count:
  "fst (register_watcher ta msg wid) = Method_return \<Longrightarrow>
   length (fwatchers (fst (snd (register_watcher ta msg wid)))) = length (fwatchers ta) + 1"
proof -
  assume e: "fst (register_watcher ta msg wid) = Method_return"
  show ?thesis
  proof (cases "get_args_object_path msg")
    case None
    with e show ?thesis by (simp add: register_watcher_def)
  next
    case (Some path)
    show ?thesis
    proof (cases "find_watcher (fwatchers ta) (sender msg) path")
      case None
      with Some show ?thesis by (simp add: register_watcher_state)
    next
      case (Some w)
      with e \<open>get_args_object_path msg = Some path\<close> show ?thesis
        by (simp add: register_watcher_def)
    qed
  qed
qed

lemma enable_intermediate_count:
  "fst (enable_intermediate ta msg) = Method_return \<Longrightarrow>
   length (iwatchers (fst (snd (enable_intermediate ta msg)))) = length (iwatchers ta) + 1"
proof -
  assume e: "fst (enable_intermediate ta msg) = Method_return"
  show ?thesis
  proof (cases "get_args_object_path msg")
    case None
    with e show ?thesis by (simp add: enable_intermediate_def)
  next
    case (Some path)
    show ?thesis
    proof (cases "find_watcher (fwatchers ta) (sender msg) path")
      case None
      with e Some show ?thesis by (simp add: enable_intermediate_def)
    next
      case (Some w)
      show ?thesis
      proof (cases "find_watcher (iwatchers ta) (sender msg) path")
        case None
        with Some \<open>get_args_object_path msg = Some path\<close> show ?thesis
          by (simp add: enable_intermediate_state)
      next
        case (Some w')
        with e \<open>find_watcher (fwatchers ta) (sender msg) path = Some w\<close>
          \<open>get_args_object_path msg = Some path\<close>
        show ?thesis by (simp add: enable_intermediate_def)
      qed
    qed
  qed
qed

lemma ccc_writes_shape:
  "length (ccc_writes ds uuid v) = length (filter (\<lambda>t. ccc_discovered t uuid) ds)"
  "\<forall>x \<in> set (ccc_writes ds uuid v). snd (snd x) = v"
  by (auto simp add: ccc_writes_def)

text \<open>
  C4, amended. The writes to configuration descriptors that a request or a disconnection
  makes, on an adapter whose thermometers each hold at most one record of the Temperature
  Measurement characteristic and at most one of the Intermediate Temperature
  characteristic. When the number of final watchers goes from 0 to 1 (a successful
  \<open>register_watcher\<close> on an empty list) there is one write of the indication bit for each
  thermometer of the adapter that is connected and has discovered the Temperature
  Measurement characteristic and a configuration descriptor of it, on the first such
  descriptor, in the order of the list, and none for any other thermometer; when it goes
  from 1 to 0 (a successful \<open>unregister_watcher\<close>, or \<open>watcher_exit\<close> for a registered
  watcher) there is one write of 0 for each such thermometer. The same holds for the
  number of intermediate watchers, the Intermediate Temperature characteristic and the
  notification bit. No other write is made: none when a count does not go from 0 to 1 or
  from 1 to 0, none when the request fails. Nothing is stated for an adapter with a
  thermometer that holds several records of one of the two characteristics.
\<close>

theorem ccc_writes_on_crossing:
  assumes "\<forall>t \<in> set (devices ta).
             recorded_once t TEMPERATURE_MEASUREMENT_UUID
             \<and> recorded_once t INTERMEDIATE_TEMPERATURE_UUID"
  shows "gatt_writes (snd (snd (register_watcher ta msg wid))) =
     (if fst (register_watcher ta msg wid) = Method_return \<and> length (fwatchers ta) = 0
      then ccc_writes (devices ta) TEMPERATURE_MEASUREMENT_UUID [0x02, 0x00] else [])
   \<and> (fst (register_watcher ta msg wid) = Method_return \<longrightarrow>
        length (fwatchers (fst (snd (register_watcher ta msg wid))))
        = length (fwatchers ta) + 1)
   \<and> gatt_writes (snd (snd (unregister_watcher ta msg))) =
       (if fst (unregister_watcher ta msg) = Method_return \<and> length (iwatchers ta) = 1
           \<and> length (iwatchers (fst (snd (unregister_watcher ta msg)))) = 0
        then ccc_writes (devices ta) INTERMEDIATE_TEMPERATURE_UUID [0x00, 0x00] else [])
       @ (if fst (unregister_watcher ta msg) = Method_return \<and> length (fwatchers ta) = 1
             \<and> length (fwatchers (fst (snd (unregister_watcher ta msg)))) = 0
          then ccc_writes (devices ta) TEMPERATURE_MEASUREMENT_UUID [0x00, 0x00] else [])
   \<and> gatt_writes (snd (snd (enable_intermediate ta msg))) =
       (if fst (enable_intermediate ta msg) = Method_return \<and> length (iwatchers ta) = 0
        then ccc_writes (devices ta) INTERMEDIATE_TEMPERATURE_UUID [0x01, 0x00] else [])
   \<and> (fst (enable_intermediate ta msg) = Method_return \<longrightarrow>
        length (iwatchers (fst (snd (enable_intermediate ta msg))))
        = length (iwatchers ta) + 1)
   \<and> gatt_writes (snd (snd (disable_intermediate ta msg))) =
       (if fst (disable_intermediate ta msg) = Method_return \<and> length (iwatchers ta) = 1
           \<and> length (iwatchers (fst (snd (disable_intermediate ta msg)))) = 0
        then ccc_writes (devices ta) INTERMEDIATE_TEMPERATURE_UUID [0x00, 0x00] else [])
   \<and> (w \<in> set (fwatchers ta) \<longrightarrow>
        gatt_writes (snd (watcher_exit ta w)) =
          (if length (iwatchers ta) = 1 \<and> length (iwatchers (fst (watcher_exit ta w))) = 0
           then ccc_writes (devices ta) INTERMEDIATE_TEMPERATURE_UUID [0x00, 0x00] else [])
          @ (if length (fwatchers ta) = 1 \<and> length (fwatchers (fst (watcher_exit ta w))) = 0
             then ccc_writes (devices ta) TEMPERATURE_MEASUREMENT_UUID [0x00, 0x00] else []))
   \<and> length (ccc_writes ds uuid v) = length (filter (\<lambda>t. ccc_discovered t uuid) ds)
   \<and> (\<forall>x \<in> set (ccc_writes ds uuid v). snd (snd x) = v)"
proof -
  from assms have f: "\<forall>t \<in> set (devices ta). recorded_once t TEMPERATURE_MEASUREMENT_UUID"
    and i: "\<forall>t \<in> set (devices ta). recorded_once t INTERMEDIATE_TEMPERATURE_UUID"
    by simp_all
  note tf = gatt_writes_final_toggle[OF f]
  note ti = gatt_writes_intermediate_toggle[OF i]
  have r1: "gatt_writes (snd (snd (register_watcher ta msg wid))) =
     (if fst (register_watcher ta msg wid) = Method_return \<and> length (fwatchers ta) = 0
      then ccc_writes (devices ta) TEMPERATURE_MEASUREMENT_UUID [0x02, 0x00] else [])"
    using gatt_writes_register_watcher[of ta msg wid] by (simp only: tf)
  have r2: "fst (register_watcher ta msg wid) = Method_return \<longrightarrow>
        length (fwatchers (fst (snd (register_watcher ta msg wid))))
        = length (fwatchers ta) + 1"
    by (rule impI) (rule register_watcher_count)
  have r3: "gatt_writes (snd (snd (unregister_watcher ta msg))) =
       (if fst (unregister_watcher ta msg) = Method_return \<and> length (iwatchers ta) = 1
           \<and> length (iwatchers (fst (snd (unregister_watcher ta msg)))) = 0
        then ccc_writes (devices ta) INTERMEDIATE_TEMPERATURE_UUID [0x00, 0x00] else [])
       @ (if fst (unregister_watcher ta msg) = Method_return \<and> length (fwatchers ta) = 1
             \<and> length (fwatchers (fst (snd (unregister_watcher ta msg)))) = 0
          then ccc_writes (devices ta) TEMPERATURE_MEASUREMENT_UUID [0x00, 0x00] else [])"
    using gatt_writes_unregister_watcher[of ta msg] by (simp only: tf ti)
  have r4: "gatt_writes (snd (snd (enable_intermediate ta msg))) =
       (if fst (enable_intermediate ta msg) = Method_return \<and> length (iwatchers ta) = 0
        then ccc_writes (devices ta) INTERMEDIATE_TEMPERATURE_UUID [0x01, 0x00] else [])"
    using gatt_writes_enable_intermediate[of ta msg] by (simp only: ti)
  have r5: "fst (enable_intermediate ta msg) = Method_return \<longrightarrow>
        length (iwatchers (fst (snd (enable_intermediate ta msg))))
        = length (iwatchers ta) + 1"
    by (rule impI) (rule enable_intermediate_count)
  have r6: "gatt_writes (snd (snd (disable_intermediate ta msg))) =
       (if fst (disable_intermediate ta msg) = Method_return \<and> length (iwatchers ta) = 1
           \<and> length (iwatchers (fst (snd (disable_intermediate ta msg)))) = 0
        then ccc_writes (devices ta) INTERMEDIATE_TEMPERATURE_UUID [0x00, 0x00] else [])"
    using gatt_writes_disable_intermediate[of ta msg] by (simp only: ti)
  have r7: "w \<in> set (fwatchers ta) \<longrightarrow>
        gatt_writes (snd (watcher_exit ta w)) =
          (if length (iwatchers ta) = 1 \<and> length (iwatchers (fst (watcher_exit ta w))) = 0
           then ccc_writes (devices ta) INTERMEDIATE_TEMPERATURE_UUID [0x00, 0x00] else [])
          @ (if length (fwatchers ta) = 1 \<and> length (fwatchers (fst (watcher_exit ta w))) = 0
             then ccc_writes (devices ta) TEMPERATURE_MEASUREMENT_UUID [0x00, 0x00] else [])"
  proof
    assume "w \<in> set (fwatchers ta)"
    then show "gatt_writes (snd (watcher_exit ta w)) =
          (if length (iwatchers ta) = 1 \<and> length (iwatchers (fst (watcher_exit ta w))) = 0
           then ccc_writes (devices ta) INTERMEDIATE_TEMPERATURE_UUID [0x00, 0x00] else [])
          @ (if length (fwatchers ta) = 1 \<and> length (fwatchers (fst (watcher_exit ta w))) = 0
             then ccc_writes (devices ta) TEMPERATURE_MEASUREMENT_UUID [0x00, 0x00] else [])"
      using gatt_writes_watcher_exit[of w ta] by (simp only: tf ti)
  qed
  note r8 = ccc_writes_shape(1)[of ds uuid v]
  note r9 = ccc_writes_shape(2)[of ds uuid v]
  from r1 r2 r3 r4 r5 r6 r7 r8 r9 show ?thesis by (intro conjI)
qed

lemma example_uuids:
  "TEMPERATURE_MEASUREMENT_UUID \<noteq> MEASUREMENT_INTERVAL_UUID"
  "INTERMEDIATE_TEMPERATURE_UUID \<noteq> MEASUREMENT_INTERVAL_UUID"
  "INTERMEDIATE_TEMPERATURE_UUID \<noteq> TEMPERATURE_MEASUREMENT_UUID"
  "bt_uuid16_create GATT_CHARAC_VALID_RANGE_UUID \<noteq> bt_uuid16_create GATT_CLIENT_CHARAC_CFG_UUID"
  by (simp_all add: TEMPERATURE_MEASUREMENT_UUID_def MEASUREMENT_INTERVAL_UUID_def
      INTERMEDIATE_TEMPERATURE_UUID_def bt_uuid16_create_def GATT_CHARAC_VALID_RANGE_UUID_def
      GATT_CLIENT_CHARAC_CFG_UUID_def)

lemma example_chars:
  "chars example_thermometer = [measurement_char, interval_char]"
  "chars second_thermometer = [measurement_char, interval_char]"
  "chars disconnected_thermometer = [\<lparr>attr = attr interval_char, desc = []\<rparr>]"
  "attrib example_thermometer = Some 1"
  "attrib second_thermometer = Some 2"
  "attrib disconnected_thermometer = None"
  "gc_uuid (attr measurement_char) = TEMPERATURE_MEASUREMENT_UUID"
  "gc_uuid (attr interval_char) = MEASUREMENT_INTERVAL_UUID"
  "desc measurement_char
     = [\<lparr>d_handle = 0x0012, d_uuid = bt_uuid16_create GATT_CLIENT_CHARAC_CFG_UUID\<rparr>]"
  by (simp_all add: example_thermometer_def second_thermometer_def
      disconnected_thermometer_def measurement_char_def interval_char_def)

lemma example_recorded_once:
  "recorded_once example_thermometer TEMPERATURE_MEASUREMENT_UUID"
  "recorded_once example_thermometer INTERMEDIATE_TEMPERATURE_UUID"
  "recorded_once second_thermometer TEMPERATURE_MEASUREMENT_UUID"
  "recorded_once second_thermometer INTERMEDIATE_TEMPERATURE_UUID"
  "recorded_once disconnected_thermometer TEMPERATURE_MEASUREMENT_UUID"
  "recorded_once disconnected_thermometer INTERMEDIATE_TEMPERATURE_UUID"
  using example_uuids by (simp_all add: recorded_once_def example_chars)

lemma example_ccc_discovered:
  "ccc_discovered example_thermometer TEMPERATURE_MEASUREMENT_UUID"
  "ccc_discovered second_thermometer TEMPERATURE_MEASUREMENT_UUID"
  "\<not> ccc_discovered disconnected_thermometer TEMPERATURE_MEASUREMENT_UUID"
  "ccc_handles example_thermometer TEMPERATURE_MEASUREMENT_UUID = [0x0012]"
  "ccc_handles second_thermometer TEMPERATURE_MEASUREMENT_UUID = [0x0012]"
  using example_uuids by (simp_all add: ccc_discovered_def ccc_handles_def example_chars)

lemma example_ccc_writes:
  "ccc_writes [example_thermometer, disconnected_thermometer, second_thermometer]
       TEMPERATURE_MEASUREMENT_UUID v
     = [(Some 1, 0x0012, v), (Some 2, 0x0012, v)]"
  by (simp add: ccc_writes_def example_ccc_discovered example_chars)

lemma example_register:
  "fst (register_watcher \<lparr>adapter = 0, devices = ds, fwatchers = [], iwatchers = []\<rparr>
          example_msg 7) = Method_return"
  by (simp add: register_watcher_def example_get_args example_find)

theorem ccc_writes_on_crossing_witness:
  "recorded_once example_thermometer TEMPERATURE_MEASUREMENT_UUID
   \<and> recorded_once example_thermometer INTERMEDIATE_TEMPERATURE_UUID
   \<and> recorded_once disconnected_thermometer TEMPERATURE_MEASUREMENT_UUID
   \<and> recorded_once disconnected_thermometer INTERMEDIATE_TEMPERATURE_UUID
   \<and> recorded_once second_thermometer TEMPERATURE_MEASUREMENT_UUID
   \<and> recorded_once second_thermometer INTERMEDIATE_TEMPERATURE_UUID
   \<and> gatt_writes (snd (snd (register_watcher
      \<lparr>adapter = 0,
       devices = [example_thermometer, disconnected_thermometer, second_thermometer],
       fwatchers = [], iwatchers = []\<rparr> example_msg 7)))
     = [(Some 1, 0x0012, [0x02, 0x00]), (Some 2, 0x0012, [0x02, 0x00])]
   \<and> example_watcher \<in> set [example_watcher]
   \<and> gatt_writes (snd (watcher_exit
      \<lparr>adapter = 0,
       devices = [example_thermometer, disconnected_thermometer, second_thermometer],
       fwatchers = [example_watcher], iwatchers = []\<rparr> example_watcher))
     = [(Some 1, 0x0012, [0x00, 0x00]), (Some 2, 0x0012, [0x00, 0x00])]"
proof -
  let ?ds = "[example_thermometer, disconnected_thermometer, second_thermometer]"
  let ?a = "\<lparr>adapter = 0, devices = ?ds, fwatchers = [], iwatchers = []\<rparr>"
  let ?b = "\<lparr>adapter = 0, devices = ?ds, fwatchers = [example_watcher], iwatchers = []\<rparr>"
  have h: "\<forall>t \<in> set ?ds. recorded_once t TEMPERATURE_MEASUREMENT_UUID
      \<and> recorded_once t INTERMEDIATE_TEMPERATURE_UUID"
    by (simp add: example_recorded_once)
  then have ha: "\<forall>t \<in> set (devices ?a). recorded_once t TEMPERATURE_MEASUREMENT_UUID
      \<and> recorded_once t INTERMEDIATE_TEMPERATURE_UUID"
    and hb: "\<forall>t \<in> set (devices ?b). recorded_once t TEMPERATURE_MEASUREMENT_UUID
      \<and> recorded_once t INTERMEDIATE_TEMPERATURE_UUID"
    by simp_all
  have m: "example_watcher \<in> set (fwatchers ?b)" by simp
  have x: "fwatchers (fst (watcher_exit ?b example_watcher)) = []"
    "iwatchers (fst (watcher_exit ?b example_watcher)) = []"
    by (simp_all add: watcher_exit_state)
  from ccc_writes_on_crossing[OF ha, of example_msg 7 example_watcher "[]" "[]" "[]"]
  have 1: "gatt_writes (snd (snd (register_watcher ?a example_msg 7)))
     = [(Some 1, 0x0012, [0x02, 0x00]), (Some 2, 0x0012, [0x02, 0x00])]"
    by (simp add: example_register example_ccc_writes)
  from m x ccc_writes_on_crossing[OF hb, of example_msg 7 example_watcher "[]" "[]" "[]"]
  have 2: "gatt_writes (snd (watcher_exit ?b example_watcher))
     = [(Some 1, 0x0012, [0x00, 0x00]), (Some 2, 0x0012, [0x00, 0x00])]"
    by (simp add: example_ccc_writes)
  from h 1 2 show ?thesis by simp
qed

text \<open>
  C4 as stated fails: a thermometer that is connected but has not discovered the
  characteristic gets no write at the first registration.
\<close>

theorem ccc_writes_per_connected_counterexample:
  "attrib (example_thermometer\<lparr>chars := []\<rparr>) = Some 1
   \<and> fwatchers \<lparr>adapter = 0, devices = [example_thermometer\<lparr>chars := []\<rparr>], fwatchers = [],
                iwatchers = []\<rparr> = []
   \<and> fst (register_watcher
        \<lparr>adapter = 0, devices = [example_thermometer\<lparr>chars := []\<rparr>], fwatchers = [],
         iwatchers = []\<rparr> example_msg 7) = Method_return
   \<and> gatt_writes (snd (snd (register_watcher
        \<lparr>adapter = 0, devices = [example_thermometer\<lparr>chars := []\<rparr>], fwatchers = [],
         iwatchers = []\<rparr> example_msg 7))) = []"
proof -
  have a: "attrib (example_thermometer\<lparr>chars := []\<rparr>) = Some 1"
    by (simp add: example_thermometer_def)
  then have "gatt_writes (g_slist_foreach [example_thermometer\<lparr>chars := []\<rparr>]
      enable_final_measurement) = []"
    by (simp add: g_slist_foreach_def enable_final_measurement_def write_ccc_def
        get_characteristic_def g_slist_find_custom_def)
  with a show ?thesis
    by (simp add: example_register gatt_writes_register_watcher)
qed

subsection \<open>Properties of the measurement decoding\<close>

lemma exp_bits: "(scast (signed_drop_bit 24 (le32 b0 b1 b2 b3)) :: u16) = scast b3"
  apply (rule bit_word_eqI)
  apply (auto simp add: le32_def bit_simps dest: bit_imp_le_length)
  done

lemma enc0: "(ucast (le32 b0 b1 b2 b3) :: u8) = b0"
  apply (rule bit_word_eqI)
  apply (auto simp add: le32_def bit_simps dest: bit_imp_le_length)
  done

lemma enc1: "(ucast (drop_bit 8 (le32 b0 b1 b2 b3)) :: u8) = b1"
  apply (rule bit_word_eqI)
  apply (auto simp add: le32_def bit_simps dest: bit_imp_le_length)
  done

lemma enc2: "(ucast (drop_bit 16 (le32 b0 b1 b2 b3)) :: u8) = b2"
  apply (rule bit_word_eqI)
  apply (auto simp add: le32_def bit_simps dest: bit_imp_le_length)
  done

lemma mask24: "(0x00FFFFFF :: u32) = mask 24"
  by (simp add: mask_eq_exp_minus_1)

lemma m0_uint: "uint (raw AND 0x00FFFFFF :: u32) = uint raw mod 2 ^ 24"
  unfolding mask24
  by (simp add: take_bit_eq_mask[symmetric] take_bit_eq_mod uint_mod)

lemma m0_bit: "((raw AND 0x00FFFFFF) AND 0x00800000 \<noteq> (0 :: u32)) \<longleftrightarrow> bit raw 23"
proof -
  have e: "(0x00800000 :: u32) = 2 ^ 23" by simp
  have 1: "((raw AND mask 24) AND 2 ^ 23 = 0) = (\<not> bit (raw AND mask 24) 23)"
    by (rule and_exp_eq_0_iff_not_bit)
  have 2: "bit (raw AND mask 24) 23 = bit raw 23"
    by (simp add: bit_and_iff bit_mask_iff)
  show ?thesis unfolding e mask24 1 2 by simp
qed

lemma bit23_int:
  "bit raw 23 \<longleftrightarrow> 2 ^ 23 \<le> uint raw mod 2 ^ 24" for raw :: u32
proof -
  have "bit raw 23 \<longleftrightarrow> bit (uint raw) 23" by (simp add: bit_uint_iff)
  also have "\<dots> \<longleftrightarrow> odd (uint raw div 8388608)" by (simp add: bit_iff_odd)
  also have "\<dots> \<longleftrightarrow> 8388608 \<le> uint raw mod 16777216"
  proof -
    have "uint raw mod (8388608 * 2)
        = 8388608 * (uint raw div 8388608 mod 2) + uint raw mod 8388608"
      by (rule zmod_zmult2_eq) simp
    then have d: "uint raw mod 16777216
        = 8388608 * (uint raw div 8388608 mod 2) + uint raw mod 8388608" by simp
    have r: "0 \<le> uint raw mod 8388608" "uint raw mod 8388608 < 8388608" by simp_all
    show ?thesis
    proof (cases "odd (uint raw div 8388608)")
      case True
      then have "uint raw div 8388608 mod 2 = 1" by (simp add: odd_iff_mod_2_eq_one)
      with d r True show ?thesis by simp
    next
      case False
      then have "uint raw div 8388608 mod 2 = 0" by simp
      with d r False show ?thesis by simp
    qed
  qed
  finally show ?thesis by simp
qed

lemma sint_small:
  "- (2 ^ 31) \<le> k \<Longrightarrow> k < 2 ^ 31 \<Longrightarrow> sint (word_of_int k :: u32) = k"
  by (simp add: sint_sbintrunc' signed_take_bit_int_eq_self)

lemma mant_sint:
  fixes raw :: u32
  shows "sint (if (raw AND 0x00FFFFFF) AND 0x00800000 \<noteq> 0
               then (raw AND 0x00FFFFFF) - 16777216 else raw AND 0x00FFFFFF)
         = uint raw mod 2 ^ 24 - (if bit raw 23 then 2 ^ 24 else 0)"
proof -
  let ?m0 = "raw AND 0x00FFFFFF"
  have u: "uint ?m0 = uint raw mod 2 ^ 24" by (rule m0_uint)
  have r: "0 \<le> uint raw mod 2 ^ 24" "uint raw mod 2 ^ 24 < 2 ^ 24" by simp_all
  have w: "?m0 = word_of_int (uint raw mod 2 ^ 24)" using u by (metis word_of_int_uint)
  show ?thesis
  proof (cases "bit raw 23")
    case True
    have c: "?m0 AND 0x00800000 \<noteq> 0" using True m0_bit[of raw] by blast
    have "?m0 - 16777216 = word_of_int (uint raw mod 2 ^ 24 - 2 ^ 24)"
      unfolding w by simp
    moreover have "sint (word_of_int (uint raw mod 2 ^ 24 - 2 ^ 24) :: u32)
        = uint raw mod 2 ^ 24 - 2 ^ 24"
      using r by (intro sint_small) simp_all
    ultimately have "sint (?m0 - 16777216) = uint raw mod 2 ^ 24 - 2 ^ 24" by (simp only:)
    then show ?thesis unfolding if_P[OF c] if_P[OF True] .
  next
    case False
    have c: "\<not> ?m0 AND 0x00800000 \<noteq> 0" using False m0_bit[of raw] by blast
    have "sint (word_of_int (uint raw mod 2 ^ 24) :: u32) = uint raw mod 2 ^ 24"
      using r by (intro sint_small) simp_all
    then have "sint ?m0 = uint raw mod 2 ^ 24 - 0" unfolding w[symmetric] by simp
    then show ?thesis unfolding if_not_P[OF c] if_not_P[OF False] .
  qed
qed

lemma mant_range:
  fixes raw :: u32
  shows "- (2 ^ 23) \<le> uint raw mod 2 ^ 24 - (if bit raw 23 then 2 ^ 24 else 0)
       \<and> uint raw mod 2 ^ 24 - (if bit raw 23 then 2 ^ 24 else 0) < 2 ^ 23"
proof -
  have r: "0 \<le> uint raw mod 2 ^ 24" "uint raw mod 2 ^ 24 < 2 ^ 24" by simp_all
  show ?thesis using r bit23_int[of raw] by (cases "bit raw 23") simp_all
qed

lemma exp_sint:
  "sint (scast (signed_drop_bit 24 raw) :: u16) = sint raw div 2 ^ 24" for raw :: u32
proof -
  have a: "sint (signed_drop_bit 24 raw) = sint raw div 2 ^ 24"
    by (simp add: sint_signed_drop_bit_eq drop_bit_eq_div)
  have "- (2 ^ 31) \<le> sint raw" "sint raw < 2 ^ 31"
    using sint_ge[of raw] sint_lt[of raw] by simp_all
  then have "- (2 ^ 15) \<le> sint raw div 2 ^ 24" "sint raw div 2 ^ 24 < 2 ^ 15" by simp_all
  then show ?thesis
    using a by (simp add: signed_scast_eq signed_take_bit_int_eq_self)
qed

lemma exp_byte: "sint (scast b3 :: u16) = sint b3" for b3 :: u8
  by (rule sint_up_scast) (simp add: is_up)

lemma le32_uint_or:
  "uint (le32 b0 b1 b2 b3)
     = uint b0 OR push_bit 8 (uint b1) OR push_bit 16 (uint b2) OR push_bit 24 (uint b3)"
  by (rule bit_eqI) (auto simp add: le32_def bit_simps dest: bit_imp_le_length)

lemma byte_or_plus:
  "uint b OR push_bit 8 k = uint b + push_bit 8 k" for b :: u8 and k :: int
  by (rule disjunctive_add[symmetric]) (auto simp add: bit_simps dest: bit_imp_le_length)

lemma le32_uint:
  "uint (le32 b0 b1 b2 b3) = uint b0 + 256 * uint b1 + 65536 * uint b2 + 16777216 * uint b3"
proof -
  have "uint (le32 b0 b1 b2 b3)
      = uint b0 OR push_bit 8 (uint b1 OR push_bit 8 (uint b2 OR push_bit 8 (uint b3)))"
    unfolding le32_uint_or by (simp add: push_bit_or push_bit_push_bit)
  also have "\<dots> = uint b0 + push_bit 8 (uint b1 + push_bit 8 (uint b2 + push_bit 8 (uint b3)))"
    by (simp only: byte_or_plus)
  also have "\<dots> = uint b0 + 256 * uint b1 + 65536 * uint b2 + 16777216 * uint b3"
    by (simp add: push_bit_eq_mult)
  finally show ?thesis .
qed


lemma not_mask24: "(- 16777216 :: u32) = NOT (mask 24)"
  by (simp add: not_eq_complement mask_eq_exp_minus_1)

lemma mant_bitwise:
  fixes raw :: u32
  shows "(if (raw AND 0x00FFFFFF) AND 0x00800000 \<noteq> 0
          then (raw AND 0x00FFFFFF) - 16777216 else raw AND 0x00FFFFFF)
         = (if bit raw 23 then (raw AND mask 24) OR NOT (mask 24) else raw AND mask 24)"
proof (cases "bit raw 23")
  case True
  have c: "(raw AND 0x00FFFFFF) AND 0x00800000 \<noteq> 0" using True m0_bit[of raw] by blast
  have "(raw AND mask 24) - 16777216 = (raw AND mask 24) + NOT (mask 24)"
    by (simp add: not_mask24[symmetric])
  also have "\<dots> = (raw AND mask 24) OR NOT (mask 24)"
    by (rule disjunctive_add) (simp add: bit_simps)
  finally have f: "(raw AND mask 24) - 16777216 = (raw AND mask 24) OR NOT (mask 24)" .
  show ?thesis unfolding if_P[OF c] if_P[OF True] unfolding mask24 by (rule f)
next
  case False
  have c: "\<not> (raw AND 0x00FFFFFF) AND 0x00800000 \<noteq> 0" using False m0_bit[of raw] by blast
  show ?thesis unfolding if_not_P[OF c] if_not_P[OF False] unfolding mask24 ..
qed

lemma encode_bytes:
  fixes raw :: u32
  defines "mant \<equiv> (if bit raw 23 then (raw AND mask 24) OR NOT (mask 24) else raw AND mask 24)"
  shows "(ucast mant :: u8) = ucast raw"
    and "(ucast (drop_bit 8 mant) :: u8) = ucast (drop_bit 8 raw)"
    and "(ucast (drop_bit 16 mant) :: u8) = ucast (drop_bit 16 raw)"
  unfolding mant_def
  by (rule bit_word_eqI, auto simp add: bit_simps)+

lemma encode_exp: "(ucast (scast b3 :: u16) :: u8) = b3"
  by (rule bit_word_eqI) (auto simp add: bit_simps dest: bit_imp_le_length)

lemma spec_encode_float_decode:
  "spec_encode_float
     (if (le32 b0 b1 b2 b3 AND 0x00FFFFFF) AND 0x00800000 \<noteq> 0
      then (le32 b0 b1 b2 b3 AND 0x00FFFFFF) - 16777216 else le32 b0 b1 b2 b3 AND 0x00FFFFFF)
     (scast (signed_drop_bit 24 (le32 b0 b1 b2 b3)))
   = [b0, b1, b2, b3]"
  unfolding mant_bitwise spec_encode_float_def exp_bits encode_bytes encode_exp
  by (simp add: enc0 enc1 enc2)

lemma deref_Some: "i < length p \<Longrightarrow> deref p i = Some (p ! i)"
  by (simp add: deref_def)

lemma att_get_u32_Some:
  "4 \<le> length p \<Longrightarrow> att_get_u32 p = Some (le32 (p ! 0) (p ! 1) (p ! 2) (p ! 3))"
proof -
  assume "4 \<le> length p"
  then obtain b0 b1 b2 b3 r where "p = b0 # b1 # b2 # b3 # r"
    by (cases p; cases "tl p"; cases "tl (tl p)"; cases "tl (tl (tl p))") auto
  then show ?thesis by (simp add: att_get_u32_def)
qed

lemma u16_less:
  fixes len :: u16
  shows "len < 1 \<longleftrightarrow> unat len < 1" "len < 3 \<longleftrightarrow> unat len < 3" "len < 4 \<longleftrightarrow> unat len < 4"
    "len < 5 \<longleftrightarrow> unat len < 5" "len < 7 \<longleftrightarrow> unat len < 7"
  by (simp_all add: word_less_nat_alt)

lemma u16_sub:
  fixes len :: u16
  shows "1 \<le> unat len \<Longrightarrow> unat (len - 1) = unat len - 1"
    "3 \<le> unat len \<Longrightarrow> unat (len - 3) = unat len - 3"
    "4 \<le> unat len \<Longrightarrow> unat (len - 4) = unat len - 4"
    "7 \<le> unat len \<Longrightarrow> unat (len - 7) = unat len - 7"
  by (simp_all add: unat_sub word_le_nat_alt)

lemma proc_measurement_time_eq:
  assumes "unat len = length p"
  shows "proc_measurement_time mktime flags m p len =
     (if flags AND TEMP_TIME_STAMP \<noteq> 0 then
        if length p < 7 then Some (Inl [DBG ''Time stamp is not provided'' []])
        else Some (Inr (m\<lparr>m_time := word_of_int (mktime
                 \<lparr>tm_sec = uint (p ! 6), tm_min = uint (p ! 5), tm_hour = uint (p ! 4),
                  tm_mday = uint (p ! 3), tm_mon = uint (p ! 2) - 1,
                  tm_year = uint (ucast (p ! 0) OR push_bit 8 (ucast (p ! 1)) :: u16) - 1900,
                  tm_isdst = - 1\<rparr>), m_suptime := True\<rparr>, drop 7 p, len - 7))
      else Some (Inr (m, p, len)))"
proof (cases "flags AND TEMP_TIME_STAMP \<noteq> 0")
  case False
  then show ?thesis by (simp add: proc_measurement_time_def)
next
  case True
  show ?thesis
  proof (cases "length p < 7")
    case True
    with assms \<open>flags AND TEMP_TIME_STAMP \<noteq> 0\<close> show ?thesis
      by (simp add: proc_measurement_time_def u16_less)
  next
    case False
    then have l: "7 \<le> length p" by simp
    with assms \<open>flags AND TEMP_TIME_STAMP \<noteq> 0\<close> show ?thesis
      by (simp add: proc_measurement_time_def u16_less deref_Some att_get_u16_Some Let_def)
  qed
qed

lemma proc_measurement_type_eq:
  assumes "unat len = length p"
  shows "proc_measurement_type t flags p len =
     (if flags AND TEMP_TYPE \<noteq> 0 then
        if length p < 1 then Some (Inl [DBG ''Temperature type is not provided'' []])
        else Some (Inr (temptype2str (p ! 0)))
      else if has_type t then Some (Inr (temptype2str (t_type t)))
      else Some (Inr (None, [])))"
proof (cases "length p < 1")
  case True
  with assms have "len < 1" by (simp add: word_less_nat_alt)
  with True show ?thesis by (simp add: proc_measurement_type_def)
next
  case False
  with assms have "\<not> len < 1" by (simp add: word_less_nat_alt)
  moreover from False have "deref p 0 = Some (p ! 0)" by (simp add: deref_Some)
  ultimately show ?thesis using False by (simp add: proc_measurement_type_def)
qed


lemma proc_measurement_decode_no_flags:
  assumes "unat len = length pdu" "3 \<le> length pdu" "length pdu < 4"
  shows "proc_measurement_decode t mktime pdu len final
     = Some (Inl [DBG ''Mandatory flags are not provided'' []])"
proof -
  from assms have "unat (len - 3) = length pdu - 3" by (simp add: u16_sub)
  with assms have "len - 3 < 1" by (simp add: word_less_nat_alt)
  then show ?thesis by (simp add: proc_measurement_decode_def)
qed

lemma proc_measurement_decode_no_value:
  assumes "unat len = length pdu" "4 \<le> length pdu" "length pdu < 8"
  shows "proc_measurement_decode t mktime pdu len final
     = Some (Inl [DBG ''Mandatory temperature measurement value is not provided'' []])"
proof -
  from assms have l1: "unat (len - 3) = length pdu - 3" by (simp add: u16_sub)
  with assms have c1: "\<not> len - 3 < 1" by (simp add: word_less_nat_alt)
  from l1 assms have l2: "unat (len - 3 - 1) = length pdu - 4" by (simp add: u16_sub)
  with assms have c2: "len - 3 - 1 < 4" by (simp add: word_less_nat_alt)
  from assms have d: "deref (drop 3 pdu) 0 = Some (pdu ! 3)" by (simp add: deref_Some)
  show ?thesis
    unfolding proc_measurement_decode_def Let_def if_not_P[OF c1] d Option.bind.simps if_P[OF c2]
    ..
qed

lemma proc_measurement_decode_value:
  assumes "unat len = length pdu" "8 \<le> length pdu"
  shows "proc_measurement_decode t mktime pdu len final =
     Option.bind
       (proc_measurement_time mktime (pdu ! 3)
          \<lparr>m_exp = scast (signed_drop_bit 24 (le32 (pdu ! 4) (pdu ! 5) (pdu ! 6) (pdu ! 7))),
           m_mant =
             (if (le32 (pdu ! 4) (pdu ! 5) (pdu ! 6) (pdu ! 7) AND 0x00FFFFFF) AND 0x00800000 \<noteq> 0
              then (le32 (pdu ! 4) (pdu ! 5) (pdu ! 6) (pdu ! 7) AND 0x00FFFFFF) - 16777216
              else le32 (pdu ! 4) (pdu ! 5) (pdu ! 6) (pdu ! 7) AND 0x00FFFFFF),
           m_time = 0, m_suptime = False,
           m_unit = (if pdu ! 3 AND TEMP_UNITS \<noteq> 0 then ''fahrenheit'' else ''celsius''),
           m_type = None, m_value = []\<rparr>
          (drop 8 pdu) (len - 3 - 1 - 4))
       (\<lambda>r. case r of
              Inl es \<Rightarrow> Some (Inl es)
            | Inr (m3, pdu4, len4) \<Rightarrow>
                Option.bind (proc_measurement_type t (pdu ! 3) pdu4 len4)
                  (\<lambda>r'. case r' of
                           Inl es \<Rightarrow> Some (Inl es)
                         | Inr (type, es) \<Rightarrow>
                             Some (Inr (m3\<lparr>m_type := type,
                                           m_value := (if final then ''final''
                                                       else ''intermediate'')\<rparr>, es))))"
proof -
  from assms have l1: "unat (len - 3) = length pdu - 3" by (simp add: u16_sub)
  with assms have c1: "\<not> len - 3 < 1" by (simp add: word_less_nat_alt)
  from l1 assms have l2: "unat (len - 3 - 1) = length pdu - 4" by (simp add: u16_sub)
  with assms have c2: "\<not> len - 3 - 1 < 4" by (simp add: word_less_nat_alt)
  from assms have d: "deref (drop 3 pdu) 0 = Some (pdu ! 3)" by (simp add: deref_Some)
  from assms have g: "att_get_u32 (drop 1 (drop 3 pdu))
      = Some (le32 (pdu ! 4) (pdu ! 5) (pdu ! 6) (pdu ! 7))"
    by (simp add: att_get_u32_Some)
  have dr: "drop 4 (drop 1 (drop 3 pdu)) = drop 8 pdu" by simp
  show ?thesis
    unfolding proc_measurement_decode_def Let_def if_not_P[OF c1] d Option.bind.simps
      if_not_P[OF c2] g dr FLOAT_MAX_MANTISSA_def
    by simp
qed

lemma u16_len8:
  fixes len :: u16
  assumes "unat len = length pdu" "8 \<le> length pdu"
  shows "unat (len - 3 - 1 - 4) = length (drop 8 pdu)"
proof -
  from assms have "unat (len - 8) = unat len - 8" by (simp add: unat_sub word_le_nat_alt)
  with assms show ?thesis by simp
qed


lemma proc_measurement_finish:
  assumes "unat len4 = length p4"
  shows "Option.bind (proc_measurement_type t flags p4 len4)
           (\<lambda>r'. case r' of
                    Inl es \<Rightarrow> Some (Inl es)
                  | Inr (type, es) \<Rightarrow> Some (Inr (m3\<lparr>m_type := type, m_value := v\<rparr>, es)))
     = (if flags AND TEMP_TYPE \<noteq> 0 \<and> length p4 < 1
        then Some (Inl [DBG ''Temperature type is not provided'' []])
        else Some (Inr (m3\<lparr>m_type :=
                           fst (if flags AND TEMP_TYPE \<noteq> 0 then temptype2str (p4 ! 0)
                                else if has_type t then temptype2str (t_type t)
                                else (None, [])),
                         m_value := v\<rparr>,
                        snd (if flags AND TEMP_TYPE \<noteq> 0 then temptype2str (p4 ! 0)
                             else if has_type t then temptype2str (t_type t)
                             else (None, [])))))"
  unfolding proc_measurement_type_eq[OF assms]
  by (simp add: split_def)

lemma proc_measurement_decode_cases:
  assumes "unat len = length pdu" "3 \<le> length pdu"
  shows "(payload_truncated pdu \<longrightarrow>
            (\<exists>msg. proc_measurement_decode t mktime pdu len final = Some (Inl [DBG msg []])))
       \<and> (\<not> payload_truncated pdu \<longrightarrow>
            (\<exists>m es. proc_measurement_decode t mktime pdu len final = Some (Inr (m, es))
               \<and> m_mant m =
                   (if (le32 (pdu ! 4) (pdu ! 5) (pdu ! 6) (pdu ! 7) AND 0x00FFFFFF) AND 0x00800000
                        \<noteq> 0
                    then (le32 (pdu ! 4) (pdu ! 5) (pdu ! 6) (pdu ! 7) AND 0x00FFFFFF) - 16777216
                    else le32 (pdu ! 4) (pdu ! 5) (pdu ! 6) (pdu ! 7) AND 0x00FFFFFF)
               \<and> m_exp m = scast (signed_drop_bit 24 (le32 (pdu ! 4) (pdu ! 5) (pdu ! 6) (pdu ! 7)))
               \<and> m_value m = (if final then ''final'' else ''intermediate'')
               \<and> (es = [] \<or> (\<exists>f a. es = [Error_log f a]))))"
proof -
  have tt: "\<And>b. snd (temptype2str b) = [] \<or> (\<exists>f a. snd (temptype2str b) = [Error_log f a])"
    by (simp add: temptype2str_def)
  consider (a) "length pdu < 4" | (b) "4 \<le> length pdu" "length pdu < 8" | (c) "8 \<le> length pdu"
    by linarith
  then show ?thesis
  proof cases
    case a
    then have "payload_truncated pdu" by (simp add: payload_truncated_def)
    with proc_measurement_decode_no_flags[OF assms a] show ?thesis by blast
  next
    case b
    then have "payload_truncated pdu" by (simp add: payload_truncated_def)
    with proc_measurement_decode_no_value[OF assms(1) b] show ?thesis by blast
  next
    case c
    note v = proc_measurement_decode_value[OF assms(1) c]
    note l8 = u16_len8[OF assms(1) c]
    show ?thesis
    proof (cases "pdu ! 3 AND TEMP_TIME_STAMP \<noteq> 0")
      case False
      then have tr: "payload_truncated pdu \<longleftrightarrow> pdu ! 3 AND TEMP_TYPE \<noteq> 0 \<and> length pdu < 9"
        using c by (auto simp add: payload_truncated_def)
      have ln: "length (drop 8 pdu) < 1 \<longleftrightarrow> length pdu < 9" using c by auto
      show ?thesis
        unfolding v proc_measurement_time_eq[OF l8] if_not_P[OF False] Option.bind.simps
          sum.case prod.case proc_measurement_finish[OF l8] tr ln
        using tt by simp
    next
      case True
      show ?thesis
      proof (cases "length pdu < 15")
        case True
        then have tr: "payload_truncated pdu"
          using \<open>pdu ! 3 AND TEMP_TIME_STAMP \<noteq> 0\<close> by (simp add: payload_truncated_def)
        from True c have s: "length (drop 8 pdu) < 7" by simp
        show ?thesis
          unfolding v proc_measurement_time_eq[OF l8]
            if_P[OF \<open>pdu ! 3 AND TEMP_TIME_STAMP \<noteq> 0\<close>] if_P[OF s]
          using tr by simp
      next
        case False
        then have tr: "payload_truncated pdu \<longleftrightarrow> pdu ! 3 AND TEMP_TYPE \<noteq> 0 \<and> length pdu < 16"
          using c \<open>pdu ! 3 AND TEMP_TIME_STAMP \<noteq> 0\<close> by (auto simp add: payload_truncated_def)
        from False c have s: "\<not> length (drop 8 pdu) < 7" by simp
        have "unat (len - 15) = unat len - 15"
          using assms(1) False by (simp add: unat_sub word_le_nat_alt)
        with assms(1) have l15: "unat (len - 3 - 1 - 4 - 7) = length (drop 7 (drop 8 pdu))"
          by simp
        have ln: "length (drop 7 (drop 8 pdu)) < 1 \<longleftrightarrow> length pdu < 16" using False by auto
        show ?thesis
          unfolding v proc_measurement_time_eq[OF l8]
            if_P[OF \<open>pdu ! 3 AND TEMP_TIME_STAMP \<noteq> 0\<close>] if_not_P[OF s] Option.bind.simps
            sum.case prod.case proc_measurement_finish[OF l15] tr ln
          using tt by simp
      qed
    qed
  qed
qed

lemma take4_drop4:
  "8 \<le> length pdu \<Longrightarrow> take 4 (drop 4 pdu) = [pdu ! 4, pdu ! 5, pdu ! 6, pdu ! 7]"
proof -
  assume a: "8 \<le> length pdu"
  have "length (take 4 (drop 4 pdu)) = 4" using a by simp
  moreover have "\<And>i. i < 4 \<Longrightarrow> take 4 (drop 4 pdu) ! i = [pdu ! 4, pdu ! 5, pdu ! 6, pdu ! 7] ! i"
  proof -
    fix i :: nat assume "i < 4"
    then consider "i = 0" | "i = 1" | "i = 2" | "i = 3" by linarith
    then show "take 4 (drop 4 pdu) ! i = [pdu ! 4, pdu ! 5, pdu ! 6, pdu ! 7] ! i"
      using a by cases simp_all
  qed
  ultimately show ?thesis by (intro nth_equalityI) simp_all
qed

lemma reassemble: "8 \<le> length pdu \<Longrightarrow> take 4 pdu @ take 4 (drop 4 pdu) @ drop 8 pdu = pdu"
proof -
  assume "8 \<le> length pdu"
  have "take 4 (drop 4 pdu) @ drop 8 pdu = drop 4 pdu"
    using append_take_drop_id[of 4 "drop 4 pdu"] by simp
  then show ?thesis by simp
qed

text \<open>
  C1. For a payload of at least 8 bytes (the header of 3 bytes, the flags, the value of 4
  bytes), whose length is \<open>len\<close>: the value that \<open>proc_measurement\<close> reads is the four
  bytes after the flags as a little-endian 32-bit integer; in every measurement it
  produces, the mantissa is the low 24 bits of that integer minus \<open>2^24\<close> when bit 23 is
  set, a signed 24-bit integer, and the exponent is the arithmetic shift of the integer by
  24, the high byte with its sign. Encoding the mantissa and the exponent again gives the
  four bytes back, so decoding the re-encoded payload gives the same measurement. And a
  measurement is produced whenever no announced field is cut off.
\<close>

theorem measurement_value_decoding:
  assumes "unat len = length pdu" and "8 \<le> length pdu"
  shows "(let raw = le32 (pdu ! 4) (pdu ! 5) (pdu ! 6) (pdu ! 7) in
     att_get_u32 (drop 4 pdu) = Some raw
     \<and> uint raw = uint (pdu ! 4) + 256 * uint (pdu ! 5) + 65536 * uint (pdu ! 6)
                   + 16777216 * uint (pdu ! 7)
     \<and> (\<forall>m es. proc_measurement_decode t mktime pdu len final = Some (Inr (m, es)) \<longrightarrow>
          sint (m_mant m) = uint raw mod 2 ^ 24 - (if bit raw 23 then 2 ^ 24 else 0)
          \<and> - (2 ^ 23) \<le> sint (m_mant m) \<and> sint (m_mant m) < 2 ^ 23
          \<and> sint (m_exp m) = sint raw div 2 ^ 24
          \<and> sint (m_exp m) = sint (pdu ! 7)
          \<and> spec_encode_float (m_mant m) (m_exp m) = take 4 (drop 4 pdu)
          \<and> proc_measurement_decode t mktime
               (take 4 pdu @ spec_encode_float (m_mant m) (m_exp m) @ drop 8 pdu) len final
             = Some (Inr (m, es)))
     \<and> (\<not> payload_truncated pdu \<longrightarrow>
          (\<exists>m es. proc_measurement_decode t mktime pdu len final = Some (Inr (m, es)))))"
proof -
  let ?raw = "le32 (pdu ! 4) (pdu ! 5) (pdu ! 6) (pdu ! 7)"
  from assms(2) have 3: "3 \<le> length pdu" by simp
  note cases = proc_measurement_decode_cases[OF assms(1) 3, of t mktime final]
  have 1: "att_get_u32 (drop 4 pdu) = Some ?raw"
    using assms(2) by (simp add: att_get_u32_Some)
  have 2: "uint ?raw = uint (pdu ! 4) + 256 * uint (pdu ! 5) + 65536 * uint (pdu ! 6)
                   + 16777216 * uint (pdu ! 7)"
    by (rule le32_uint)
  have 4: "\<not> payload_truncated pdu \<longrightarrow>
          (\<exists>m es. proc_measurement_decode t mktime pdu len final = Some (Inr (m, es)))"
    using cases by blast
  have 5: "\<forall>m es. proc_measurement_decode t mktime pdu len final = Some (Inr (m, es)) \<longrightarrow>
          sint (m_mant m) = uint ?raw mod 2 ^ 24 - (if bit ?raw 23 then 2 ^ 24 else 0)
          \<and> - (2 ^ 23) \<le> sint (m_mant m) \<and> sint (m_mant m) < 2 ^ 23
          \<and> sint (m_exp m) = sint ?raw div 2 ^ 24
          \<and> sint (m_exp m) = sint (pdu ! 7)
          \<and> spec_encode_float (m_mant m) (m_exp m) = take 4 (drop 4 pdu)
          \<and> proc_measurement_decode t mktime
               (take 4 pdu @ spec_encode_float (m_mant m) (m_exp m) @ drop 8 pdu) len final
             = Some (Inr (m, es))"
  proof (intro allI impI)
    fix m es
    assume d: "proc_measurement_decode t mktime pdu len final = Some (Inr (m, es))"
    have nt: "\<not> payload_truncated pdu"
    proof
      assume "payload_truncated pdu"
      with cases obtain msg where
        "proc_measurement_decode t mktime pdu len final = Some (Inl [DBG msg []])" by blast
      with d show False by simp
    qed
    with cases d have mm: "m_mant m =
        (if (?raw AND 0x00FFFFFF) AND 0x00800000 \<noteq> 0
         then (?raw AND 0x00FFFFFF) - 16777216 else ?raw AND 0x00FFFFFF)"
      and me: "m_exp m = scast (signed_drop_bit 24 ?raw)" by auto
    have a: "sint (m_mant m) = uint ?raw mod 2 ^ 24 - (if bit ?raw 23 then 2 ^ 24 else 0)"
      unfolding mm by (rule mant_sint)
    have b: "- (2 ^ 23) \<le> sint (m_mant m) \<and> sint (m_mant m) < 2 ^ 23"
      unfolding a by (rule mant_range)
    have c: "sint (m_exp m) = sint ?raw div 2 ^ 24" unfolding me by (rule exp_sint)
    have e: "sint (m_exp m) = sint (pdu ! 7)" unfolding me exp_bits by (rule exp_byte)
    have f: "spec_encode_float (m_mant m) (m_exp m) = take 4 (drop 4 pdu)"
      unfolding mm me spec_encode_float_decode take4_drop4[OF assms(2)] ..
    have g: "proc_measurement_decode t mktime
               (take 4 pdu @ spec_encode_float (m_mant m) (m_exp m) @ drop 8 pdu) len final
             = Some (Inr (m, es))"
      unfolding f reassemble[OF assms(2)] by (rule d)
    from a b c e f g
    show "sint (m_mant m) = uint ?raw mod 2 ^ 24 - (if bit ?raw 23 then 2 ^ 24 else 0)
          \<and> - (2 ^ 23) \<le> sint (m_mant m) \<and> sint (m_mant m) < 2 ^ 23
          \<and> sint (m_exp m) = sint ?raw div 2 ^ 24
          \<and> sint (m_exp m) = sint (pdu ! 7)
          \<and> spec_encode_float (m_mant m) (m_exp m) = take 4 (drop 4 pdu)
          \<and> proc_measurement_decode t mktime
               (take 4 pdu @ spec_encode_float (m_mant m) (m_exp m) @ drop 8 pdu) len final
             = Some (Inr (m, es))" by (intro conjI) simp_all
  qed
  from 1 2 5 4 show ?thesis unfolding Let_def by (intro conjI)
qed


theorem measurement_value_decoding_witness:
  "unat (8 :: u16) = length example_pdu \<and> 8 \<le> length example_pdu
   \<and> (\<exists>m es. proc_measurement_decode example_thermometer example_mktime example_pdu 8 True
                = Some (Inr (m, es))
         \<and> sint (m_mant m) = 364 \<and> sint (m_exp m) = - 1
         \<and> spec_encode_float (m_mant m) (m_exp m) = [0x6C, 0x01, 0x00, 0xFF])
   \<and> unat (8 :: u16) = length negative_pdu \<and> 8 \<le> length negative_pdu
   \<and> (\<exists>m es. proc_measurement_decode example_thermometer example_mktime negative_pdu 8 True
                = Some (Inr (m, es))
         \<and> sint (m_mant m) = - 2 \<and> sint (m_exp m) = 0
         \<and> spec_encode_float (m_mant m) (m_exp m) = [0xFE, 0xFF, 0xFF, 0x00])"
proof -
  have h: "unat (8 :: u16) = length example_pdu" "8 \<le> length example_pdu"
    by (simp_all add: example_pdu_def)
  have nt: "\<not> payload_truncated example_pdu"
    by (simp add: payload_truncated_def example_pdu_def TEMP_TIME_STAMP_def TEMP_TYPE_def)
  note T = measurement_value_decoding[OF h, of example_thermometer example_mktime True,
      unfolded Let_def]
  from T nt obtain m es where
    d: "proc_measurement_decode example_thermometer example_mktime example_pdu 8 True
        = Some (Inr (m, es))" by blast
  let ?raw = "le32 (example_pdu ! 4) (example_pdu ! 5) (example_pdu ! 6) (example_pdu ! 7)"
  from T have u: "uint ?raw = 4278190444" by (simp add: example_pdu_def)
  then have b: "\<not> bit ?raw 23" by (simp add: bit23_int)
  from T d have "sint (m_mant m) = uint ?raw mod 2 ^ 24 - (if bit ?raw 23 then 2 ^ 24 else 0)"
    by blast
  with u b have 1: "sint (m_mant m) = 364" by simp
  from T d have "sint (m_exp m) = sint (example_pdu ! 7)" by blast
  then have 2: "sint (m_exp m) = - 1" by (simp add: example_pdu_def)
  from T d have "spec_encode_float (m_mant m) (m_exp m) = take 4 (drop 4 example_pdu)" by blast
  then have 3: "spec_encode_float (m_mant m) (m_exp m) = [0x6C, 0x01, 0x00, 0xFF]"
    by (simp add: example_pdu_def)
  have h': "unat (8 :: u16) = length negative_pdu" "8 \<le> length negative_pdu"
    by (simp_all add: negative_pdu_def)
  have nt': "\<not> payload_truncated negative_pdu"
    by (simp add: payload_truncated_def negative_pdu_def TEMP_TIME_STAMP_def TEMP_TYPE_def)
  note T' = measurement_value_decoding[OF h', of example_thermometer example_mktime True,
      unfolded Let_def]
  from T' nt' obtain m' es' where
    d': "proc_measurement_decode example_thermometer example_mktime negative_pdu 8 True
        = Some (Inr (m', es'))" by blast
  let ?raw' = "le32 (negative_pdu ! 4) (negative_pdu ! 5) (negative_pdu ! 6) (negative_pdu ! 7)"
  from T' have u': "uint ?raw' = 16777214" by (simp add: negative_pdu_def)
  then have b': "bit ?raw' 23" by (simp add: bit23_int)
  from T' d' have "sint (m_mant m') = uint ?raw' mod 2 ^ 24 - (if bit ?raw' 23 then 2 ^ 24 else 0)"
    by blast
  with u' b' have r1: "sint (m_mant m') = - 2" by simp
  from T' d' have "sint (m_exp m') = sint (negative_pdu ! 7)" by blast
  then have r2: "sint (m_exp m') = 0" by (simp add: negative_pdu_def)
  from T' d' have "spec_encode_float (m_mant m') (m_exp m') = take 4 (drop 4 negative_pdu)"
    by blast
  then have r3: "spec_encode_float (m_mant m') (m_exp m') = [0xFE, 0xFF, 0xFF, 0x00]"
    by (simp add: negative_pdu_def)
  from h d 1 2 3 h' d' r1 r2 r3 show ?thesis by blast
qed

subsection \<open>Properties of the indication and notification handlers\<close>

lemma recv_measurement_effects:
  "filter is_confirmation (recv_measurement t fw iw m) = []
   \<and> signals (recv_measurement t fw iw m) = []
   \<and> filter is_measurement (recv_measurement t fw iw m) = recv_measurement t fw iw m"
proof -
  have "\<And>ws. filter is_confirmation (g_slist_foreach ws (update_watcher t m)) = []
      \<and> signals (g_slist_foreach ws (update_watcher t m)) = []
      \<and> filter is_measurement (g_slist_foreach ws (update_watcher t m))
          = g_slist_foreach ws (update_watcher t m)"
  proof -
    fix ws show "filter is_confirmation (g_slist_foreach ws (update_watcher t m)) = []
      \<and> signals (g_slist_foreach ws (update_watcher t m)) = []
      \<and> filter is_measurement (g_slist_foreach ws (update_watcher t m))
          = g_slist_foreach ws (update_watcher t m)"
      by (induction ws) (simp_all add: g_slist_foreach_def update_watcher_def signals_def)
  qed
  then show ?thesis by (simp add: recv_measurement_def Let_def)
qed

lemma proc_measurement_total:
  assumes "unat len = length pdu" "3 \<le> length pdu"
  shows "\<exists>es. proc_measurement t fw iw mktime pdu len final = Some es
     \<and> filter is_confirmation es = [] \<and> signals es = []
     \<and> (payload_truncated pdu \<longrightarrow> (\<exists>msg. es = [DBG msg []]))"
proof (cases "payload_truncated pdu")
  case True
  with proc_measurement_decode_cases[OF assms, of t mktime final] obtain msg where
    "proc_measurement_decode t mktime pdu len final = Some (Inl [DBG msg []])" by blast
  then have "proc_measurement t fw iw mktime pdu len final = Some [DBG msg []]"
    by (simp add: proc_measurement_def)
  then show ?thesis by (simp add: signals_def)
next
  case False
  with proc_measurement_decode_cases[OF assms, of t mktime final] obtain m es where
    d: "proc_measurement_decode t mktime pdu len final = Some (Inr (m, es))"
    and e: "es = [] \<or> (\<exists>f a. es = [Error_log f a])" by blast
  from d have p: "proc_measurement t fw iw mktime pdu len final
      = Some (es @ recv_measurement t fw iw m)"
    by (simp add: proc_measurement_def)
  from e have "filter is_confirmation es = [] \<and> signals es = []"
    by (auto simp add: signals_def)
  with recv_measurement_effects[of t fw iw m]
  have "filter is_confirmation (es @ recv_measurement t fw iw m) = []
      \<and> signals (es @ recv_measurement t fw iw m) = []"
    by (simp add: signals_def)
  with p False show ?thesis by simp
qed

lemma proc_measurement_interval_total:
  assumes "unat len = length pdu" "3 \<le> length pdu"
  shows "\<exists>t' es. proc_measurement_interval t pdu len = Some (t', es)
     \<and> filter is_confirmation es = [] \<and> filter is_measurement es = []
     \<and> attrib t' = attrib t"
proof (cases "length pdu < 5")
  case True
  with assms have "len < 5" by (simp add: word_less_nat_alt)
  then show ?thesis by (simp add: proc_measurement_interval_def)
next
  case False
  with assms have c: "\<not> len < 5" by (simp add: word_less_nat_alt)
  from False have "att_get_u16 (drop 3 pdu)
      = Some (ucast (drop 3 pdu ! 0) OR push_bit 8 (ucast (drop 3 pdu ! 1)))"
    by (intro att_get_u16_Some) simp
  with c show ?thesis
    by (simp add: proc_measurement_interval_def change_property_Interval)
qed

lemma handle_read:
  "3 \<le> length pdu \<Longrightarrow> \<exists>h. att_get_u16 (drop 1 pdu) = Some h"
proof -
  assume a: "3 \<le> length pdu"
  then have "att_get_u16 (drop 1 pdu)
      = Some (ucast (drop 1 pdu ! 0) OR push_bit 8 (ucast (drop 1 pdu ! 1)))"
    by (intro att_get_u16_Some) simp
  then show ?thesis by blast
qed

lemma len_ge3:
  fixes len :: u16
  shows "unat len = length pdu \<Longrightarrow> (len < 3) = (length pdu < 3)"
  by (simp add: word_less_nat_alt)


lemma ind_handler_short:
  assumes "unat len = length pdu" "length pdu < 3"
  shows "ind_handler t fw iw mktime cnf pdu len = Some (t, [DBG ''Bad pdu received'' []])"
    and "notif_handler t fw iw mktime pdu len = Some (t, [DBG ''Bad pdu received'' []])"
proof -
  from assms have "len < 3" by (simp add: len_ge3)
  then show "ind_handler t fw iw mktime cnf pdu len = Some (t, [DBG ''Bad pdu received'' []])"
    and "notif_handler t fw iw mktime pdu len = Some (t, [DBG ''Bad pdu received'' []])"
    by (simp_all add: ind_handler_def notif_handler_def)
qed

lemma ind_handler_unknown:
  assumes "unat len = length pdu" "3 \<le> length pdu" "att_get_u16 (drop 1 pdu) = Some h"
    "g_slist_find_custom (chars t) (cmp_char_val_handle h) = None"
  shows "ind_handler t fw iw mktime cnf pdu len
      = Some (t, [DBG ''Unexpected handle: 0x%04x'' [LNum (uint h)]])"
    and "notif_handler t fw iw mktime pdu len
      = Some (t, [DBG ''Unexpected handle: 0x%04x'' [LNum (uint h)]])"
proof -
  from assms have "\<not> len < 3" by (simp add: len_ge3)
  with assms(3,4) show "ind_handler t fw iw mktime cnf pdu len
      = Some (t, [DBG ''Unexpected handle: 0x%04x'' [LNum (uint h)]])"
    and "notif_handler t fw iw mktime pdu len
      = Some (t, [DBG ''Unexpected handle: 0x%04x'' [LNum (uint h)]])"
    by (simp_all add: ind_handler_def notif_handler_def)
qed

lemma ind_handler_known:
  assumes "unat len = length pdu" "3 \<le> length pdu" "att_get_u16 (drop 1 pdu) = Some h"
    "g_slist_find_custom (chars t) (cmp_char_val_handle h) = Some ch"
  shows "\<exists>t' es. ind_handler t fw iw mktime cnf pdu len
        = Some (t', es @ (if length cnf > 0 then [G_attrib_send (attrib t') cnf] else []))
      \<and> filter is_confirmation es = [] \<and> attrib t' = attrib t
      \<and> (gc_uuid (attr ch) \<noteq> MEASUREMENT_INTERVAL_UUID \<longrightarrow> t' = t)
      \<and> (gc_uuid (attr ch) \<noteq> TEMPERATURE_MEASUREMENT_UUID \<longrightarrow> filter is_measurement es = [])
      \<and> (gc_uuid (attr ch) = TEMPERATURE_MEASUREMENT_UUID \<longrightarrow>
            proc_measurement t fw iw mktime pdu len True = Some es)"
proof -
  from assms have n: "\<not> len < 3" by (simp add: len_ge3)
  have ne: "TEMPERATURE_MEASUREMENT_UUID \<noteq> MEASUREMENT_INTERVAL_UUID"
    by (simp add: TEMPERATURE_MEASUREMENT_UUID_def MEASUREMENT_INTERVAL_UUID_def)
  consider (m) "gc_uuid (attr ch) = TEMPERATURE_MEASUREMENT_UUID"
    | (i) "gc_uuid (attr ch) \<noteq> TEMPERATURE_MEASUREMENT_UUID"
          "gc_uuid (attr ch) = MEASUREMENT_INTERVAL_UUID"
    | (o) "gc_uuid (attr ch) \<noteq> TEMPERATURE_MEASUREMENT_UUID"
          "gc_uuid (attr ch) \<noteq> MEASUREMENT_INTERVAL_UUID" by blast
  then show ?thesis
  proof cases
    case m
    from proc_measurement_total[OF assms(1,2), of t fw iw mktime True] obtain es where
      p: "proc_measurement t fw iw mktime pdu len True = Some es"
      and c: "filter is_confirmation es = []" by blast
    from n assms(3,4) m p have "ind_handler t fw iw mktime cnf pdu len
        = Some (t, es @ (if length cnf > 0 then [G_attrib_send (attrib t) cnf] else []))"
      by (simp add: ind_handler_def)
    with c m ne p show ?thesis by auto
  next
    case i
    from proc_measurement_interval_total[OF assms(1,2), of t] obtain t' es where
      p: "proc_measurement_interval t pdu len = Some (t', es)"
      and c: "filter is_confirmation es = []" "filter is_measurement es = []"
        "attrib t' = attrib t" by blast
    from n assms(3,4) i p have "ind_handler t fw iw mktime cnf pdu len
        = Some (t', es @ (if length cnf > 0 then [G_attrib_send (attrib t') cnf] else []))"
      by (simp add: ind_handler_def)
    with c i show ?thesis by auto
  next
    case o
    from n assms(3,4) o have "ind_handler t fw iw mktime cnf pdu len
        = Some (t, [] @ (if length cnf > 0 then [G_attrib_send (attrib t) cnf] else []))"
      by (simp add: ind_handler_def)
    with o show ?thesis by auto
  qed
qed

lemma notif_handler_known:
  assumes "unat len = length pdu" "3 \<le> length pdu" "att_get_u16 (drop 1 pdu) = Some h"
    "g_slist_find_custom (chars t) (cmp_char_val_handle h) = Some ch"
  shows "\<exists>es. notif_handler t fw iw mktime pdu len = Some (t, es)
      \<and> filter is_confirmation es = [] \<and> signals es = []
      \<and> (payload_truncated pdu \<longrightarrow> filter is_measurement es = [])"
proof -
  from assms have n: "\<not> len < 3" by (simp add: len_ge3)
  show ?thesis
  proof (cases "gc_uuid (attr ch) = INTERMEDIATE_TEMPERATURE_UUID")
    case True
    from proc_measurement_total[OF assms(1,2), of t fw iw mktime False] obtain es where
      p: "proc_measurement t fw iw mktime pdu len False = Some es"
      and c: "filter is_confirmation es = []" "signals es = []"
        "payload_truncated pdu \<longrightarrow> (\<exists>msg. es = [DBG msg []])" by blast
    from n assms(3,4) True p have "notif_handler t fw iw mktime pdu len = Some (t, es)"
      by (simp add: notif_handler_def)
    moreover from c(3) have "payload_truncated pdu \<longrightarrow> filter is_measurement es = []" by auto
    ultimately show ?thesis using c by blast
  next
    case False
    with n assms(3,4) have "notif_handler t fw iw mktime pdu len = Some (t, [])"
      by (simp add: notif_handler_def)
    then show ?thesis by (simp add: signals_def)
  qed
qed


text \<open>
  C2. A payload of \<open>len\<close> bytes is never read outside its bounds: \<open>ind_handler\<close> and
  \<open>notif_handler\<close> give a result for every payload, and so does \<open>proc_measurement\<close> for
  every payload that holds the header of 3 bytes, which is all the handlers pass on. When
  the payload ends before the flags, before the 4 bytes of the value, before the 7 bytes
  of an announced time stamp or before the byte of an announced type, \<open>proc_measurement\<close>
  does nothing but log one debug message: no watcher gets a measurement, no
  property-changed signal is emitted, and the handler returns the thermometer unchanged.
\<close>

theorem truncated_payload_dropped:
  assumes "unat len = length pdu"
  shows "ind_handler t fw iw mktime cnf pdu len \<noteq> None
     \<and> notif_handler t fw iw mktime pdu len \<noteq> None
     \<and> (3 \<le> length pdu \<longrightarrow> proc_measurement t fw iw mktime pdu len final \<noteq> None)
     \<and> (3 \<le> length pdu \<and> payload_truncated pdu \<longrightarrow>
          (\<exists>msg. proc_measurement t fw iw mktime pdu len final = Some [DBG msg []]))
     \<and> (payload_truncated pdu \<longrightarrow>
          (\<exists>es. notif_handler t fw iw mktime pdu len = Some (t, es)
             \<and> filter is_measurement es = [] \<and> signals es = []))
     \<and> (payload_truncated pdu \<longrightarrow>
          (\<exists>t' es. ind_handler t fw iw mktime cnf pdu len = Some (t', es)
             \<and> filter is_measurement es = []))
     \<and> (payload_truncated pdu \<and> 3 \<le> length pdu \<and> att_get_u16 (drop 1 pdu) = Some h
          \<and> g_slist_find_custom (chars t) (cmp_char_val_handle h) = Some ch
          \<and> gc_uuid (attr ch) = TEMPERATURE_MEASUREMENT_UUID \<longrightarrow>
          (\<exists>msg. ind_handler t fw iw mktime cnf pdu len
             = Some (t, [DBG msg []]
                        @ (if length cnf > 0 then [G_attrib_send (attrib t) cnf] else []))))"
proof -
  have ind: "\<exists>t' es. ind_handler t fw iw mktime cnf pdu len = Some (t', es)
      \<and> (payload_truncated pdu \<longrightarrow> filter is_measurement es = [])"
  proof (cases "length pdu < 3")
    case True
    with ind_handler_short(1)[OF assms True, of t fw iw mktime cnf] show ?thesis by simp
  next
    case False
    then have l: "3 \<le> length pdu" by simp
    from handle_read[OF l] obtain h' where h': "att_get_u16 (drop 1 pdu) = Some h'" by blast
    show ?thesis
    proof (cases "g_slist_find_custom (chars t) (cmp_char_val_handle h')")
      case None
      with ind_handler_unknown(1)[OF assms l h' None, of fw iw mktime cnf] show ?thesis by simp
    next
      case (Some ch')
      from ind_handler_known[OF assms l h' Some, of fw iw mktime cnf] obtain t' es where
        r: "ind_handler t fw iw mktime cnf pdu len
            = Some (t', es @ (if length cnf > 0 then [G_attrib_send (attrib t') cnf] else []))"
        and o: "gc_uuid (attr ch') \<noteq> TEMPERATURE_MEASUREMENT_UUID \<longrightarrow>
            filter is_measurement es = []"
        and m: "gc_uuid (attr ch') = TEMPERATURE_MEASUREMENT_UUID \<longrightarrow>
            proc_measurement t fw iw mktime pdu len True = Some es" by blast
      have "payload_truncated pdu \<longrightarrow> filter is_measurement es = []"
      proof (cases "gc_uuid (attr ch') = TEMPERATURE_MEASUREMENT_UUID")
        case True
        with m proc_measurement_total[OF assms l, of t fw iw mktime True]
        have "payload_truncated pdu \<longrightarrow> (\<exists>msg. es = [DBG msg []])" by auto
        then show ?thesis by auto
      next
        case False
        with o show ?thesis by simp
      qed
      then have "payload_truncated pdu \<longrightarrow>
          filter is_measurement
            (es @ (if length cnf > 0 then [G_attrib_send (attrib t') cnf] else [])) = []"
        by simp
      with r show ?thesis by blast
    qed
  qed
  have notif: "\<exists>es. notif_handler t fw iw mktime pdu len = Some (t, es)
      \<and> signals es = [] \<and> (payload_truncated pdu \<longrightarrow> filter is_measurement es = [])"
  proof (cases "length pdu < 3")
    case True
    with ind_handler_short(2)[OF assms True, of t fw iw mktime] show ?thesis
      by (simp add: signals_def)
  next
    case False
    then have l: "3 \<le> length pdu" by simp
    from handle_read[OF l] obtain h' where h': "att_get_u16 (drop 1 pdu) = Some h'" by blast
    show ?thesis
    proof (cases "g_slist_find_custom (chars t) (cmp_char_val_handle h')")
      case None
      with ind_handler_unknown(2)[OF assms l h' None, of fw iw mktime] show ?thesis
        by (simp add: signals_def)
    next
      case (Some ch')
      from notif_handler_known[OF assms l h' Some, of fw iw mktime] show ?thesis by blast
    qed
  qed
  have pm: "3 \<le> length pdu \<longrightarrow>
      (\<exists>es. proc_measurement t fw iw mktime pdu len final = Some es
         \<and> (payload_truncated pdu \<longrightarrow> (\<exists>msg. es = [DBG msg []])))"
    using proc_measurement_total[OF assms, of t fw iw mktime final] by blast
  have last: "payload_truncated pdu \<and> 3 \<le> length pdu \<and> att_get_u16 (drop 1 pdu) = Some h
          \<and> g_slist_find_custom (chars t) (cmp_char_val_handle h) = Some ch
          \<and> gc_uuid (attr ch) = TEMPERATURE_MEASUREMENT_UUID \<longrightarrow>
          (\<exists>msg. ind_handler t fw iw mktime cnf pdu len
             = Some (t, [DBG msg []]
                        @ (if length cnf > 0 then [G_attrib_send (attrib t) cnf] else [])))"
  proof (intro impI, elim conjE)
    assume tr: "payload_truncated pdu" and l: "3 \<le> length pdu"
      and h: "att_get_u16 (drop 1 pdu) = Some h"
      and f: "g_slist_find_custom (chars t) (cmp_char_val_handle h) = Some ch"
      and u: "gc_uuid (attr ch) = TEMPERATURE_MEASUREMENT_UUID"
    from proc_measurement_total[OF assms l, of t fw iw mktime True] tr obtain msg where
      p: "proc_measurement t fw iw mktime pdu len True = Some [DBG msg []]" by auto
    from assms l have "\<not> len < 3" by (simp add: len_ge3)
    with h f u p have "ind_handler t fw iw mktime cnf pdu len
        = Some (t, [DBG msg []]
                   @ (if length cnf > 0 then [G_attrib_send (attrib t) cnf] else []))"
      by (simp add: ind_handler_def)
    then show "\<exists>msg. ind_handler t fw iw mktime cnf pdu len
             = Some (t, [DBG msg []]
                        @ (if length cnf > 0 then [G_attrib_send (attrib t) cnf] else []))"
      by blast
  qed
  from ind have 1: "ind_handler t fw iw mktime cnf pdu len \<noteq> None" by auto
  from notif have 2: "notif_handler t fw iw mktime pdu len \<noteq> None" by auto
  from pm have 3: "3 \<le> length pdu \<longrightarrow> proc_measurement t fw iw mktime pdu len final \<noteq> None"
    by auto
  from pm have 4: "3 \<le> length pdu \<and> payload_truncated pdu \<longrightarrow>
          (\<exists>msg. proc_measurement t fw iw mktime pdu len final = Some [DBG msg []])" by auto
  from notif have 5: "payload_truncated pdu \<longrightarrow>
          (\<exists>es. notif_handler t fw iw mktime pdu len = Some (t, es)
             \<and> filter is_measurement es = [] \<and> signals es = [])" by auto
  from ind have 6: "payload_truncated pdu \<longrightarrow>
          (\<exists>t' es. ind_handler t fw iw mktime cnf pdu len = Some (t', es)
             \<and> filter is_measurement es = [])" by auto
  from 1 2 3 4 5 6 last show ?thesis by (intro conjI)
qed


lemma example_find_char:
  "att_get_u16 (drop 1 example_pdu) = Some 0x0011"
  "att_get_u16 (drop 1 short_pdu) = Some 0x0011"
  "att_get_u16 (drop 1 unknown_pdu) = Some 0x0099"
  "g_slist_find_custom (chars example_thermometer) (cmp_char_val_handle 0x0011)
     = Some measurement_char"
  "g_slist_find_custom (chars example_thermometer) (cmp_char_val_handle 0x0099) = None"
  "gc_uuid (attr measurement_char) = TEMPERATURE_MEASUREMENT_UUID"
  by (simp_all add: att_get_u16_def example_pdu_def short_pdu_def unknown_pdu_def
      g_slist_find_custom_def example_thermometer_def cmp_char_val_handle_def
      measurement_char_def interval_char_def)

theorem truncated_payload_dropped_witness:
  "unat (8 :: u16) = length short_pdu \<and> payload_truncated short_pdu
   \<and> (\<exists>msg. proc_measurement example_thermometer [example_watcher] [] example_mktime
               short_pdu 8 True = Some [DBG msg []])
   \<and> (\<exists>msg. ind_handler example_thermometer [example_watcher] [] example_mktime example_cnf
               short_pdu 8
             = Some (example_thermometer, [DBG msg [], G_attrib_send (Some 1) [0x1E]]))"
proof -
  have h: "unat (8 :: u16) = length short_pdu" by (simp add: short_pdu_def)
  have l: "3 \<le> length short_pdu" by (simp add: short_pdu_def)
  have tr: "payload_truncated short_pdu"
    by (simp add: payload_truncated_def short_pdu_def TEMP_TIME_STAMP_def)
  have a: "attrib example_thermometer = Some 1" by (simp add: example_thermometer_def)
  note T = truncated_payload_dropped[OF h, of example_thermometer "[example_watcher]" "[]"
      example_mktime example_cnf True "0x0011" measurement_char]
  from T l tr have 1: "\<exists>msg. proc_measurement example_thermometer [example_watcher] []
      example_mktime short_pdu 8 True = Some [DBG msg []]" by blast
  from T l tr example_find_char(2,4,6)
  have "\<exists>msg. ind_handler example_thermometer [example_watcher] [] example_mktime example_cnf
               short_pdu 8
             = Some (example_thermometer, [DBG msg []]
                  @ (if length example_cnf > 0
                     then [G_attrib_send (attrib example_thermometer) example_cnf] else []))"
    by blast
  then have 2: "\<exists>msg. ind_handler example_thermometer [example_watcher] [] example_mktime
      example_cnf short_pdu 8
      = Some (example_thermometer, [DBG msg [], G_attrib_send (Some 1) [0x1E]])"
    by (simp add: a example_cnf_def)
  from h tr 1 2 show ?thesis by blast
qed

text \<open>
  C5, amended. For an indication of at least 3 bytes whose handle is the value handle of a
  discovered characteristic, \<open>ind_handler\<close> sends the confirmation that
  \<open>enc_confirmation\<close> encoded, when it is not empty, as its last call and only once,
  whether the payload was decoded, was cut off, or belongs to a characteristic the handler
  does not process. An indication shorter than 3 bytes and an indication whose handle
  belongs to no discovered characteristic are logged and dropped without confirmation.
\<close>

theorem indication_confirmed:
  assumes "unat len = length pdu"
  shows "(3 \<le> length pdu \<and> att_get_u16 (drop 1 pdu) = Some h
          \<and> g_slist_find_custom (chars t) (cmp_char_val_handle h) = Some ch \<and> cnf \<noteq> [] \<longrightarrow>
          (\<exists>t' es. ind_handler t fw iw mktime cnf pdu len
                     = Some (t', es @ [G_attrib_send (attrib t) cnf])
             \<and> filter is_confirmation es = []))
     \<and> (length pdu < 3 \<longrightarrow>
          ind_handler t fw iw mktime cnf pdu len = Some (t, [DBG ''Bad pdu received'' []]))
     \<and> (3 \<le> length pdu \<and> att_get_u16 (drop 1 pdu) = Some h
          \<and> g_slist_find_custom (chars t) (cmp_char_val_handle h) = None \<longrightarrow>
          ind_handler t fw iw mktime cnf pdu len
          = Some (t, [DBG ''Unexpected handle: 0x%04x'' [LNum (uint h)]]))"
proof (intro conjI impI)
  assume a: "3 \<le> length pdu \<and> att_get_u16 (drop 1 pdu) = Some h
          \<and> g_slist_find_custom (chars t) (cmp_char_val_handle h) = Some ch \<and> cnf \<noteq> []"
  then have l: "3 \<le> length pdu" and h: "att_get_u16 (drop 1 pdu) = Some h"
    and f: "g_slist_find_custom (chars t) (cmp_char_val_handle h) = Some ch"
    and c: "cnf \<noteq> []" by simp_all
  from ind_handler_known[OF assms l h f, of fw iw mktime cnf] obtain t' es where
    r: "ind_handler t fw iw mktime cnf pdu len
        = Some (t', es @ (if length cnf > 0 then [G_attrib_send (attrib t') cnf] else []))"
    and e: "filter is_confirmation es = []" and at: "attrib t' = attrib t" by blast
  from r c at have "ind_handler t fw iw mktime cnf pdu len
      = Some (t', es @ [G_attrib_send (attrib t) cnf])" by simp
  with e show "\<exists>t' es. ind_handler t fw iw mktime cnf pdu len
                     = Some (t', es @ [G_attrib_send (attrib t) cnf])
             \<and> filter is_confirmation es = []" by blast
next
  assume "length pdu < 3"
  then show "ind_handler t fw iw mktime cnf pdu len = Some (t, [DBG ''Bad pdu received'' []])"
    by (rule ind_handler_short(1)[OF assms])
next
  assume "3 \<le> length pdu \<and> att_get_u16 (drop 1 pdu) = Some h
          \<and> g_slist_find_custom (chars t) (cmp_char_val_handle h) = None"
  then show "ind_handler t fw iw mktime cnf pdu len
          = Some (t, [DBG ''Unexpected handle: 0x%04x'' [LNum (uint h)]])"
    using ind_handler_unknown(1)[OF assms] by blast
qed

theorem indication_confirmed_witness:
  "unat (8 :: u16) = length example_pdu
   \<and> (\<exists>t' es. ind_handler example_thermometer [example_watcher] [] example_mktime example_cnf
                 example_pdu 8
               = Some (t', es @ [G_attrib_send (Some 1) [0x1E]])
         \<and> filter is_confirmation es = [])
   \<and> (\<exists>t' es. ind_handler example_thermometer [example_watcher] [] example_mktime example_cnf
                 short_pdu 8
               = Some (t', es @ [G_attrib_send (Some 1) [0x1E]])
         \<and> filter is_confirmation es = [])"
proof -
  have h: "unat (8 :: u16) = length example_pdu" "unat (8 :: u16) = length short_pdu"
    by (simp_all add: example_pdu_def short_pdu_def)
  have l: "3 \<le> length example_pdu" "3 \<le> length short_pdu"
    by (simp_all add: example_pdu_def short_pdu_def)
  have c: "example_cnf \<noteq> []" by (simp add: example_cnf_def)
  have a: "attrib example_thermometer = Some 1" "example_cnf = [0x1E]"
    by (simp_all add: example_thermometer_def example_cnf_def)
  from indication_confirmed[OF h(1), of "0x0011" example_thermometer measurement_char
      example_cnf "[example_watcher]" "[]" example_mktime] l(1) c example_find_char(1,4)
  have "\<exists>t' es. ind_handler example_thermometer [example_watcher] [] example_mktime example_cnf
                 example_pdu 8
               = Some (t', es @ [G_attrib_send (attrib example_thermometer) example_cnf])
         \<and> filter is_confirmation es = []" by blast
  then have 1: "\<exists>t' es. ind_handler example_thermometer [example_watcher] [] example_mktime
      example_cnf example_pdu 8 = Some (t', es @ [G_attrib_send (Some 1) [0x1E]])
         \<and> filter is_confirmation es = []" unfolding a .
  from indication_confirmed[OF h(2), of "0x0011" example_thermometer measurement_char
      example_cnf "[example_watcher]" "[]" example_mktime] l(2) c example_find_char(2,4)
  have "\<exists>t' es. ind_handler example_thermometer [example_watcher] [] example_mktime example_cnf
                 short_pdu 8
               = Some (t', es @ [G_attrib_send (attrib example_thermometer) example_cnf])
         \<and> filter is_confirmation es = []" by blast
  then have 2: "\<exists>t' es. ind_handler example_thermometer [example_watcher] [] example_mktime
      example_cnf short_pdu 8 = Some (t', es @ [G_attrib_send (Some 1) [0x1E]])
         \<and> filter is_confirmation es = []" unfolding a .
  from h(1) 1 2 show ?thesis by blast
qed

text \<open>
  C5 as stated fails: an indication on an unknown handle, and one shorter than 3 bytes,
  get no confirmation.
\<close>

theorem indication_unconfirmed_counterexample:
  "unat (8 :: u16) = length unknown_pdu \<and> example_cnf = [0x1E]
   \<and> attrib example_thermometer = Some 1
   \<and> ind_handler example_thermometer [example_watcher] [] example_mktime example_cnf
        unknown_pdu 8
      = Some (example_thermometer, [DBG ''Unexpected handle: 0x%04x'' [LNum 153]])
   \<and> ind_handler example_thermometer [example_watcher] [] example_mktime example_cnf
        [0x1D, 0x11] 2
      = Some (example_thermometer, [DBG ''Bad pdu received'' []])"
proof -
  have h: "unat (8 :: u16) = length unknown_pdu" "3 \<le> length unknown_pdu"
    by (simp_all add: unknown_pdu_def)
  have h2: "unat (2 :: u16) = length [0x1D, 0x11 :: u8]" "length [0x1D, 0x11 :: u8] < 3"
    by simp_all
  have a: "attrib example_thermometer = Some 1" "example_cnf = [0x1E]"
    by (simp_all add: example_thermometer_def example_cnf_def)
  from ind_handler_unknown(1)[OF h example_find_char(3,5)]
  have 1: "ind_handler example_thermometer [example_watcher] [] example_mktime example_cnf
        unknown_pdu 8
      = Some (example_thermometer, [DBG ''Unexpected handle: 0x%04x'' [LNum 153]])" by simp
  from ind_handler_short(1)[OF h2]
  have 2: "ind_handler example_thermometer [example_watcher] [] example_mktime example_cnf
        [0x1D, 0x11] 2
      = Some (example_thermometer, [DBG ''Bad pdu received'' []])" by simp
  from h(1) a 1 2 show ?thesis by simp
qed

subsection \<open>Properties of the range of a new thermometer\<close>

lemma change_property_keeps_range:
  "change_property t ''Interval'' v = Some (t', es) \<Longrightarrow> t_min t' = t_min t \<and> t_max t' = t_max t"
  "change_property t ''Intermediate'' v = Some (t', es) \<Longrightarrow>
     t_min t' = t_min t \<and> t_max t' = t_max t"
proof -
  show "change_property t ''Interval'' v = Some (t', es) \<Longrightarrow>
      t_min t' = t_min t \<and> t_max t' = t_max t"
    by (cases v; cases "has_interval t \<and> interval t = (case v of PU16 i \<Rightarrow> i | _ \<Rightarrow> 0)")
      (auto simp add: change_property_Interval)
  show "change_property t ''Intermediate'' v = Some (t', es) \<Longrightarrow>
      t_min t' = t_min t \<and> t_max t' = t_max t"
    by (cases v; cases "intermediate t = (case v of PBool b \<Rightarrow> b | _ \<Rightarrow> False)")
      (auto simp add: change_property_Intermediate)
qed

lemma process_thermometer_char_keeps_range:
  "process_thermometer_char t ci ch = Some (t', es) \<Longrightarrow>
     t_min t' = t_min t \<and> t_max t' = t_max t"
  unfolding process_thermometer_char_def
  by (auto split: if_splits dest: change_property_keeps_range(2))

lemma configure_thermometer_loop_keeps_range:
  "configure_thermometer_loop t cs = Some (t', es) \<Longrightarrow>
     t_min t' = t_min t \<and> t_max t' = t_max t"
proof (induction cs arbitrary: t t' es)
  case Nil
  then show ?case by simp
next
  case (Cons c cs)
  let ?ch = "\<lparr>attr = \<lparr>gc_uuid = gc_uuid c, gc_handle = gc_handle c,
                         gc_properties = gc_properties c,
                         gc_value_handle = gc_value_handle c\<rparr>, desc = []\<rparr>"
  let ?t1 = "t\<lparr>chars := g_slist_append (chars t) ?ch\<rparr>"
  from Cons.prems obtain t2 es1 where
    p: "process_thermometer_char ?t1 (length (chars t)) ?ch = Some (t2, es1)"
    by (auto simp add: Let_def split: option.splits)
  with Cons.prems obtain t3 es3 where
    l: "configure_thermometer_loop t2 cs = Some (t3, es3)" and e: "t' = t3"
    by (auto simp add: Let_def split: option.splits)
  from process_thermometer_char_keeps_range[OF p]
  have "t_min t2 = t_min t \<and> t_max t2 = t_max t" by simp
  with Cons.IH[OF l] e show ?case by simp
qed


lemma discover_desc_cb_keeps_range:
  "discover_desc_cb t fw iw ci status resp = Some (t', es) \<Longrightarrow>
     t_min t' = t_min t \<and> t_max t' = t_max t"
  unfolding discover_desc_cb_def
  by (auto simp add: Let_def split_def split: if_splits option.splits)

lemma read_temp_type_cb_keeps_range:
  "read_temp_type_cb t status resp = Some (t', es) \<Longrightarrow>
     t_min t' = t_min t \<and> t_max t' = t_max t"
  unfolding read_temp_type_cb_def
  by (auto split: if_splits option.splits read_resp.splits)

lemma read_interval_cb_keeps_range:
  "read_interval_cb t status resp = Some (t', es) \<Longrightarrow>
     t_min t' = t_min t \<and> t_max t' = t_max t"
  unfolding read_interval_cb_def
  by (auto split: if_splits option.splits read_resp.splits
      dest: change_property_keeps_range(1))

lemma write_interval_cb_keeps_range:
  "write_interval_cb t status ok i = Some (t', es) \<Longrightarrow>
     t_min t' = t_min t \<and> t_max t' = t_max t"
  unfolding write_interval_cb_def
  by (auto split: if_splits dest: change_property_keeps_range(1))

lemma attio_keeps_range:
  "t_min (fst (attio_connected_cb t a i n)) = t_min t
   \<and> t_max (fst (attio_connected_cb t a i n)) = t_max t"
  "t_min (fst (attio_disconnected_cb t)) = t_min t
   \<and> t_max (fst (attio_disconnected_cb t)) = t_max t"
  by (simp_all add: attio_connected_cb_def attio_disconnected_cb_def Let_def)

lemma valid_range_desc_cb_not_applied:
  assumes "\<not> valid_range_applied (Valid_range_read status resp)"
    and "valid_range_desc_cb t status resp = Some (t', es)"
  shows "t' = t"
proof (cases "status = 0")
  case False
  with assms(2) show ?thesis by (simp add: valid_range_failed(1))
next
  case True
  show ?thesis
  proof (cases resp)
    case Protocol_error
    with True assms(2) show ?thesis by (simp add: valid_range_failed(2))
  next
    case (Read_value val)
    show ?thesis
    proof (cases "length val < 4")
      case True
      with \<open>status = 0\<close> Read_value assms(2) show ?thesis by (simp add: valid_range_short)
    next
      case False
      then have l: "4 \<le> length val" by simp
      from valid_range_decoded[OF l, of t] obtain mn mx where
        g: "att_get_u16 val = Some mn" "att_get_u16 (drop 2 val) = Some mx"
        and r: "valid_range_desc_cb t 0 (Read_value val) =
          (if mn = 0 \<or> mn > mx then Some (t, [DBG ''Invalid range'' []])
           else Some (t\<lparr>t_max := mx, t_min := mn\<rparr>,
             (if t_max t = mx then [] else [Emit_property_changed (dev t) ''Maximum'' (PU16 mx)])
             @ (if t_min t = mn then []
                else [Emit_property_changed (dev t) ''Minimum'' (PU16 mn)])))" by blast
      from assms(1) True Read_value l g have "mn = 0 \<or> mn > mx" by auto
      with r assms(2) True Read_value show ?thesis by simp
    qed
  qed
qed

lemma proc_measurement_interval_keeps_range:
  "proc_measurement_interval t pdu len = Some (t', es) \<Longrightarrow>
     t_min t' = t_min t \<and> t_max t' = t_max t"
  unfolding proc_measurement_interval_def
  by (auto split: if_splits Option.bind_splits dest: change_property_keeps_range(1))

lemma ind_handler_keeps_range:
  "ind_handler t fw iw mktime cnf pdu len = Some (t', es) \<Longrightarrow>
     t_min t' = t_min t \<and> t_max t' = t_max t"
  unfolding ind_handler_def
  by (auto split: if_splits Option.bind_splits option.splits
      dest: proc_measurement_interval_keeps_range)

lemma notif_handler_keeps:
  "notif_handler t fw iw mktime pdu len = Some (t', es) \<Longrightarrow> t' = t"
  unfolding notif_handler_def
  by (auto split: if_splits Option.bind_splits option.splits)

lemma thermometer_step_keeps_range:
  assumes "\<not> valid_range_applied ev" "thermometer_step mktime fw iw t ev = Some (t', es)"
  shows "t_min t' = t_min t \<and> t_max t' = t_max t"
proof (cases ev)
  case (Attio_connected a i n)
  with assms(2) attio_keeps_range(1)[of t a i n] show ?thesis by auto
next
  case Attio_disconnected
  with assms(2) attio_keeps_range(2)[of t] show ?thesis by auto
next
  case (Characteristics_discovered cs status)
  with assms(2) show ?thesis
    by (auto simp add: configure_thermometer_cb_def split: if_splits
        dest: configure_thermometer_loop_keeps_range)
next
  case (Descriptors_discovered ci status resp)
  with assms(2) show ?thesis by (auto dest: discover_desc_cb_keeps_range)
next
  case (Temp_type_read status resp)
  with assms(2) show ?thesis by (auto dest: read_temp_type_cb_keeps_range)
next
  case (Interval_read status resp)
  with assms(2) show ?thesis by (auto dest: read_interval_cb_keeps_range)
next
  case (Valid_range_read status resp)
  with assms valid_range_desc_cb_not_applied[of status resp t t' es] show ?thesis by simp
next
  case (Interval_written status ok i)
  with assms(2) show ?thesis by (auto dest: write_interval_cb_keeps_range)
next
  case (Indication cnf pdu len)
  with assms(2) show ?thesis by (auto dest: ind_handler_keeps_range)
next
  case (Notification pdu len)
  with assms(2) show ?thesis by (auto dest: notif_handler_keeps)
qed

lemma thermometer_run_keeps_range:
  "no_valid_range evs \<Longrightarrow> thermometer_run mktime t evs = Some t' \<Longrightarrow>
     t_min t' = t_min t \<and> t_max t' = t_max t"
proof (induction evs arbitrary: t)
  case Nil
  then show ?case by simp
next
  case (Cons e evs)
  obtain fw iw ev where e: "e = (fw, iw, ev)" by (cases e) auto
  from Cons.prems(1) e have n: "\<not> valid_range_applied ev" and r: "no_valid_range evs"
    by (simp_all add: no_valid_range_def)
  from Cons.prems(2) e obtain t1 es where
    s: "thermometer_step mktime fw iw t ev = Some (t1, es)"
    and u: "thermometer_run mktime t1 evs = Some t'"
    by (auto split: option.splits)
  from thermometer_step_keeps_range[OF n s] Cons.IH[OF r u] show ?case by simp
qed

lemma thermometer_register_range:
  "t_min (fst (thermometer_register ta device r ioid)) = 0
   \<and> t_max (fst (thermometer_register ta device r ioid)) = 0"
  by (simp add: thermometer_register_def g_new0_thermometer_def Let_def)


lemma write_attr_interval_zero_range:
  assumes "t_min t = 0" "t_max t = 0"
  shows "0 < v \<longrightarrow> snd (write_attr_interval t v) = []
           \<and> fst (write_attr_interval t v)
               \<in> {Btd_error_not_connected, Btd_error_not_available, Btd_error_invalid_args}"
    and "0 < v \<and> attrib t \<noteq> None \<and> get_characteristic t MEASUREMENT_INTERVAL_UUID \<noteq> None
           \<longrightarrow> write_attr_interval t v = (Btd_error_invalid_args, [])"
    and "snd (write_attr_interval t v) \<noteq> [] \<longrightarrow> v = 0"
    and "attrib t \<noteq> None \<and> get_characteristic t MEASUREMENT_INTERVAL_UUID = Some ch
           \<longrightarrow> write_attr_interval t 0
               = (Method_return,
                  [Gatt_write_char (attrib t) (gc_value_handle (attr ch)) [0, 0]
                     (Write_interval_cb 0)])"
proof -
  have r: "0 < v \<Longrightarrow> v < t_min t \<or> v > t_max t" using assms by simp
  show "0 < v \<longrightarrow> snd (write_attr_interval t v) = []
           \<and> fst (write_attr_interval t v)
               \<in> {Btd_error_not_connected, Btd_error_not_available, Btd_error_invalid_args}"
  proof
    assume v: "0 < v"
    show "snd (write_attr_interval t v) = []
           \<and> fst (write_attr_interval t v)
               \<in> {Btd_error_not_connected, Btd_error_not_available, Btd_error_invalid_args}"
    proof (cases "attrib t = None")
      case True
      then show ?thesis by (simp add: write_attr_interval_not_connected)
    next
      case False
      show ?thesis
      proof (cases "get_characteristic t MEASUREMENT_INTERVAL_UUID")
        case None
        with False show ?thesis by (simp add: write_attr_interval_not_available)
      next
        case (Some ch')
        from write_attr_interval_invalid[OF False Some r[OF v]] show ?thesis by simp
      qed
    qed
  qed
  show "0 < v \<and> attrib t \<noteq> None \<and> get_characteristic t MEASUREMENT_INTERVAL_UUID \<noteq> None
           \<longrightarrow> write_attr_interval t v = (Btd_error_invalid_args, [])"
    using r write_attr_interval_invalid[of t _ v] by auto
  show "snd (write_attr_interval t v) \<noteq> [] \<longrightarrow> v = 0"
  proof
    assume n: "snd (write_attr_interval t v) \<noteq> []"
    show "v = 0"
    proof (rule ccontr)
      assume "v \<noteq> 0"
      then have v: "0 < v" by (simp add: word_greater_zero_iff)
      show False
      proof (cases "attrib t = None")
        case True
        with n show False by (simp add: write_attr_interval_not_connected)
      next
        case False
        show False
        proof (cases "get_characteristic t MEASUREMENT_INTERVAL_UUID")
          case None
          with False n show False by (simp add: write_attr_interval_not_available)
        next
          case (Some ch')
          from write_attr_interval_invalid[OF False Some r[OF v]] n show False by simp
        qed
      qed
    qed
  qed
  show "attrib t \<noteq> None \<and> get_characteristic t MEASUREMENT_INTERVAL_UUID = Some ch
           \<longrightarrow> write_attr_interval t 0
               = (Method_return,
                  [Gatt_write_char (attrib t) (gc_value_handle (attr ch)) [0, 0]
                     (Write_interval_cb 0)])"
    using assms write_attr_interval_ok[of t ch 0] by (auto simp add: att_put_u16_bits(3))
qed

lemma set_property_interval:
  "has_interval t \<Longrightarrow>
   set_property t \<lparr>sender = s, args = [Arg_string ''Interval'', Arg_variant (Arg_uint16 v)]\<rparr>
     = write_attr_interval t v"
  by (simp add: set_property_def)

text \<open>
  C10, amended. \<open>thermometer_register\<close> creates the thermometer with minimum and maximum
  0, and no event other than a Valid-Range read that applies a range changes them. So on a
  thermometer that any sequence of events without such a read has led to, the two are
  still 0, and setting the interval (\<open>set_property\<close>, which hands over to
  \<open>write_attr_interval\<close> once the interval is established) never succeeds with a value
  above 0: it makes no call and answers with an error, which is InvalidArgs whenever the
  thermometer is connected and has discovered the Measurement Interval characteristic
  (NotConnected or NotAvailable otherwise, those checks coming first). A write is issued
  only for the value 0, and is issued for it on such a thermometer.
\<close>

theorem set_interval_without_range:
  assumes "no_valid_range evs"
    and "thermometer_run mktime (fst (thermometer_register ta device tattr_range ioid)) evs
         = Some t"
  shows "t_min t = 0 \<and> t_max t = 0
     \<and> (has_interval t \<longrightarrow>
          set_property t
            \<lparr>sender = s, args = [Arg_string ''Interval'', Arg_variant (Arg_uint16 v)]\<rparr>
          = write_attr_interval t v)
     \<and> (0 < v \<longrightarrow> snd (write_attr_interval t v) = []
           \<and> fst (write_attr_interval t v)
               \<in> {Btd_error_not_connected, Btd_error_not_available, Btd_error_invalid_args})
     \<and> (0 < v \<and> attrib t \<noteq> None \<and> get_characteristic t MEASUREMENT_INTERVAL_UUID \<noteq> None
           \<longrightarrow> write_attr_interval t v = (Btd_error_invalid_args, []))
     \<and> (snd (write_attr_interval t v) \<noteq> [] \<longrightarrow> v = 0)
     \<and> (attrib t \<noteq> None \<and> get_characteristic t MEASUREMENT_INTERVAL_UUID = Some ch
           \<longrightarrow> write_attr_interval t 0
               = (Method_return,
                  [Gatt_write_char (attrib t) (gc_value_handle (attr ch)) [0, 0]
                     (Write_interval_cb 0)]))"
proof -
  from thermometer_run_keeps_range[OF assms] thermometer_register_range[of ta device tattr_range ioid]
  have z: "t_min t = 0" "t_max t = 0" by simp_all
  have sp: "has_interval t \<longrightarrow>
          set_property t
            \<lparr>sender = s, args = [Arg_string ''Interval'', Arg_variant (Arg_uint16 v)]\<rparr>
          = write_attr_interval t v"
    by (rule impI) (rule set_property_interval)
  note w1 = write_attr_interval_zero_range(1)[OF z, of v]
  note w2 = write_attr_interval_zero_range(2)[OF z, of v]
  note w3 = write_attr_interval_zero_range(3)[OF z, of v]
  note w4 = write_attr_interval_zero_range(4)[OF z, of ch]
  from z sp w1 w2 w3 w4 show ?thesis by (intro conjI)
qed


lemma example_events_run:
  "thermometer_run example_mktime
     (fst (thermometer_register (thermometer_adapter_register 0) 1
             \<lparr>r_start = 0x0010, r_end = 0x0016\<rparr> 1)) example_events
   = Some disconnected_thermometer"
  by (simp add: example_events_def thermometer_register_def thermometer_adapter_register_def
      g_new0_thermometer_def attio_connected_cb_def attio_disconnected_cb_def
      configure_thermometer_cb_def process_thermometer_char_def interval_char_def
      read_interval_cb_def att_get_u16_def change_property_Interval g_slist_append_def
      disconnected_thermometer_def Let_def
      MEASUREMENT_INTERVAL_UUID_def INTERMEDIATE_TEMPERATURE_UUID_def TEMPERATURE_TYPE_UUID_def)

lemma example_events_no_range: "no_valid_range example_events"
  by (simp add: no_valid_range_def example_events_def)

theorem set_interval_without_range_witness:
  "no_valid_range [([], [], Attio_connected 1 1 2),
                   ([], [], Characteristics_discovered [attr interval_char] 0),
                   ([], [], Interval_read 0 (Read_value [60, 0]))]
   \<and> (\<exists>t. thermometer_run example_mktime
         (fst (thermometer_register (thermometer_adapter_register 0) 1
                 \<lparr>r_start = 0x0010, r_end = 0x0016\<rparr> 1))
         [([], [], Attio_connected 1 1 2),
          ([], [], Characteristics_discovered [attr interval_char] 0),
          ([], [], Interval_read 0 (Read_value [60, 0]))] = Some t
       \<and> has_interval t \<and> t_min t = 0 \<and> t_max t = 0
       \<and> write_attr_interval t 5 = (Btd_error_invalid_args, [])
       \<and> write_attr_interval t 0
           = (Method_return, [Gatt_write_char (Some 1) 0x0014 [0, 0] (Write_interval_cb 0)]))"
proof -
  let ?evs = "[([], [], Attio_connected 1 1 2),
          ([], [], Characteristics_discovered [attr interval_char] 0),
          ([], [], Interval_read 0 (Read_value [60, 0]))]"
  let ?t = "disconnected_thermometer\<lparr>attrib := Some 1, attindid := 1, attnotid := 2\<rparr>"
  have n: "no_valid_range ?evs" by (simp add: no_valid_range_def)
  have r: "thermometer_run example_mktime
         (fst (thermometer_register (thermometer_adapter_register 0) 1
                 \<lparr>r_start = 0x0010, r_end = 0x0016\<rparr> 1)) ?evs = Some ?t"
    by (simp add: thermometer_register_def thermometer_adapter_register_def
      g_new0_thermometer_def attio_connected_cb_def
      configure_thermometer_cb_def process_thermometer_char_def interval_char_def
      read_interval_cb_def att_get_u16_def change_property_Interval g_slist_append_def
      disconnected_thermometer_def Let_def
      MEASUREMENT_INTERVAL_UUID_def INTERMEDIATE_TEMPERATURE_UUID_def TEMPERATURE_TYPE_UUID_def)
  have c: "attrib ?t \<noteq> None" "has_interval ?t" "attrib ?t = Some 1"
    by (simp_all add: disconnected_thermometer_def)
  have g: "get_characteristic ?t MEASUREMENT_INTERVAL_UUID
      = Some \<lparr>attr = attr interval_char, desc = []\<rparr>"
    by (simp add: get_characteristic_def g_slist_find_custom_def cmp_char_uuid_def
        disconnected_thermometer_def interval_char_def)
  have gv: "gc_value_handle (attr \<lparr>attr = attr interval_char, desc = []\<rparr>) = 0x0014"
    by (simp add: interval_char_def)
  note T = set_interval_without_range[OF n r, of "'':1.42''" 5
      "\<lparr>attr = attr interval_char, desc = []\<rparr>"]
  from T have z: "t_min ?t = 0 \<and> t_max ?t = 0" by blast
  from T c(1) g have 1: "write_attr_interval ?t 5 = (Btd_error_invalid_args, [])" by simp
  from T c(1) g have "write_attr_interval ?t 0
      = (Method_return,
         [Gatt_write_char (attrib ?t)
            (gc_value_handle (attr \<lparr>attr = attr interval_char, desc = []\<rparr>)) [0, 0]
            (Write_interval_cb 0)])" by blast
  then have 2: "write_attr_interval ?t 0
      = (Method_return, [Gatt_write_char (Some 1) 0x0014 [0, 0] (Write_interval_cb 0)])"
    unfolding gv c(3) .
  from n r c(2) z 1 2 show ?thesis by blast
qed

text \<open>
  C10 as stated fails: after a disconnection the interval is still established and no
  range was applied, and the request to set the interval to 5 is answered NotConnected.
\<close>

theorem set_interval_disconnected_counterexample:
  "no_valid_range example_events
   \<and> thermometer_run example_mktime
       (fst (thermometer_register (thermometer_adapter_register 0) 1
               \<lparr>r_start = 0x0010, r_end = 0x0016\<rparr> 1)) example_events
     = Some disconnected_thermometer
   \<and> has_interval disconnected_thermometer
   \<and> t_min disconnected_thermometer = 0 \<and> t_max disconnected_thermometer = 0
   \<and> set_property disconnected_thermometer interval_msg = (Btd_error_not_connected, [])
   \<and> write_attr_interval disconnected_thermometer 5 = (Btd_error_not_connected, [])"
proof -
  have a: "has_interval disconnected_thermometer" "t_min disconnected_thermometer = 0"
    "t_max disconnected_thermometer = 0" "attrib disconnected_thermometer = None"
    by (simp_all add: disconnected_thermometer_def)
  from a(4) have w: "write_attr_interval disconnected_thermometer 5
      = (Btd_error_not_connected, [])"
    by (rule write_attr_interval_not_connected)
  from a(1) have "set_property disconnected_thermometer interval_msg
      = write_attr_interval disconnected_thermometer 5"
    unfolding interval_msg_def by (rule set_property_interval)
  with w have s: "set_property disconnected_thermometer interval_msg
      = (Btd_error_not_connected, [])" by simp
  from example_events_no_range example_events_run a(1,2,3) s w show ?thesis by simp
qed

subsection \<open>Properties of the records of the characteristics\<close>

text \<open>
  The list \<open>chars\<close> only grows: \<open>configure_thermometer_cb\<close> appends a record for each
  characteristic of a discovery that succeeded, and no other event adds, removes or
  renames a record.
\<close>

lemma change_property_keeps_chars:
  "change_property t name v = Some (t', es) \<Longrightarrow> chars t' = chars t"
  unfolding change_property_def
  by (cases v) (auto split: if_splits)

lemma process_thermometer_char_keeps_chars:
  "process_thermometer_char t ci ch = Some (t', es) \<Longrightarrow> chars t' = chars t"
  unfolding process_thermometer_char_def
  by (auto split: if_splits dest: change_property_keeps_chars)

lemma configure_thermometer_loop_chars:
  "configure_thermometer_loop t cs = Some (t', es) \<Longrightarrow>
     char_uuids t' = char_uuids t @ map gc_uuid cs"
proof (induction cs arbitrary: t t' es)
  case Nil
  then show ?case by simp
next
  case (Cons c cs)
  let ?ch = "\<lparr>attr = \<lparr>gc_uuid = gc_uuid c, gc_handle = gc_handle c,
                         gc_properties = gc_properties c,
                         gc_value_handle = gc_value_handle c\<rparr>, desc = []\<rparr>"
  let ?t1 = "t\<lparr>chars := g_slist_append (chars t) ?ch\<rparr>"
  from Cons.prems obtain t2 es1 where
    p: "process_thermometer_char ?t1 (length (chars t)) ?ch = Some (t2, es1)"
    by (auto simp add: Let_def split: option.splits)
  with Cons.prems obtain t3 es3 where
    l: "configure_thermometer_loop t2 cs = Some (t3, es3)" and e: "t' = t3"
    by (auto simp add: Let_def split: option.splits)
  from process_thermometer_char_keeps_chars[OF p]
  have "char_uuids t2 = char_uuids t @ [gc_uuid c]"
    by (simp add: char_uuids_def g_slist_append_def)
  with Cons.IH[OF l] e show ?case by simp
qed

lemma discover_desc_loop_attr:
  "attr (fst (discover_desc_loop t fw iw ci ch entries)) = attr ch"
proof (induction entries arbitrary: ch)
  case Nil
  show ?case by simp
next
  case (Cons e entries)
  obtain h u where e: "e = (h, u)" by (cases e) auto
  show ?case unfolding e by (simp add: Let_def split_def Cons.IH)
qed

lemma map_update_same: "i < length xs \<Longrightarrow> f y = f (xs ! i) \<Longrightarrow> map f (xs[i := y]) = map f xs"
  by (simp add: map_update list_update_same_conv)

lemma discover_desc_cb_chars:
  "discover_desc_cb t fw iw ci status resp = Some (t', es) \<Longrightarrow> char_uuids t' = char_uuids t"
  unfolding discover_desc_cb_def char_uuids_def
  by (auto simp add: Let_def split_def map_update_same discover_desc_loop_attr
      split: if_splits option.splits)

lemma read_temp_type_cb_chars:
  "read_temp_type_cb t status resp = Some (t', es) \<Longrightarrow> chars t' = chars t"
  unfolding read_temp_type_cb_def
  by (auto split: if_splits option.splits read_resp.splits)

lemma read_interval_cb_chars:
  "read_interval_cb t status resp = Some (t', es) \<Longrightarrow> chars t' = chars t"
  unfolding read_interval_cb_def
  by (auto split: if_splits option.splits read_resp.splits dest: change_property_keeps_chars)

lemma write_interval_cb_chars:
  "write_interval_cb t status ok i = Some (t', es) \<Longrightarrow> chars t' = chars t"
  unfolding write_interval_cb_def
  by (auto split: if_splits dest: change_property_keeps_chars)

lemma attio_chars:
  "chars (fst (attio_connected_cb t a i n)) = chars t"
  "chars (fst (attio_disconnected_cb t)) = chars t"
  by (simp_all add: attio_connected_cb_def attio_disconnected_cb_def Let_def)

lemma valid_range_desc_cb_chars:
  "valid_range_desc_cb t status resp = Some (t', es) \<Longrightarrow> chars t' = chars t"
  unfolding valid_range_desc_cb_def
  by (auto split: if_splits option.splits read_resp.splits prod.splits
      dest!: change_property_keeps_chars)

lemma proc_measurement_interval_chars:
  "proc_measurement_interval t pdu len = Some (t', es) \<Longrightarrow> chars t' = chars t"
  unfolding proc_measurement_interval_def
  by (auto split: if_splits Option.bind_splits dest: change_property_keeps_chars)

lemma ind_handler_chars:
  "ind_handler t fw iw mktime cnf pdu len = Some (t', es) \<Longrightarrow> chars t' = chars t"
  unfolding ind_handler_def
  by (auto split: if_splits Option.bind_splits option.splits
      dest: proc_measurement_interval_chars)

lemma thermometer_step_chars:
  assumes "thermometer_step mktime fw iw t ev = Some (t', es)"
  shows "char_uuids t' = char_uuids t @ discovered_uuids ev"
proof (cases ev)
  case (Attio_connected a i n)
  with assms attio_chars(1)[of t a i n] show ?thesis by (auto simp add: char_uuids_def)
next
  case Attio_disconnected
  with assms attio_chars(2)[of t] show ?thesis by (auto simp add: char_uuids_def)
next
  case (Characteristics_discovered cs status)
  with assms show ?thesis
    by (auto simp add: configure_thermometer_cb_def split: if_splits
        dest: configure_thermometer_loop_chars)
next
  case (Descriptors_discovered ci status resp)
  with assms show ?thesis by (auto dest: discover_desc_cb_chars)
next
  case (Temp_type_read status resp)
  with assms show ?thesis by (auto simp add: char_uuids_def dest: read_temp_type_cb_chars)
next
  case (Interval_read status resp)
  with assms show ?thesis by (auto simp add: char_uuids_def dest: read_interval_cb_chars)
next
  case (Valid_range_read status resp)
  with assms show ?thesis by (auto simp add: char_uuids_def dest: valid_range_desc_cb_chars)
next
  case (Interval_written status ok i)
  with assms show ?thesis by (auto simp add: char_uuids_def dest: write_interval_cb_chars)
next
  case (Indication cnf pdu len)
  with assms show ?thesis by (auto simp add: char_uuids_def dest: ind_handler_chars)
next
  case (Notification pdu len)
  with assms show ?thesis by (auto simp add: char_uuids_def dest: notif_handler_keeps)
qed

lemma thermometer_run_chars:
  "thermometer_run mktime t evs = Some t' \<Longrightarrow>
     char_uuids t' = char_uuids t @ concat (map (\<lambda>(fw, iw, ev). discovered_uuids ev) evs)"
proof (induction evs arbitrary: t)
  case Nil
  then show ?case by simp
next
  case (Cons e evs)
  obtain fw iw ev where e: "e = (fw, iw, ev)" by (cases e) auto
  from Cons.prems e obtain t1 es where
    s: "thermometer_step mktime fw iw t ev = Some (t1, es)"
    and u: "thermometer_run mktime t1 evs = Some t'"
    by (auto split: option.splits)
  from thermometer_step_chars[OF s] Cons.IH[OF u] e show ?case by simp
qed

lemma distinct_filter_once: "distinct (map f xs) \<Longrightarrow> length (filter (\<lambda>x. f x = u) xs) \<le> 1"
  by (induction xs) (auto simp add: filter_empty_conv intro: rev_image_eqI)

text \<open>
  A thermometer holds each characteristic at most once after any sequence of events in
  which the characteristic discoveries that succeeded have reported no characteristic
  twice: the first connection to a service that has each characteristic once.
\<close>

lemma recorded_once_first_discovery:
  assumes "thermometer_run mktime (fst (thermometer_register ta device r ioid)) evs = Some t'"
    and "distinct (concat (map (\<lambda>(fw, iw, ev). discovered_uuids ev) evs))"
  shows "recorded_once t' uuid"
proof -
  have "char_uuids (fst (thermometer_register ta device r ioid)) = []"
    by (simp add: char_uuids_def thermometer_register_def g_new0_thermometer_def Let_def)
  with thermometer_run_chars[OF assms(1)] assms(2) have "distinct (char_uuids t')" by simp
  then show ?thesis unfolding recorded_once_def char_uuids_def by (rule distinct_filter_once)
qed

text \<open>
  A thermometer keeps the records of its characteristics over a disconnection
  (\<open>attio_disconnected_cb\<close> leaves \<open>chars\<close> as it is) and \<open>configure_thermometer_cb\<close> appends
  the records of the next discovery. After the events of \<open>reconnect_events\<close> the
  thermometer is connected and holds two records of the Temperature Measurement
  characteristic, the first without descriptors and the second with the configuration
  descriptor; \<open>write_ccc\<close> looks at the first record only, so the first registration of a
  watcher makes no write.
\<close>

lemma reconnect_events_run:
  "thermometer_run example_mktime
     (fst (thermometer_register (thermometer_adapter_register 0) 1
             \<lparr>r_start = 0x0010, r_end = 0x0016\<rparr> 1)) reconnect_events
   = Some reconnected_thermometer"
  by (simp add: reconnect_events_def thermometer_register_def thermometer_adapter_register_def
      g_new0_thermometer_def attio_connected_cb_def attio_disconnected_cb_def
      configure_thermometer_cb_def process_thermometer_char_def measurement_char_def
      discover_desc_cb_def process_thermometer_desc_def g_slist_append_def
      reconnected_thermometer_def Let_def TEMPERATURE_MEASUREMENT_UUID_def
      MEASUREMENT_INTERVAL_UUID_def INTERMEDIATE_TEMPERATURE_UUID_def TEMPERATURE_TYPE_UUID_def)

lemma reconnected_thermometer_no_write:
  "ccc_discovered reconnected_thermometer TEMPERATURE_MEASUREMENT_UUID
   \<and> \<not> recorded_once reconnected_thermometer TEMPERATURE_MEASUREMENT_UUID
   \<and> fst (register_watcher
        \<lparr>adapter = 0, devices = [reconnected_thermometer], fwatchers = [], iwatchers = []\<rparr>
        example_msg 7) = Method_return
   \<and> gatt_writes (snd (snd (register_watcher
        \<lparr>adapter = 0, devices = [reconnected_thermometer], fwatchers = [], iwatchers = []\<rparr>
        example_msg 7))) = []"
proof -
  have c: "chars reconnected_thermometer
      = [\<lparr>attr = attr measurement_char, desc = []\<rparr>, measurement_char]"
    "attrib reconnected_thermometer = Some 2"
    by (simp_all add: reconnected_thermometer_def)
  have d: "ccc_discovered reconnected_thermometer TEMPERATURE_MEASUREMENT_UUID"
    by (simp add: ccc_discovered_def c example_chars)
  have r: "\<not> recorded_once reconnected_thermometer TEMPERATURE_MEASUREMENT_UUID"
    by (simp add: recorded_once_def c example_chars)
  have "gatt_writes (g_slist_foreach [reconnected_thermometer] enable_final_measurement) = []"
    by (simp add: g_slist_foreach_def enable_final_measurement_def write_ccc_def c
        get_characteristic_def get_descriptor_def g_slist_find_custom_def cmp_char_uuid_def
        example_chars)
  with d r show ?thesis
    by (simp add: example_register gatt_writes_register_watcher)
qed

end
